theory Spec2Isabelle
  imports Complex_Main "HOL-Library.Log_Nat" "HOL-Library.Sublist" "HOL-Library.Word"
begin

section \<open>Python values used by the tool\<close>

subsection \<open>Floats (IEEE 754 binary64)\<close>

text \<open>
  A Python \<^verbatim>\<open>float\<close> is a binary64 number. A finite double is carried by its exact
  rational value (\<open>Fin\<close>); the two infinities and NaN are separate values. The sign of
  zero is not tracked: \<^verbatim>\<open>-0.0\<close> and \<^verbatim>\<open>0.0\<close> are both \<open>Fin 0\<close> (they compare equal in
  Python and differ only when printed). Every arithmetic operation computes the exact
  rational result and rounds it to the nearest double, ties to even, as the hardware does.
\<close>

datatype pyfloat = Fin rat | PInf | NInf | NaN

definition round_half_even :: "rat \<Rightarrow> int" where
  "round_half_even y =
     (let f = \<lfloor>y\<rfloor>; d = y - of_int f
      in if d < 1 / 2 then f
         else if 1 / 2 < d then f + 1
         else if even f then f else f + 1)"

text \<open>\<open>ilog2 x\<close> is the binary exponent of \<open>x \<noteq> 0\<close>: \<open>2 powi ilog2 x \<le> \<bar>x\<bar> < 2 powi (ilog2 x + 1)\<close>.\<close>

definition ilog2 :: "rat \<Rightarrow> int" where
  "ilog2 x = (if 1 \<le> \<bar>x\<bar> then bitlen \<lfloor>\<bar>x\<bar>\<rfloor> - 1
              else - bitlen (\<lceil>1 / \<bar>x\<bar>\<rceil> - 1))"

text \<open>
  The exponent a double near \<open>x\<close> is stored with (subnormals share the exponent \<open>-1022\<close>)
  and the spacing of the doubles there: 53 significant bits.
\<close>

definition bexp :: "rat \<Rightarrow> int" where
  "bexp x = max (ilog2 x) (- 1022)"

definition quantum :: "rat \<Rightarrow> rat" where
  "quantum x = 2 powi (bexp x - 52)"

definition round_double :: "rat \<Rightarrow> rat" where
  "round_double x = of_int (round_half_even (x / quantum x)) * quantum x"

text \<open>Rounding an exact result into a float: beyond the largest double it overflows to an infinity.\<close>

definition to_float :: "rat \<Rightarrow> pyfloat" where
  "to_float x =
     (let r = round_double x
      in if 2 ^ 1024 \<le> r then PInf else if r \<le> - (2 ^ 1024) then NInf else Fin r)"

fun fsgn :: "pyfloat \<Rightarrow> rat" where
  "fsgn (Fin a) = sgn a"
| "fsgn PInf = 1"
| "fsgn NInf = - 1"
| "fsgn NaN = 0"

definition finf :: "rat \<Rightarrow> pyfloat" where
  "finf s = (if s = 0 then NaN else if 0 < s then PInf else NInf)"

fun fneg :: "pyfloat \<Rightarrow> pyfloat" where
  "fneg (Fin a) = Fin (- a)"
| "fneg PInf = NInf"
| "fneg NInf = PInf"
| "fneg NaN = NaN"

text \<open>\<^verbatim>\<open>x + y\<close>, \<^verbatim>\<open>x - y\<close>, \<^verbatim>\<open>x * y\<close> on floats.\<close>

fun fadd :: "pyfloat \<Rightarrow> pyfloat \<Rightarrow> pyfloat" where
  "fadd (Fin a) (Fin b) = to_float (a + b)"
| "fadd NaN y = NaN"
| "fadd x NaN = NaN"
| "fadd PInf NInf = NaN"
| "fadd NInf PInf = NaN"
| "fadd PInf y = PInf"
| "fadd NInf y = NInf"
| "fadd x PInf = PInf"
| "fadd x NInf = NInf"

definition fsub :: "pyfloat \<Rightarrow> pyfloat \<Rightarrow> pyfloat" where
  "fsub x y = fadd x (fneg y)"

fun fmul :: "pyfloat \<Rightarrow> pyfloat \<Rightarrow> pyfloat" where
  "fmul (Fin a) (Fin b) = to_float (a * b)"
| "fmul NaN y = NaN"
| "fmul x NaN = NaN"
| "fmul x y = finf (fsgn x * fsgn y)"

text \<open>Comparisons: \<^verbatim>\<open>x < y\<close>, \<^verbatim>\<open>x <= y\<close>, \<^verbatim>\<open>x >= y\<close>, \<^verbatim>\<open>x == y\<close>. Any comparison with NaN is false.
  Comparing a float with an \<^verbatim>\<open>int\<close> literal (\<^verbatim>\<open>vram_gb >= 48\<close>, \<^verbatim>\<open>vram_gb == 0\<close>) compares the exact
  values, so the literal is written as the float of the same value.\<close>

fun flt :: "pyfloat \<Rightarrow> pyfloat \<Rightarrow> bool" where
  "flt NaN y = False"
| "flt x NaN = False"
| "flt (Fin a) (Fin b) = (a < b)"
| "flt x PInf = (x \<noteq> PInf)"
| "flt NInf y = (y \<noteq> NInf)"
| "flt x y = False"

fun feq :: "pyfloat \<Rightarrow> pyfloat \<Rightarrow> bool" where
  "feq NaN y = False"
| "feq x NaN = False"
| "feq x y = (x = y)"

definition fle :: "pyfloat \<Rightarrow> pyfloat \<Rightarrow> bool" where
  "fle x y = (flt x y \<or> feq x y)"

definition fge :: "pyfloat \<Rightarrow> pyfloat \<Rightarrow> bool" where
  "fge x y = fle y x"

subsection \<open>Exceptions\<close>

text \<open>
  The exception classes the program meets, all of them subclasses of \<^verbatim>\<open>Exception\<close>
  (\<open>OtherException\<close> stands for any other subclass of it; \<^verbatim>\<open>IOError\<close> is Python's alias of
  \<^verbatim>\<open>OSError\<close>). An exception carries the text that \<^verbatim>\<open>str(e)\<close> prints.
\<close>

datatype exc_class =
  RuntimeError | AttributeError | ImportError | OSError
  | ValueError | OverflowError | ZeroDivisionError | OtherException

datatype py_exception = PyExc (exc_class: exc_class) (exc_msg: string)

text \<open>\<^verbatim>\<open>x / y\<close> on floats raises on a zero divisor.\<close>

fun py_truediv :: "pyfloat \<Rightarrow> pyfloat \<Rightarrow> py_exception + pyfloat" where
  "py_truediv x (Fin b) =
     (if b = 0 then Inl (PyExc ZeroDivisionError ''float division by zero'')
      else case x of
             Fin a \<Rightarrow> Inr (to_float (a / b))
           | NaN \<Rightarrow> Inr NaN
           | _ \<Rightarrow> Inr (finf (fsgn x * sgn b)))"
| "py_truediv x NaN = Inr NaN"
| "py_truediv (Fin a) y = Inr (Fin 0)"
| "py_truediv x y = Inr NaN"

text \<open>\<^verbatim>\<open>a / b\<close> on two \<^verbatim>\<open>int\<close>s: the correctly rounded quotient.\<close>

definition int_truediv :: "int \<Rightarrow> int \<Rightarrow> py_exception + pyfloat" where
  "int_truediv a b =
     (if b = 0 then Inl (PyExc ZeroDivisionError ''division by zero'')
      else case to_float (of_int a / of_int b) of
             Fin r \<Rightarrow> Inr (Fin r)
           | _ \<Rightarrow> Inl (PyExc OverflowError ''integer division result too large for a float''))"

text \<open>\<^verbatim>\<open>int(x)\<close> truncates towards zero and raises on NaN and on the infinities.\<close>

fun py_int :: "pyfloat \<Rightarrow> py_exception + int" where
  "py_int (Fin r) = Inr (if 0 \<le> r then \<lfloor>r\<rfloor> else \<lceil>r\<rceil>)"
| "py_int NaN = Inl (PyExc ValueError ''cannot convert float NaN to integer'')"
| "py_int x = Inl (PyExc OverflowError ''cannot convert float infinity to integer'')"

subsection \<open>Formatting\<close>

text \<open>
  A Python \<^verbatim>\<open>str\<close> is modelled by its UTF-8 encoding, the bytes \<^verbatim>\<open>write_text\<close> puts in the
  file. \<open>str_nat\<close> and \<open>str_int\<close> are \<^verbatim>\<open>str\<close> on integers, \<open>format_float p\<close> is the format
  specification \<^verbatim>\<open>.pf\<close> (\<open>p \<ge> 1\<close>): the exact value rounded to \<open>p\<close> decimals, ties to even.
\<close>

definition digit_char :: "nat \<Rightarrow> char" where
  "digit_char d = char_of (48 + d)"

function str_nat :: "nat \<Rightarrow> string" where
  "str_nat n = (if n < 10 then [digit_char n] else str_nat (n div 10) @ [digit_char (n mod 10)])"
  by pat_completeness auto
termination
  by (relation "measure id") auto

declare str_nat.simps [simp del]

definition str_int :: "int \<Rightarrow> string" where
  "str_int i = (if i < 0 then ''-'' @ str_nat (nat (- i)) else str_nat (nat i))"

fun format_float :: "nat \<Rightarrow> pyfloat \<Rightarrow> string" where
  "format_float p (Fin r) =
     (let n = nat (round_half_even (\<bar>r\<bar> * 10 ^ p));
          ds = str_nat (n mod 10 ^ p)
      in (if r < 0 then ''-'' else []) @ str_nat (n div 10 ^ p) @ ''.'' @
         replicate (p - length ds) (CHR ''0'') @ ds)"
| "format_float p PInf = ''inf''"
| "format_float p NInf = ''-inf''"
| "format_float p NaN = ''nan''"

declare format_float.simps [simp del]

section \<open>\<^verbatim>\<open>ll_model_selection.py\<close>\<close>

subsection \<open>Constants\<close>

definition MPS_USABLE_MEMORY_RATIO :: pyfloat where "MPS_USABLE_MEMORY_RATIO = Fin (3 / 4)"
definition CPU_USABLE_MEMORY_RATIO :: pyfloat where "CPU_USABLE_MEMORY_RATIO = Fin (1 / 2)"
definition CONTEXT_OVERHEAD_GB :: pyfloat where "CONTEXT_OVERHEAD_GB = Fin 2"
definition QUANT_4BIT_GB_PER_BILLION :: pyfloat where "QUANT_4BIT_GB_PER_BILLION = Fin (3 / 4)"

definition VRAM_TIER_ENTERPRISE :: pyfloat where "VRAM_TIER_ENTERPRISE = Fin 48"
definition VRAM_TIER_PROFESSIONAL :: pyfloat where "VRAM_TIER_PROFESSIONAL = Fin 24"
definition VRAM_TIER_ADVANCED :: pyfloat where "VRAM_TIER_ADVANCED = Fin 16"
definition VRAM_TIER_STANDARD :: pyfloat where "VRAM_TIER_STANDARD = Fin 8"

subsection \<open>The machine the tool runs on\<close>

text \<open>
  What the collaborators answer: \<^verbatim>\<open>platform.system()\<close>, \<^verbatim>\<open>psutil.virtual_memory().total\<close>,
  the \<^verbatim>\<open>torch.cuda\<close> and \<^verbatim>\<open>torch.backends.mps\<close> queries, the clock, and the file system and
  browser calls of \<^verbatim>\<open>main\<close>. A query made inside a \<^verbatim>\<open>try\<close> block either answers or raises.
  Byte counts are the unsigned 64-bit sizes the operating system and the driver report.
  The calls that stand outside every \<^verbatim>\<open>try\<close> block (\<^verbatim>\<open>print\<close>, \<^verbatim>\<open>platform.system()\<close>,
  \<^verbatim>\<open>psutil.virtual_memory()\<close>, the imports) are taken to return in the two functions below;
  the section on calls outside a \<^verbatim>\<open>try\<close> block executes them.
\<close>

record device_properties =
  props_name :: string
  props_total_memory :: "64 word"

record host =
  platform_system :: string
  virtual_memory_total :: "64 word"
  cuda_is_available :: "py_exception + bool"
  cuda_device_count :: "py_exception + nat"
  cuda_get_device_properties :: "nat \<Rightarrow> py_exception + device_properties"
  mps_is_available :: "py_exception + bool"
  now_strftime :: string
  path_absolute :: "string \<Rightarrow> string"
  write_text :: "string \<Rightarrow> string \<Rightarrow> py_exception option"
  webbrowser_open :: "string \<Rightarrow> py_exception option"

subsection \<open>\<^verbatim>\<open>get_hardware_capacity\<close>\<close>

text \<open>An entry of \<^verbatim>\<open>gpu_details\<close>: the dict \<^verbatim>\<open>{'name': ..., 'vram': ...}\<close>.\<close>

record gpu_detail =
  gpu_name :: string
  gpu_vram :: pyfloat

text \<open>The local variables the three detection steps update, and the lines printed so far.\<close>

record probe_state =
  st_device_type :: string
  st_vram_gb :: pyfloat
  st_gpu_details :: "gpu_detail list"
  st_console :: "string list"

text \<open>The body of \<^verbatim>\<open>for i in range(gpu_count)\<close>; an exception leaves the loop with the state
  reached so far.\<close>

fun cuda_device_loop :: "host \<Rightarrow> nat list \<Rightarrow> probe_state \<Rightarrow> py_exception option \<times> probe_state" where
  "cuda_device_loop h [] s = (None, s)"
| "cuda_device_loop h (i # rest) s =
     (case cuda_get_device_properties h i of
        Inl e \<Rightarrow> (Some e, s)
      | Inr props \<Rightarrow>
          (case int_truediv (uint (props_total_memory props)) (1024 ^ 3) of
             Inl e \<Rightarrow> (Some e, s)
           | Inr v_mem \<Rightarrow>
               cuda_device_loop h rest
                 (s\<lparr>st_console := st_console s @
                      [''  - GPU '' @ str_nat i @ '': '' @ props_name props @ '' | '' @
                       format_float 2 v_mem @ '' GB VRAM''],
                    st_gpu_details := st_gpu_details s @
                      [\<lparr>gpu_name = props_name props, gpu_vram = v_mem\<rparr>],
                    st_vram_gb := fadd (st_vram_gb s) v_mem\<rparr>)))"

text \<open>Step 1, the \<^verbatim>\<open>try\<close> block and its handlers.\<close>

definition cuda_try :: "host \<Rightarrow> probe_state \<Rightarrow> py_exception option \<times> probe_state" where
  "cuda_try h s =
     (case cuda_is_available h of
        Inl e \<Rightarrow> (Some e, s)
      | Inr available \<Rightarrow>
          if available then
            (let s1 = s\<lparr>st_device_type := ''cuda''\<rparr>
             in case cuda_device_count h of
                  Inl e \<Rightarrow> (Some e, s1)
                | Inr gpu_count \<Rightarrow>
                    cuda_device_loop h [0..<gpu_count]
                      (s1\<lparr>st_console := st_console s1 @
                         [''* Backend: NVIDIA CUDA ('' @ str_nat gpu_count @ '' devices)'']\<rparr>))
          else (None, s))"

definition cuda_except :: "py_exception \<Rightarrow> string" where
  "cuda_except e =
     (if exc_class e = RuntimeError \<or> exc_class e = AttributeError
      then ''  Warning: CUDA detection failed: '' @ exc_msg e
      else if exc_class e = ImportError
      then ''  Warning: CUDA not available (PyTorch built without CUDA support)''
      else ''  Warning: Unexpected error during CUDA detection: '' @ exc_msg e)"

definition check_nvidia_gpu :: "host \<Rightarrow> probe_state \<Rightarrow> probe_state" where
  "check_nvidia_gpu h s =
     (case cuda_try h s of
        (None, s') \<Rightarrow> s'
      | (Some e, s') \<Rightarrow> s'\<lparr>st_console := st_console s' @ [cuda_except e]\<rparr>)"

text \<open>Step 2.\<close>

definition mps_try :: "host \<Rightarrow> pyfloat \<Rightarrow> probe_state \<Rightarrow> py_exception option \<times> probe_state" where
  "mps_try h ram_gb s =
     (case mps_is_available h of
        Inl e \<Rightarrow> (Some e, s)
      | Inr available \<Rightarrow>
          if available then
            (let vram_gb = fmul ram_gb MPS_USABLE_MEMORY_RATIO
             in (None,
                 s\<lparr>st_device_type := ''mps'',
                   st_vram_gb := vram_gb,
                   st_console := st_console s @
                     [''* Backend: Apple Metal Performance Shaders (MPS)'',
                      ''* Unified Memory: '' @ format_float 2 ram_gb @
                      '' GB (Est. Usable for AI: '' @ format_float 2 vram_gb @ '' GB)'']\<rparr>))
          else (None, s))"

definition mps_except :: "py_exception \<Rightarrow> string" where
  "mps_except e =
     (if exc_class e = RuntimeError \<or> exc_class e = AttributeError
      then ''  Warning: MPS detection failed: '' @ exc_msg e
      else ''  Warning: Unexpected error during MPS detection: '' @ exc_msg e)"

definition check_apple_silicon :: "host \<Rightarrow> pyfloat \<Rightarrow> probe_state \<Rightarrow> probe_state" where
  "check_apple_silicon h ram_gb s =
     (case mps_try h ram_gb s of
        (None, s') \<Rightarrow> s'
      | (Some e, s') \<Rightarrow> s'\<lparr>st_console := st_console s' @ [mps_except e]\<rparr>)"

text \<open>Step 3.\<close>

definition fallback_to_cpu :: "pyfloat \<Rightarrow> probe_state \<Rightarrow> probe_state" where
  "fallback_to_cpu ram_gb s =
     (let vram_gb = fmul ram_gb CPU_USABLE_MEMORY_RATIO
      in s\<lparr>st_device_type := ''cpu'',
           st_vram_gb := vram_gb,
           st_console := st_console s @
             [''* Backend: CPU Only (Not recommended for large models)'',
              ''* Estimated Usable Memory: '' @ format_float 2 vram_gb @ '' GB'']\<rparr>)"

text \<open>The returned tuple \<^verbatim>\<open>(vram_gb, device_type, ram_gb, system, gpu_details)\<close>, with the
  printed lines beside it.\<close>

type_synonym capacity = "pyfloat \<times> string \<times> pyfloat \<times> string \<times> gpu_detail list"

definition get_hardware_capacity :: "host \<Rightarrow> py_exception + (capacity \<times> string list)" where
  "get_hardware_capacity h =
     (let system = platform_system h
      in case int_truediv (uint (virtual_memory_total h)) (1024 ^ 3) of
           Inl e \<Rightarrow> Inl e
         | Inr ram_gb \<Rightarrow>
             (let s0 = \<lparr>st_device_type = ''cpu'', st_vram_gb = Fin 0, st_gpu_details = [],
                        st_console = [''### Hardware Audit: '' @ system @ '' ###'',
                                      ''* System RAM: '' @ format_float 2 ram_gb @ '' GB'']\<rparr>;
                  s1 = check_nvidia_gpu h s0;
                  s2 = (if feq (st_vram_gb s1) (Fin 0) then check_apple_silicon h ram_gb s1 else s1);
                  s3 = (if feq (st_vram_gb s2) (Fin 0) then fallback_to_cpu ram_gb s2 else s2)
              in Inr ((st_vram_gb s3, st_device_type s3, ram_gb, system, st_gpu_details s3),
                      st_console s3)))"

subsection \<open>\<^verbatim>\<open>recommend_models\<close>\<close>

text \<open>The five model lists of the \<^verbatim>\<open>if\<close>/\<^verbatim>\<open>elif\<close> chain on \<^verbatim>\<open>vram_gb\<close>.\<close>

definition enterprise_models :: "(string \<times> string) list" where
  "enterprise_models =
     [(''Llama-3.1-70B / Llama-3.3-70B'', ''High performance flagship models''),
      (''Qwen2.5-72B'', ''Excellent reasoning and multilingual capabilities''),
      (''Mixtral 8x7B'', ''Mixture of Experts architecture for efficiency'')]"

definition professional_models :: "(string \<times> string) list" where
  "professional_models =
     [(''Llama-3.1-70B'', ''Heavily quantized, may be slower but very capable''),
      (''Mixtral 8x7B'', ''Comfortable fit with good performance''),
      (''Command R (35B)'', ''Optimized for RAG and tool use''),
      (''Qwen2.5-32B'', ''Strong reasoning with multilingual support'')]"

definition advanced_models :: "(string \<times> string) list" where
  "advanced_models =
     [(''Llama-3.1-13B / Llama-2-13B'', ''Balanced performance and efficiency''),
      (''Mistral-7B'', ''Quantized with plenty of headroom''),
      (''Qwen2.5-14B'', ''Strong performance in this tier'')]"

definition standard_models :: "(string \<times> string) list" where
  "standard_models =
     [(''Llama-3.1-8B'', ''Gold standard for consumer hardware''),
      (''Mistral-7B'', ''Excellent general-purpose model''),
      (''Gemma-7B'', ''Google's efficient open model''),
      (''Qwen2.5-7B'', ''Strong multilingual capabilities'')]"

definition entry_models :: "(string \<times> string) list" where
  "entry_models =
     [(''Phi-3-mini (3.8B)'', ''Highly capable for its size''),
      (''Gemma-2B'', ''Efficient small model''),
      (''TinyLlama (1.1B)'', ''Minimal resource requirements'')]"

definition select_models :: "pyfloat \<Rightarrow> (string \<times> string) list" where
  "select_models vram_gb =
     (if fge vram_gb VRAM_TIER_ENTERPRISE then enterprise_models
      else if fge vram_gb VRAM_TIER_PROFESSIONAL then professional_models
      else if fge vram_gb VRAM_TIER_ADVANCED then advanced_models
      else if fge vram_gb VRAM_TIER_STANDARD then standard_models
      else entry_models)"

text \<open>
  \<^verbatim>\<open>max_params\<close> holds a float, or the \<^verbatim>\<open>int\<close> 0 or 2, which is carried as the float of the
  same value (only \<^verbatim>\<open>< 2\<close> and \<^verbatim>\<open>int()\<close> are applied to it). The first \<^verbatim>\<open>int(max_params)\<close>
  is inside the third \<^verbatim>\<open>print\<close>; when it raises, nothing is returned.
\<close>

definition recommend_models ::
    "pyfloat \<Rightarrow> string \<Rightarrow> py_exception + ((int \<times> (string \<times> string) list) \<times> string list)" where
  "recommend_models vram_gb device_type =
     (case (if flt (Fin 0) QUANT_4BIT_GB_PER_BILLION
            then py_truediv (fsub vram_gb CONTEXT_OVERHEAD_GB) QUANT_4BIT_GB_PER_BILLION
            else Inr (Fin 0)) of
        Inl e \<Rightarrow> Inl e
      | Inr raw_params \<Rightarrow>
          (let max_params = (if flt raw_params (Fin 2) then Fin 2 else raw_params)
           in case py_int max_params of
                Inl e \<Rightarrow> Inl e
              | Inr n \<Rightarrow>
                  (let models = select_models vram_gb
                   in Inr ((n, models),
                        [''\<newline>### Feasible Local Deployment (4-bit Quantization) ###'',
                         ''* Effective VRAM Cap: '' @ format_float 2 vram_gb @ '' GB'',
                         ''* Theoretical Max Parameter Count: ~'' @ str_int n @ ''B'',
                         ''\<newline>Recommended Models (4-bit Quantization):''] @
                        map (\<lambda>(model_name, description). ''- '' @ model_name @ '': '' @ description)
                          models @
                        (if device_type = ''cpu''
                         then [''\<newline>'' @ [CHR 0xE2, CHR 0x9A, CHR 0xA0, CHR 0xEF, CHR 0xB8, CHR 0x8F] @
                                 ''  Note: CPU inference will be significantly slower than GPU/MPS.'',
                               ''   Consider using GGUF format models with llama.cpp for better CPU performance.'']
                         else [])))))"


section \<open>\<^verbatim>\<open>html_report.py\<close>\<close>

text \<open>\<^verbatim>\<open>backend_info.get(device_type, ('Unknown', ...))\<close>: display name, icon and colour.\<close>

definition backend_info :: "string \<Rightarrow> string \<times> string \<times> string" where
  "backend_info device_type =
     (if device_type = ''cuda'' then (''NVIDIA CUDA'', [CHR 0xF0, CHR 0x9F, CHR 0x8E, CHR 0xAE], ''#76B900'')
      else if device_type = ''mps'' then (''Apple Metal (MPS)'', [CHR 0xF0, CHR 0x9F, CHR 0x8D, CHR 0x8E], ''#147EFB'')
      else if device_type = ''cpu'' then (''CPU Only'', [CHR 0xF0, CHR 0x9F, CHR 0x92, CHR 0xBB], ''#FF6B6B'')
      else (''Unknown'', [CHR 0xE2, CHR 0x9D, CHR 0x93], ''#888888''))"

text \<open>One pass of the loop building \<^verbatim>\<open>gpu_html\<close>, and one of the loop building \<^verbatim>\<open>models_html\<close>.\<close>

definition gpu_card :: "gpu_detail \<Rightarrow> string" where
  \<open>gpu_card gpu =
     ''\<newline>'' @
     ''            <div class="gpu-card">\<newline>'' @
     ''                <div class="gpu-icon">'' @
     [CHR 0xF0, CHR 0x9F, CHR 0x8E, CHR 0xAE] @
     ''</div>\<newline>'' @
     ''                <div class="gpu-info">\<newline>'' @
     ''                    <div class="gpu-name">'' @
     gpu_name gpu @
     ''</div>\<newline>'' @
     ''                    <div class="gpu-vram">'' @
     format_float 2 (gpu_vram gpu) @
     '' GB VRAM</div>\<newline>'' @
     ''                </div>\<newline>'' @
     ''            </div>\<newline>'' @
     ''            ''\<close>

definition model_card :: "string \<times> string \<Rightarrow> string" where
  \<open>model_card m =
     (case m of (model_name, description) \<Rightarrow>
     ''\<newline>'' @
     ''            <div class="model-card">\<newline>'' @
     ''                <div class="model-icon">'' @
     [CHR 0xF0, CHR 0x9F, CHR 0xA4, CHR 0x96] @
     ''</div>\<newline>'' @
     ''                <div class="model-info">\<newline>'' @
     ''                    <div class="model-name">'' @
     model_name @
     ''</div>\<newline>'' @
     ''                    <div class="model-desc">'' @
     description @
     ''</div>\<newline>'' @
     ''                </div>\<newline>'' @
     ''            </div>\<newline>'' @
     ''            '')\<close>

text \<open>The performance tier badge: name and colour.\<close>

definition performance_tier :: "pyfloat \<Rightarrow> string \<times> string" where
  "performance_tier vram_gb =
     (if fge vram_gb (Fin 48) then (''Enterprise'', ''#9333EA'')
      else if fge vram_gb (Fin 24) then (''Professional'', ''#3B82F6'')
      else if fge vram_gb (Fin 16) then (''Advanced'', ''#10B981'')
      else if fge vram_gb (Fin 8) then (''Standard'', ''#F59E0B'')
      else (''Entry'', ''#EF4444''))"

text \<open>The literal text of the template, cut at its replacement fields.\<close>

definition html_template_00 :: string where
  \<open>html_template_00 =
     ''<!DOCTYPE html>\<newline>'' @
     ''<html lang="en">\<newline>'' @
     ''<head>\<newline>'' @
     ''    <meta charset="UTF-8">\<newline>'' @
     ''    <meta name="viewport" content="width=device-width, initial-scale=1.0">\<newline>'' @
     ''    <title>Hardware Analysis Report - LLM Model Selection</title>\<newline>'' @
     ''    <link href="https://fonts.googleapis.com/css2?family=Inter:wght@300;400;500;600;700;800&display=swap" rel="stylesheet">\<newline>'' @
     ''    <style>\<newline>'' @
     ''        * {\<newline>'' @
     ''            margin: 0;\<newline>'' @
     ''            padding: 0;\<newline>'' @
     ''            box-sizing: border-box;\<newline>'' @
     ''        }\<newline>'' @
     ''        \<newline>'' @
     ''        body {\<newline>'' @
     ''            font-family: 'Inter', -apple-system, BlinkMacSystemFont, 'Segoe UI', sans-serif;\<newline>'' @
     ''            background: linear-gradient(135deg, #667eea 0%, #764ba2 100%);\<newline>'' @
     ''            min-height: 100vh;\<newline>'' @
     ''            padding: 2rem;\<newline>'' @
     ''            color: #1a1a1a;\<newline>'' @
     ''        }\<newline>'' @
     ''        \<newline>'' @
     ''        .container {\<newline>'' @
     ''            max-width: 1200px;\<newline>'' @
     ''            margin: 0 auto;\<newline>'' @
     ''        }\<newline>'' @
     ''        \<newline>'' @
     ''        .header {\<newline>'' @
     ''            text-align: center;\<newline>'' @
     ''            margin-bottom: 3rem;\<newline>'' @
     ''            animation: fadeInDown 0.6s ease-out;\<newline>'' @
     ''        }\<newline>'' @
     ''        \<newline>'' @
     ''        .header h1 {\<newline>'' @
     ''            color: white;\<newline>'' @
     ''            font-size: 3rem;\<newline>'' @
     ''            font-weight: 800;\<newline>'' @
     ''            margin-bottom: 0.5rem;\<newline>'' @
     ''            text-shadow: 0 2px 20px rgba(0,0,0,0.2);\<newline>'' @
     ''        }\<newline>'' @
     ''        \<newline>'' @
     ''        .header .subtitle {\<newline>'' @
     ''            color: rgba(255,255,255,0.9);\<newline>'' @
     ''            font-size: 1.1rem;\<newline>'' @
     ''            font-weight: 400;\<newline>'' @
     ''        }\<newline>'' @
     ''        \<newline>'' @
     ''        .report-card {\<newline>'' @
     ''            background: white;\<newline>'' @
     ''            border-radius: 24px;\<newline>'' @
     ''            padding: 2.5rem;\<newline>'' @
     ''            margin-bottom: 1.5rem;\<newline>'' @
     ''            box-shadow: 0 20px 60px rgba(0,0,0,0.15);\<newline>'' @
     ''            animation: fadeInUp 0.6s ease-out;\<newline>'' @
     ''            transition: transform 0.3s ease, box-shadow 0.3s ease;\<newline>'' @
     ''        }\<newline>'' @
     ''        \<newline>'' @
     ''        .report-card:hover {\<newline>'' @
     ''            transform: translateY(-4px);\<newline>'' @
     ''            box-shadow: 0 25px 70px rgba(0,0,0,0.2);\<newline>'' @
     ''        }\<newline>'' @
     ''        \<newline>'' @
     ''        .card-header {\<newline>'' @
     ''            display: flex;\<newline>'' @
     ''            align-items: center;\<newline>'' @
     ''            justify-content: space-between;\<newline>'' @
     ''            margin-bottom: 2rem;\<newline>'' @
     ''            padding-bottom: 1.5rem;\<newline>'' @
     ''            border-bottom: 2px solid #f0f0f0;\<newline>'' @
     ''        }\<newline>'' @
     ''        \<newline>'' @
     ''        .card-title {\<newline>'' @
     ''            font-size: 1.75rem;\<newline>'' @
     ''            font-weight: 700;\<newline>'' @
     ''            color: #1a1a1a;\<newline>'' @
     ''            display: flex;\<newline>'' @
     ''            align-items: center;\<newline>'' @
     ''            gap: 0.75rem;\<newline>'' @
     ''        }\<newline>'' @
     ''        \<newline>'' @
     ''        .card-icon {\<newline>'' @
     ''            font-size: 2rem;\<newline>'' @
     ''        }\<newline>'' @
     ''        \<newline>'' @
     ''        .badge {\<newline>'' @
     ''            padding: 0.5rem 1.25rem;\<newline>'' @
     ''            border-radius: 50px;\<newline>'' @
     ''            font-weight: 600;\<newline>'' @
     ''            font-size: 0.875rem;\<newline>'' @
     ''            text-transform: uppercase;\<newline>'' @
     ''            letter-spacing: 0.5px;\<newline>'' @
     ''        }\<newline>'' @
     ''        \<newline>'' @
     ''        .tier-badge {\<newline>'' @
     ''            background: linear-gradient(135deg, ''\<close>

definition html_template_01 :: string where
  \<open>html_template_01 =
     '', ''\<close>

definition html_template_02 :: string where
  \<open>html_template_02 =
     ''dd);\<newline>'' @
     ''            color: white;\<newline>'' @
     ''            box-shadow: 0 4px 15px ''\<close>

definition html_template_03 :: string where
  \<open>html_template_03 =
     ''40;\<newline>'' @
     ''        }\<newline>'' @
     ''        \<newline>'' @
     ''        .stats-grid {\<newline>'' @
     ''            display: grid;\<newline>'' @
     ''            grid-template-columns: repeat(auto-fit, minmax(200px, 1fr));\<newline>'' @
     ''            gap: 1.5rem;\<newline>'' @
     ''            margin-bottom: 2rem;\<newline>'' @
     ''        }\<newline>'' @
     ''        \<newline>'' @
     ''        .stat-box {\<newline>'' @
     ''            background: linear-gradient(135deg, #f8f9fa 0%, #e9ecef 100%);\<newline>'' @
     ''            padding: 1.5rem;\<newline>'' @
     ''            border-radius: 16px;\<newline>'' @
     ''            border-left: 4px solid ''\<close>

definition html_template_04 :: string where
  \<open>html_template_04 =
     '';\<newline>'' @
     ''            transition: all 0.3s ease;\<newline>'' @
     ''        }\<newline>'' @
     ''        \<newline>'' @
     ''        .stat-box:hover {\<newline>'' @
     ''            transform: translateX(4px);\<newline>'' @
     ''            box-shadow: 0 8px 20px rgba(0,0,0,0.08);\<newline>'' @
     ''        }\<newline>'' @
     ''        \<newline>'' @
     ''        .stat-label {\<newline>'' @
     ''            font-size: 0.875rem;\<newline>'' @
     ''            color: #6b7280;\<newline>'' @
     ''            font-weight: 500;\<newline>'' @
     ''            text-transform: uppercase;\<newline>'' @
     ''            letter-spacing: 0.5px;\<newline>'' @
     ''            margin-bottom: 0.5rem;\<newline>'' @
     ''        }\<newline>'' @
     ''        \<newline>'' @
     ''        .stat-value {\<newline>'' @
     ''            font-size: 2rem;\<newline>'' @
     ''            font-weight: 700;\<newline>'' @
     ''            color: #1a1a1a;\<newline>'' @
     ''        }\<newline>'' @
     ''        \<newline>'' @
     ''        .stat-unit {\<newline>'' @
     ''            font-size: 1rem;\<newline>'' @
     ''            color: #6b7280;\<newline>'' @
     ''            font-weight: 500;\<newline>'' @
     ''        }\<newline>'' @
     ''        \<newline>'' @
     ''        .backend-display {\<newline>'' @
     ''            background: linear-gradient(135deg, ''\<close>

definition html_template_05 :: string where
  \<open>html_template_05 =
     ''15, ''\<close>

definition html_template_06 :: string where
  \<open>html_template_06 =
     ''05);\<newline>'' @
     ''            border: 2px solid ''\<close>

definition html_template_07 :: string where
  \<open>html_template_07 =
     ''40;\<newline>'' @
     ''            padding: 1.5rem;\<newline>'' @
     ''            border-radius: 16px;\<newline>'' @
     ''            display: flex;\<newline>'' @
     ''            align-items: center;\<newline>'' @
     ''            gap: 1rem;\<newline>'' @
     ''            margin-bottom: 2rem;\<newline>'' @
     ''        }\<newline>'' @
     ''        \<newline>'' @
     ''        .backend-icon {\<newline>'' @
     ''            font-size: 3rem;\<newline>'' @
     ''        }\<newline>'' @
     ''        \<newline>'' @
     ''        .backend-info {\<newline>'' @
     ''            flex: 1;\<newline>'' @
     ''        }\<newline>'' @
     ''        \<newline>'' @
     ''        .backend-name {\<newline>'' @
     ''            font-size: 1.5rem;\<newline>'' @
     ''            font-weight: 700;\<newline>'' @
     ''            color: ''\<close>

definition html_template_08 :: string where
  \<open>html_template_08 =
     '';\<newline>'' @
     ''            margin-bottom: 0.25rem;\<newline>'' @
     ''        }\<newline>'' @
     ''        \<newline>'' @
     ''        .backend-desc {\<newline>'' @
     ''            color: #6b7280;\<newline>'' @
     ''            font-size: 0.95rem;\<newline>'' @
     ''        }\<newline>'' @
     ''        \<newline>'' @
     ''        .gpu-grid {\<newline>'' @
     ''            display: grid;\<newline>'' @
     ''            gap: 1rem;\<newline>'' @
     ''            margin-top: 1.5rem;\<newline>'' @
     ''        }\<newline>'' @
     ''        \<newline>'' @
     ''        .gpu-card {\<newline>'' @
     ''            background: linear-gradient(135deg, #f8f9fa, #ffffff);\<newline>'' @
     ''            padding: 1.25rem;\<newline>'' @
     ''            border-radius: 12px;\<newline>'' @
     ''            display: flex;\<newline>'' @
     ''            align-items: center;\<newline>'' @
     ''            gap: 1rem;\<newline>'' @
     ''            border: 1px solid #e5e7eb;\<newline>'' @
     ''            transition: all 0.3s ease;\<newline>'' @
     ''        }\<newline>'' @
     ''        \<newline>'' @
     ''        .gpu-card:hover {\<newline>'' @
     ''            border-color: #76B900;\<newline>'' @
     ''            box-shadow: 0 4px 12px rgba(118, 185, 0, 0.15);\<newline>'' @
     ''        }\<newline>'' @
     ''        \<newline>'' @
     ''        .gpu-icon {\<newline>'' @
     ''            font-size: 2rem;\<newline>'' @
     ''        }\<newline>'' @
     ''        \<newline>'' @
     ''        .gpu-name {\<newline>'' @
     ''            font-weight: 600;\<newline>'' @
     ''            color: #1a1a1a;\<newline>'' @
     ''            font-size: 1.1rem;\<newline>'' @
     ''        }\<newline>'' @
     ''        \<newline>'' @
     ''        .gpu-vram {\<newline>'' @
     ''            color: #6b7280;\<newline>'' @
     ''            font-size: 0.9rem;\<newline>'' @
     ''        }\<newline>'' @
     ''        \<newline>'' @
     ''        .models-grid {\<newline>'' @
     ''            display: grid;\<newline>'' @
     ''            gap: 1rem;\<newline>'' @
     ''        }\<newline>'' @
     ''        \<newline>'' @
     ''        .model-card {\<newline>'' @
     ''            background: linear-gradient(135deg, #ffffff, #f8f9fa);\<newline>'' @
     ''            padding: 1.25rem;\<newline>'' @
     ''            border-radius: 12px;\<newline>'' @
     ''            display: flex;\<newline>'' @
     ''            align-items: center;\<newline>'' @
     ''            gap: 1rem;\<newline>'' @
     ''            border: 1px solid #e5e7eb;\<newline>'' @
     ''            transition: all 0.3s ease;\<newline>'' @
     ''        }\<newline>'' @
     ''        \<newline>'' @
     ''        .model-card:hover {\<newline>'' @
     ''            border-color: ''\<close>

definition html_template_09 :: string where
  \<open>html_template_09 =
     '';\<newline>'' @
     ''            box-shadow: 0 4px 12px ''\<close>

definition html_template_10 :: string where
  \<open>html_template_10 =
     ''30;\<newline>'' @
     ''            transform: translateX(4px);\<newline>'' @
     ''        }\<newline>'' @
     ''        \<newline>'' @
     ''        .model-icon {\<newline>'' @
     ''            font-size: 2rem;\<newline>'' @
     ''        }\<newline>'' @
     ''        \<newline>'' @
     ''        .model-name {\<newline>'' @
     ''            font-weight: 700;\<newline>'' @
     ''            color: #1a1a1a;\<newline>'' @
     ''            font-size: 1.1rem;\<newline>'' @
     ''            margin-bottom: 0.25rem;\<newline>'' @
     ''        }\<newline>'' @
     ''        \<newline>'' @
     ''        .model-desc {\<newline>'' @
     ''            color: #6b7280;\<newline>'' @
     ''            font-size: 0.9rem;\<newline>'' @
     ''        }\<newline>'' @
     ''        \<newline>'' @
     ''        .warning-box {\<newline>'' @
     ''            background: linear-gradient(135deg, #FEF3C7, #FDE68A);\<newline>'' @
     ''            border-left: 4px solid #F59E0B;\<newline>'' @
     ''            padding: 1.25rem;\<newline>'' @
     ''            border-radius: 12px;\<newline>'' @
     ''            margin-top: 1.5rem;\<newline>'' @
     ''            display: flex;\<newline>'' @
     ''            gap: 1rem;\<newline>'' @
     ''        }\<newline>'' @
     ''        \<newline>'' @
     ''        .warning-icon {\<newline>'' @
     ''            font-size: 1.5rem;\<newline>'' @
     ''        }\<newline>'' @
     ''        \<newline>'' @
     ''        .warning-content {\<newline>'' @
     ''            flex: 1;\<newline>'' @
     ''        }\<newline>'' @
     ''        \<newline>'' @
     ''        .warning-title {\<newline>'' @
     ''            font-weight: 700;\<newline>'' @
     ''            color: #92400E;\<newline>'' @
     ''            margin-bottom: 0.5rem;\<newline>'' @
     ''        }\<newline>'' @
     ''        \<newline>'' @
     ''        .warning-text {\<newline>'' @
     ''            color: #78350F;\<newline>'' @
     ''            font-size: 0.95rem;\<newline>'' @
     ''            line-height: 1.6;\<newline>'' @
     ''        }\<newline>'' @
     ''        \<newline>'' @
     ''        .footer {\<newline>'' @
     ''            text-align: center;\<newline>'' @
     ''            color: rgba(255,255,255,0.8);\<newline>'' @
     ''            margin-top: 2rem;\<newline>'' @
     ''            font-size: 0.9rem;\<newline>'' @
     ''        }\<newline>'' @
     ''        \<newline>'' @
     ''        .footer a {\<newline>'' @
     ''            color: white;\<newline>'' @
     ''            text-decoration: none;\<newline>'' @
     ''            font-weight: 600;\<newline>'' @
     ''        }\<newline>'' @
     ''        \<newline>'' @
     ''        @keyframes fadeInDown {\<newline>'' @
     ''            from {\<newline>'' @
     ''                opacity: 0;\<newline>'' @
     ''                transform: translateY(-20px);\<newline>'' @
     ''            }\<newline>'' @
     ''            to {\<newline>'' @
     ''                opacity: 1;\<newline>'' @
     ''                transform: translateY(0);\<newline>'' @
     ''            }\<newline>'' @
     ''        }\<newline>'' @
     ''        \<newline>'' @
     ''        @keyframes fadeInUp {\<newline>'' @
     ''            from {\<newline>'' @
     ''                opacity: 0;\<newline>'' @
     ''                transform: translateY(20px);\<newline>'' @
     ''            }\<newline>'' @
     ''            to {\<newline>'' @
     ''                opacity: 1;\<newline>'' @
     ''                transform: translateY(0);\<newline>'' @
     ''            }\<newline>'' @
     ''        }\<newline>'' @
     ''        \<newline>'' @
     ''        @media (max-width: 768px) {\<newline>'' @
     ''            body {\<newline>'' @
     ''                padding: 1rem;\<newline>'' @
     ''            }\<newline>'' @
     ''            \<newline>'' @
     ''            .header h1 {\<newline>'' @
     ''                font-size: 2rem;\<newline>'' @
     ''            }\<newline>'' @
     ''            \<newline>'' @
     ''            .report-card {\<newline>'' @
     ''                padding: 1.5rem;\<newline>'' @
     ''            }\<newline>'' @
     ''            \<newline>'' @
     ''            .stats-grid {\<newline>'' @
     ''                grid-template-columns: 1fr;\<newline>'' @
     ''            }\<newline>'' @
     ''        }\<newline>'' @
     ''    </style>\<newline>'' @
     ''</head>\<newline>'' @
     ''<body>\<newline>'' @
     ''    <div class="container">\<newline>'' @
     ''        <div class="header">\<newline>'' @
     ''            <h1>'' @
     [CHR 0xF0, CHR 0x9F, CHR 0x9A, CHR 0x80] @
     '' Hardware Analysis Report</h1>\<newline>'' @
     ''            <div class="subtitle">LLM Model Selection & Capacity Assessment</div>\<newline>'' @
     ''        </div>\<newline>'' @
     ''        \<newline>'' @
     ''        <!-- System Overview Card -->\<newline>'' @
     ''        <div class="report-card">\<newline>'' @
     ''            <div class="card-header">\<newline>'' @
     ''                <div class="card-title">\<newline>'' @
     ''                    <span class="card-icon">'' @
     [CHR 0xF0, CHR 0x9F, CHR 0x92, CHR 0xBB] @
     ''</span>\<newline>'' @
     ''                    System Overview\<newline>'' @
     ''                </div>\<newline>'' @
     ''                <div class="badge tier-badge">''\<close>

definition html_template_11 :: string where
  \<open>html_template_11 =
     '' Tier</div>\<newline>'' @
     ''            </div>\<newline>'' @
     ''            \<newline>'' @
     ''            <div class="stats-grid">\<newline>'' @
     ''                <div class="stat-box">\<newline>'' @
     ''                    <div class="stat-label">Operating System</div>\<newline>'' @
     ''                    <div class="stat-value">''\<close>

definition html_template_12 :: string where
  \<open>html_template_12 =
     ''</div>\<newline>'' @
     ''                </div>\<newline>'' @
     ''                <div class="stat-box">\<newline>'' @
     ''                    <div class="stat-label">Total RAM</div>\<newline>'' @
     ''                    <div class="stat-value">''\<close>

definition html_template_13 :: string where
  \<open>html_template_13 =
     '' <span class="stat-unit">GB</span></div>\<newline>'' @
     ''                </div>\<newline>'' @
     ''                <div class="stat-box">\<newline>'' @
     ''                    <div class="stat-label">Usable AI Memory</div>\<newline>'' @
     ''                    <div class="stat-value">''\<close>

definition html_template_14 :: string where
  \<open>html_template_14 =
     '' <span class="stat-unit">GB</span></div>\<newline>'' @
     ''                </div>\<newline>'' @
     ''                <div class="stat-box">\<newline>'' @
     ''                    <div class="stat-label">Max Model Size</div>\<newline>'' @
     ''                    <div class="stat-value">~''\<close>

definition html_template_15 :: string where
  \<open>html_template_15 =
     '' <span class="stat-unit">B</span></div>\<newline>'' @
     ''                </div>\<newline>'' @
     ''            </div>\<newline>'' @
     ''            \<newline>'' @
     ''            <div class="backend-display">\<newline>'' @
     ''                <div class="backend-icon">''\<close>

definition html_template_16 :: string where
  \<open>html_template_16 =
     ''</div>\<newline>'' @
     ''                <div class="backend-info">\<newline>'' @
     ''                    <div class="backend-name">''\<close>

definition html_template_17 :: string where
  \<open>html_template_17 =
     ''</div>\<newline>'' @
     ''                    <div class="backend-desc">Detected compute backend for AI workloads</div>\<newline>'' @
     ''                </div>\<newline>'' @
     ''            </div>\<newline>'' @
     ''            \<newline>'' @
     ''            ''\<close>

definition html_template_18 :: string where
  \<open>html_template_18 =
     ''\<newline>'' @
     ''        </div>\<newline>'' @
     ''        \<newline>'' @
     ''        <!-- Model Recommendations Card -->\<newline>'' @
     ''        <div class="report-card">\<newline>'' @
     ''            <div class="card-header">\<newline>'' @
     ''                <div class="card-title">\<newline>'' @
     ''                    <span class="card-icon">'' @
     [CHR 0xF0, CHR 0x9F, CHR 0x8E, CHR 0xAF] @
     ''</span>\<newline>'' @
     ''                    Recommended Models\<newline>'' @
     ''                </div>\<newline>'' @
     ''                <div class="badge" style="background: #E0E7FF; color: #4338CA;">4-bit Quantization</div>\<newline>'' @
     ''            </div>\<newline>'' @
     ''            \<newline>'' @
     ''            <div class="models-grid">\<newline>'' @
     ''                ''\<close>

definition html_template_19 :: string where
  \<open>html_template_19 =
     ''\<newline>'' @
     ''            </div>\<newline>'' @
     ''            \<newline>'' @
     ''            ''\<close>

definition warning_box :: string where
  \<open>warning_box =
     ''\<newline>'' @
     ''            <div class="warning-box">\<newline>'' @
     ''                <div class="warning-icon">'' @
     [CHR 0xE2, CHR 0x9A, CHR 0xA0, CHR 0xEF, CHR 0xB8, CHR 0x8F] @
     ''</div>\<newline>'' @
     ''                <div class="warning-content">\<newline>'' @
     ''                    <div class="warning-title">CPU Performance Notice</div>\<newline>'' @
     ''                    <div class="warning-text">\<newline>'' @
     ''                        CPU inference will be significantly slower than GPU/MPS acceleration. \<newline>'' @
     ''                        Consider using GGUF format models with llama.cpp for better CPU performance.\<newline>'' @
     ''                    </div>\<newline>'' @
     ''                </div>\<newline>'' @
     ''            </div>\<newline>'' @
     ''            ''\<close>

definition html_template_20 :: string where
  \<open>html_template_20 =
     ''\<newline>'' @
     ''        </div>\<newline>'' @
     ''        \<newline>'' @
     ''        <div class="footer">\<newline>'' @
     ''            Generated on ''\<close>

definition html_template_21 :: string where
  \<open>html_template_21 =
     '' | <a href="https://github.com">LLM Model Selection Tool</a>\<newline>'' @
     ''        </div>\<newline>'' @
     ''    </div>\<newline>'' @
     ''</body>\<newline>'' @
     ''</html>''\<close>

text \<open>The two conditional fields of the template.\<close>

definition gpu_grid :: "string \<Rightarrow> string" where
  \<open>gpu_grid gpu_html =
     (if gpu_html \<noteq> [] then ''<div class="gpu-grid">'' @ gpu_html @ ''</div>'' else [])\<close>

definition cpu_warning :: "string \<Rightarrow> string" where
  "cpu_warning device_type = (if device_type = ''cpu'' then warning_box else [])"

text \<open>\<^verbatim>\<open>generate_html_report\<close>; the last argument is what \<^verbatim>\<open>datetime.now().strftime(...)\<close> returns.\<close>

definition generate_html_report ::
    "string \<Rightarrow> pyfloat \<Rightarrow> string \<Rightarrow> pyfloat \<Rightarrow> int \<Rightarrow> gpu_detail list option \<Rightarrow>
     (string \<times> string) list option \<Rightarrow> string \<Rightarrow> string" where
  "generate_html_report system ram_gb device_type vram_gb max_params gpu_details
       recommended_models timestamp =
     (case backend_info device_type of (backend_name, backend_icon, backend_color) \<Rightarrow>
      let gpu_html = (case gpu_details of None \<Rightarrow> [] | Some gs \<Rightarrow> concat (map gpu_card gs));
          models_html = (case recommended_models of None \<Rightarrow> []
                         | Some ms \<Rightarrow> concat (map model_card ms))
      in case performance_tier vram_gb of (tier, tier_color) \<Rightarrow>
      concat
       [html_template_00,
        tier_color,
        html_template_01,
        tier_color,
        html_template_02,
        tier_color,
        html_template_03,
        backend_color,
        html_template_04,
        backend_color,
        html_template_05,
        backend_color,
        html_template_06,
        backend_color,
        html_template_07,
        backend_color,
        html_template_08,
        backend_color,
        html_template_09,
        backend_color,
        html_template_10,
        tier,
        html_template_11,
        system,
        html_template_12,
        format_float 1 ram_gb,
        html_template_13,
        format_float 1 vram_gb,
        html_template_14,
        str_int max_params,
        html_template_15,
        backend_icon,
        html_template_16,
        backend_name,
        html_template_17,
        gpu_grid gpu_html,
        html_template_18,
        models_html,
        html_template_19,
        cpu_warning device_type,
        html_template_20,
        timestamp,
        html_template_21])"

section \<open>Calls outside a \<^verbatim>\<open>try\<close> block\<close>

text \<open>
  \<open>get_hardware_capacity\<close> and \<open>recommend_models\<close> above are the two functions on a console
  that takes every line. A \<^verbatim>\<open>print\<close> can raise as well (\<^verbatim>\<open>UnicodeEncodeError\<close>, a subclass of
  \<^verbatim>\<open>ValueError\<close>, when the encoding of \<^verbatim>\<open>sys.stdout\<close> has no code for a character; \<^verbatim>\<open>OSError\<close>
  when the stream is a broken pipe), and so can the \<^verbatim>\<open>import\<close> statements at the head of
  the module, \<^verbatim>\<open>platform.system()\<close> and \<^verbatim>\<open>psutil.virtual_memory()\<close>. What these calls do in a
  run: \<open>print_error k s\<close> is what \<^verbatim>\<open>print(s)\<close> raises when \<open>k\<close> lines have been printed before it.
\<close>

record runtime =
  import_error :: "py_exception option"
  platform_system_error :: "py_exception option"
  virtual_memory_error :: "py_exception option"
  print_error :: "nat \<Rightarrow> string \<Rightarrow> py_exception option"

text \<open>\<^verbatim>\<open>print(s)\<close> after the lines \<open>out\<close>, and a sequence of \<^verbatim>\<open>print\<close> statements with nothing
  between them that can raise.\<close>

definition py_print :: "runtime \<Rightarrow> string list \<Rightarrow> string \<Rightarrow> py_exception + string list" where
  "py_print rt out s =
     (case print_error rt (length out) s of Some e \<Rightarrow> Inl e | None \<Rightarrow> Inr (out @ [s]))"

fun py_prints :: "runtime \<Rightarrow> string list \<Rightarrow> string list \<Rightarrow> py_exception + string list" where
  "py_prints rt out [] = Inr out"
| "py_prints rt out (s # ss) =
     (case py_print rt out s of Inl e \<Rightarrow> Inl e | Inr out' \<Rightarrow> py_prints rt out' ss)"

subsection \<open>\<^verbatim>\<open>get_hardware_capacity\<close>, every call executed\<close>

text \<open>
  The loop of step 1 (lines 82 to 87): the \<^verbatim>\<open>print\<close> of line 85 stands before the update of
  \<^verbatim>\<open>gpu_details\<close> and \<^verbatim>\<open>vram_gb\<close>, so when it raises the device is not counted.
\<close>

fun run_cuda_device_loop ::
    "runtime \<Rightarrow> host \<Rightarrow> nat list \<Rightarrow> probe_state \<Rightarrow> py_exception option \<times> probe_state" where
  "run_cuda_device_loop rt h [] s = (None, s)"
| "run_cuda_device_loop rt h (i # rest) s =
     (case cuda_get_device_properties h i of
        Inl e \<Rightarrow> (Some e, s)
      | Inr props \<Rightarrow>
          (case int_truediv (uint (props_total_memory props)) (1024 ^ 3) of
             Inl e \<Rightarrow> (Some e, s)
           | Inr v_mem \<Rightarrow>
               (case py_print rt (st_console s)
                       (''  - GPU '' @ str_nat i @ '': '' @ props_name props @ '' | '' @
                        format_float 2 v_mem @ '' GB VRAM'') of
                  Inl e \<Rightarrow> (Some e, s)
                | Inr out \<Rightarrow>
                    run_cuda_device_loop rt h rest
                      (s\<lparr>st_console := out,
                         st_gpu_details := st_gpu_details s @
                           [\<lparr>gpu_name = props_name props, gpu_vram = v_mem\<rparr>],
                         st_vram_gb := fadd (st_vram_gb s) v_mem\<rparr>))))"

text \<open>The \<^verbatim>\<open>try\<close> block of step 1 (lines 78 to 87); an exception of \<^verbatim>\<open>print\<close> is one more
  exception raised inside it.\<close>

definition run_cuda_try ::
    "runtime \<Rightarrow> host \<Rightarrow> probe_state \<Rightarrow> py_exception option \<times> probe_state" where
  "run_cuda_try rt h s =
     (case cuda_is_available h of
        Inl e \<Rightarrow> (Some e, s)
      | Inr available \<Rightarrow>
          if available then
            (let s1 = s\<lparr>st_device_type := ''cuda''\<rparr>
             in case cuda_device_count h of
                  Inl e \<Rightarrow> (Some e, s1)
                | Inr gpu_count \<Rightarrow>
                    (case py_print rt (st_console s1)
                            (''* Backend: NVIDIA CUDA ('' @ str_nat gpu_count @ '' devices)'') of
                       Inl e \<Rightarrow> (Some e, s1)
                     | Inr out \<Rightarrow>
                         run_cuda_device_loop rt h [0..<gpu_count] (s1\<lparr>st_console := out\<rparr>)))
          else (None, s))"

text \<open>Step 1 with its handlers (lines 88 to 93): the \<^verbatim>\<open>print\<close> of a handler is guarded by
  nothing, what it raises leaves the function.\<close>

definition run_check_nvidia_gpu ::
    "runtime \<Rightarrow> host \<Rightarrow> probe_state \<Rightarrow> py_exception + probe_state" where
  "run_check_nvidia_gpu rt h s =
     (case run_cuda_try rt h s of
        (None, s') \<Rightarrow> Inr s'
      | (Some e, s') \<Rightarrow>
          (case py_print rt (st_console s') (cuda_except e) of
             Inl e' \<Rightarrow> Inl e'
           | Inr out \<Rightarrow> Inr (s'\<lparr>st_console := out\<rparr>)))"

text \<open>The \<^verbatim>\<open>try\<close> block of step 2 (lines 98 to 104): \<^verbatim>\<open>device_type\<close> and \<^verbatim>\<open>vram_gb\<close> are
  assigned before the two \<^verbatim>\<open>print\<close> statements.\<close>

definition run_mps_try ::
    "runtime \<Rightarrow> host \<Rightarrow> pyfloat \<Rightarrow> probe_state \<Rightarrow> py_exception option \<times> probe_state" where
  "run_mps_try rt h ram_gb s =
     (case mps_is_available h of
        Inl e \<Rightarrow> (Some e, s)
      | Inr available \<Rightarrow>
          if available then
            (let vram_gb = fmul ram_gb MPS_USABLE_MEMORY_RATIO;
                 s1 = s\<lparr>st_device_type := ''mps'', st_vram_gb := vram_gb\<rparr>
             in case py_print rt (st_console s1)
                       ''* Backend: Apple Metal Performance Shaders (MPS)'' of
                  Inl e \<Rightarrow> (Some e, s1)
                | Inr out1 \<Rightarrow>
                    (case py_print rt out1
                            (''* Unified Memory: '' @ format_float 2 ram_gb @
                             '' GB (Est. Usable for AI: '' @ format_float 2 vram_gb @ '' GB)'') of
                       Inl e \<Rightarrow> (Some e, s1\<lparr>st_console := out1\<rparr>)
                     | Inr out2 \<Rightarrow> (None, s1\<lparr>st_console := out2\<rparr>)))
          else (None, s))"

definition run_check_apple_silicon ::
    "runtime \<Rightarrow> host \<Rightarrow> pyfloat \<Rightarrow> probe_state \<Rightarrow> py_exception + probe_state" where
  "run_check_apple_silicon rt h ram_gb s =
     (case run_mps_try rt h ram_gb s of
        (None, s') \<Rightarrow> Inr s'
      | (Some e, s') \<Rightarrow>
          (case py_print rt (st_console s') (mps_except e) of
             Inl e' \<Rightarrow> Inl e'
           | Inr out \<Rightarrow> Inr (s'\<lparr>st_console := out\<rparr>)))"

text \<open>Step 3 (lines 112 to 115), outside every \<^verbatim>\<open>try\<close>.\<close>

definition run_fallback_to_cpu ::
    "runtime \<Rightarrow> pyfloat \<Rightarrow> probe_state \<Rightarrow> py_exception + probe_state" where
  "run_fallback_to_cpu rt ram_gb s =
     (let vram_gb = fmul ram_gb CPU_USABLE_MEMORY_RATIO
      in case py_prints rt (st_console s)
                [''* Backend: CPU Only (Not recommended for large models)'',
                 ''* Estimated Usable Memory: '' @ format_float 2 vram_gb @ '' GB''] of
           Inl e \<Rightarrow> Inl e
         | Inr out \<Rightarrow>
             Inr (s\<lparr>st_device_type := ''cpu'', st_vram_gb := vram_gb, st_console := out\<rparr>))"

text \<open>The function (lines 66 to 117): \<^verbatim>\<open>platform.system()\<close>, \<^verbatim>\<open>psutil.virtual_memory()\<close> and the
  two \<^verbatim>\<open>print\<close> statements of the header come before the first \<^verbatim>\<open>try\<close>.\<close>

definition run_get_hardware_capacity ::
    "runtime \<Rightarrow> host \<Rightarrow> py_exception + (capacity \<times> string list)" where
  "run_get_hardware_capacity rt h =
     (case platform_system_error rt of
        Some e \<Rightarrow> Inl e
      | None \<Rightarrow>
          (let system = platform_system h
           in case virtual_memory_error rt of
                Some e \<Rightarrow> Inl e
              | None \<Rightarrow>
                  (case int_truediv (uint (virtual_memory_total h)) (1024 ^ 3) of
                     Inl e \<Rightarrow> Inl e
                   | Inr ram_gb \<Rightarrow>
                       (case py_prints rt []
                               [''### Hardware Audit: '' @ system @ '' ###'',
                                ''* System RAM: '' @ format_float 2 ram_gb @ '' GB''] of
                          Inl e \<Rightarrow> Inl e
                        | Inr out \<Rightarrow>
                            (case run_check_nvidia_gpu rt h
                                    \<lparr>st_device_type = ''cpu'', st_vram_gb = Fin 0,
                                     st_gpu_details = [], st_console = out\<rparr> of
                               Inl e \<Rightarrow> Inl e
                             | Inr s1 \<Rightarrow>
                                 (case (if feq (st_vram_gb s1) (Fin 0)
                                        then run_check_apple_silicon rt h ram_gb s1
                                        else Inr s1) of
                                    Inl e \<Rightarrow> Inl e
                                  | Inr s2 \<Rightarrow>
                                      (case (if feq (st_vram_gb s2) (Fin 0)
                                             then run_fallback_to_cpu rt ram_gb s2
                                             else Inr s2) of
                                         Inl e \<Rightarrow> Inl e
                                       | Inr s3 \<Rightarrow>
                                           Inr ((st_vram_gb s3, st_device_type s3, ram_gb, system,
                                                 st_gpu_details s3),
                                                st_console s3))))))))"

subsection \<open>\<^verbatim>\<open>recommend_models\<close>, every call executed\<close>

text \<open>
  No statement of \<^verbatim>\<open>recommend_models\<close> is guarded. \<open>out\<close> holds the lines printed before the
  call. The order is that of the source: two \<^verbatim>\<open>print\<close> statements, \<^verbatim>\<open>int(max_params)\<close>
  inside the third, the heading, one line per model and the two lines of the CPU note.
\<close>

definition run_recommend_models ::
    "runtime \<Rightarrow> string list \<Rightarrow> pyfloat \<Rightarrow> string \<Rightarrow>
     py_exception + ((int \<times> (string \<times> string) list) \<times> string list)" where
  "run_recommend_models rt out vram_gb device_type =
     (case (if flt (Fin 0) QUANT_4BIT_GB_PER_BILLION
            then py_truediv (fsub vram_gb CONTEXT_OVERHEAD_GB) QUANT_4BIT_GB_PER_BILLION
            else Inr (Fin 0)) of
        Inl e \<Rightarrow> Inl e
      | Inr raw_params \<Rightarrow>
          (let max_params = (if flt raw_params (Fin 2) then Fin 2 else raw_params)
           in case py_prints rt out
                     [''\<newline>### Feasible Local Deployment (4-bit Quantization) ###'',
                      ''* Effective VRAM Cap: '' @ format_float 2 vram_gb @ '' GB''] of
                Inl e \<Rightarrow> Inl e
              | Inr out1 \<Rightarrow>
                  (case py_int max_params of
                     Inl e \<Rightarrow> Inl e
                   | Inr n \<Rightarrow>
                       (let models = select_models vram_gb
                        in case py_prints rt out1
                                  ([''* Theoretical Max Parameter Count: ~'' @ str_int n @ ''B'',
                                    ''\<newline>Recommended Models (4-bit Quantization):''] @
                                   map (\<lambda>(model_name, description).
                                          ''- '' @ model_name @ '': '' @ description) models @
                                   (if device_type = ''cpu''
                                    then [''\<newline>'' @ [CHR 0xE2, CHR 0x9A, CHR 0xA0, CHR 0xEF, CHR 0xB8, CHR 0x8F] @
                                            ''  Note: CPU inference will be significantly slower than GPU/MPS.'',
                                          ''   Consider using GGUF format models with llama.cpp for better CPU performance.'']
                                    else [])) of
                             Inl e \<Rightarrow> Inl e
                           | Inr out2 \<Rightarrow> Inr ((n, models), out2)))))"

section \<open>\<^verbatim>\<open>main\<close>\<close>

text \<open>What a run leaves behind when \<^verbatim>\<open>main\<close> returns: the console lines, the report text,
  whether \<^verbatim>\<open>write_text\<close> and \<^verbatim>\<open>webbrowser.open\<close> returned.\<close>

record run_result =
  run_console :: "string list"
  run_html :: string
  run_saved :: bool
  run_opened :: bool

text \<open>The line a handler of \<^verbatim>\<open>main\<close> prints (lines 225 and 227).\<close>

definition main_except :: "py_exception \<Rightarrow> string" where
  "main_except e =
     (if exc_class e = OSError
      then ''\<newline>'' @ [CHR 0xE2, CHR 0x9D, CHR 0x8C] @ '' Error saving report: '' @ exc_msg e
      else ''\<newline>'' @ [CHR 0xE2, CHR 0x9D, CHR 0x8C] @ '' Unexpected error: '' @ exc_msg e)"

text \<open>The two handlers: the exception \<open>e\<close> was raised in the \<^verbatim>\<open>try\<close> block after the lines
  \<open>out\<close>; the \<^verbatim>\<open>print\<close> of the handler is itself unguarded.\<close>

definition main_handlers ::
    "runtime \<Rightarrow> py_exception \<Rightarrow> string list \<Rightarrow> string \<Rightarrow> bool \<Rightarrow> py_exception + run_result" where
  "main_handlers rt e out html_content saved =
     (case py_print rt out (main_except e) of
        Inl e' \<Rightarrow> Inl e'
      | Inr out' \<Rightarrow>
          Inr \<lparr>run_console = out', run_html = html_content, run_saved = saved,
               run_opened = False\<rparr>)"

text \<open>
  \<^verbatim>\<open>main\<close> (lines 199 to 227). The two calls and the rendering stand outside the \<^verbatim>\<open>try\<close>
  block; inside it are \<^verbatim>\<open>write_text\<close>, two \<^verbatim>\<open>print\<close> statements and \<^verbatim>\<open>webbrowser.open\<close>.
\<close>

definition main :: "runtime \<Rightarrow> host \<Rightarrow> string \<Rightarrow> py_exception + run_result" where
  "main rt h output_path =
     (case run_get_hardware_capacity rt h of
        Inl e \<Rightarrow> Inl e
      | Inr ((vram_gb, device_type, ram_gb, system, gpu_details), out1) \<Rightarrow>
          (case run_recommend_models rt out1 vram_gb device_type of
             Inl e \<Rightarrow> Inl e
           | Inr ((max_params, models), out2) \<Rightarrow>
               (let html_content =
                      generate_html_report system ram_gb device_type vram_gb max_params
                        (if gpu_details \<noteq> [] then Some gpu_details else None) (Some models)
                        (now_strftime h)
                in case write_text h output_path html_content of
                     Some e \<Rightarrow> main_handlers rt e out2 html_content False
                   | None \<Rightarrow>
                       (case py_print rt out2
                               (''\<newline>'' @ [CHR 0xE2, CHR 0x9C, CHR 0x85] @
                                '' HTML report generated: '' @ path_absolute h output_path) of
                          Inl e \<Rightarrow> main_handlers rt e out2 html_content True
                        | Inr out3 \<Rightarrow>
                            (case py_print rt out3 ''   Opening in browser...'' of
                               Inl e \<Rightarrow> main_handlers rt e out3 html_content True
                             | Inr out4 \<Rightarrow>
                                 (case webbrowser_open h
                                         (''file://'' @ path_absolute h output_path) of
                                    Some e \<Rightarrow> main_handlers rt e out4 html_content True
                                  | None \<Rightarrow>
                                      Inr \<lparr>run_console = out4, run_html = html_content,
                                           run_saved = True, run_opened = True\<rparr>))))))"


section \<open>Notions used to state the properties\<close>

text \<open>The first component of what \<open>recommend_models\<close> returns, when it returns.\<close>

definition returned_max_params :: "py_exception + ((int \<times> 'a) \<times> 'b) \<Rightarrow> int option" where
  "returned_max_params r = (case r of Inl e \<Rightarrow> None | Inr ((n, ms), out) \<Rightarrow> Some n)"


text \<open>The tier table: the model list that belongs to each tier name.\<close>

definition tier_models :: "string \<Rightarrow> (string \<times> string) list" where
  "tier_models tier =
     (if tier = ''Enterprise'' then enterprise_models
      else if tier = ''Professional'' then professional_models
      else if tier = ''Advanced'' then advanced_models
      else if tier = ''Standard'' then standard_models
      else entry_models)"

text \<open>What \<open>recommend_models\<close> computes on a finite input, step by step: \<open>None\<close> where a
  step overflows to \<open>+inf\<close> and \<open>int()\<close> raises.\<close>

definition estimate :: "rat \<Rightarrow> int option" where
  "estimate x =
     (let a = round_double (x - 2)
      in if 2 ^ 1024 \<le> a then None
         else if a \<le> - (2 ^ 1024) then Some 2
         else let q = round_double (a / (3 / 4))
              in if 2 ^ 1024 \<le> q then None
                 else if q \<le> - (2 ^ 1024) then Some 2
                 else Some (max 2 \<lfloor>q\<rfloor>))"

definition gigabytes :: "64 word \<Rightarrow> rat" where
  "gigabytes b = round_double (of_int (uint b) / 1024 ^ 3)"

definition small_nonneg :: "pyfloat \<Rightarrow> bool" where
  "small_nonneg v = (case v of Fin a \<Rightarrow> 0 \<le> a \<and> a \<le> 2 ^ 100 | _ \<Rightarrow> False)"

definition audit_start :: "host \<Rightarrow> probe_state" where
  "audit_start h =
     \<lparr>st_device_type = ''cpu'', st_vram_gb = Fin 0, st_gpu_details = [],
      st_console = [''### Hardware Audit: '' @ platform_system h @ '' ###'',
                    ''* System RAM: '' @
                    format_float 2 (Fin (gigabytes (virtual_memory_total h))) @ '' GB'']\<rparr>"

definition finish_audit :: "host \<Rightarrow> pyfloat \<Rightarrow> probe_state \<Rightarrow> probe_state" where
  "finish_audit h ram_gb s1 =
     (let s2 = (if feq (st_vram_gb s1) (Fin 0) then check_apple_silicon h ram_gb s1 else s1)
      in if feq (st_vram_gb s2) (Fin 0) then fallback_to_cpu ram_gb s2 else s2)"

definition capacity_of :: "host \<Rightarrow> probe_state \<Rightarrow> capacity" where
  "capacity_of h s =
     (st_vram_gb s, st_device_type s, Fin (gigabytes (virtual_memory_total h)),
      platform_system h, st_gpu_details s)"

definition probe_capacity :: "host \<Rightarrow> capacity option" where
  "probe_capacity h = (case get_hardware_capacity h of Inl e \<Rightarrow> None | Inr (cap, out) \<Rightarrow> Some cap)"

definition probe_console :: "host \<Rightarrow> string list" where
  "probe_console h = (case get_hardware_capacity h of Inl e \<Rightarrow> [] | Inr (cap, out) \<Rightarrow> out)"

definition example_host :: host where
  "example_host =
     \<lparr>platform_system = ''Linux'',
      virtual_memory_total = 17179869184,
      cuda_is_available = Inr False,
      cuda_device_count = Inr 0,
      cuda_get_device_properties = (\<lambda>i. Inl (PyExc RuntimeError ''invalid device ordinal'')),
      mps_is_available = Inr False,
      now_strftime = ''January 21, 2026 at 09:00 AM'',
      path_absolute = (\<lambda>p. ''/home/user/'' @ p),
      write_text = (\<lambda>p c. None),
      webbrowser_open = (\<lambda>u. None)\<rparr>"

definition zero_memory_gpu_host :: host where
  "zero_memory_gpu_host =
     example_host
       \<lparr>cuda_is_available := Inr True,
        cuda_device_count := Inr 1,
        cuda_get_device_properties :=
          (\<lambda>i. Inr \<lparr>props_name = ''Test GPU'', props_total_memory = 0\<rparr>)\<rparr>"

definition one_gpu_host :: host where
  "one_gpu_host =
     example_host
       \<lparr>cuda_is_available := Inr True,
        cuda_device_count := Inr 1,
        cuda_get_device_properties :=
          (\<lambda>i. Inr \<lparr>props_name = ''Test GPU'', props_total_memory = 8589934592\<rparr>)\<rparr>"










text \<open>Two consoles: one that takes every line, and one whose encoding is ASCII, where
  \<^verbatim>\<open>print\<close> raises \<^verbatim>\<open>UnicodeEncodeError\<close> (a \<^verbatim>\<open>ValueError\<close>) on a text with a byte above 127.
  Nothing else fails in either.\<close>

definition ascii_text :: "string \<Rightarrow> bool" where
  "ascii_text s = list_all (\<lambda>c. \<not> digit7 c) s"

definition utf8_terminal :: runtime where
  "utf8_terminal =
     \<lparr>import_error = None, platform_system_error = None, virtual_memory_error = None,
      print_error = (\<lambda>k s. None)\<rparr>"

definition ascii_terminal :: runtime where
  "ascii_terminal =
     \<lparr>import_error = None, platform_system_error = None, virtual_memory_error = None,
      print_error =
        (\<lambda>k s. if ascii_text s then None
               else Some (PyExc ValueError
                            ''codec can't encode character: ordinal not in range(128)''))\<rparr>"



text \<open>The first line of the CPU note that \<^verbatim>\<open>recommend_models\<close> prints (line 186).\<close>

definition cpu_note :: string where
  "cpu_note = ''\<newline>'' @ [CHR 0xE2, CHR 0x9A, CHR 0xA0, CHR 0xEF, CHR 0xB8, CHR 0x8F] @
                ''  Note: CPU inference will be significantly slower than GPU/MPS.''"


definition zero_memory_gpu_mps_host :: host where
  "zero_memory_gpu_mps_host = zero_memory_gpu_host\<lparr>mps_is_available := Inr True\<rparr>"

definition gpu_html_of :: "gpu_detail list option \<Rightarrow> string" where
  "gpu_html_of gpu_details = (case gpu_details of None \<Rightarrow> [] | Some gs \<Rightarrow> concat (map gpu_card gs))"

definition models_html_of :: "(string \<times> string) list option \<Rightarrow> string" where
  "models_html_of recommended_models =
     (case recommended_models of None \<Rightarrow> [] | Some ms \<Rightarrow> concat (map model_card ms))"

definition report_fields ::
    "string \<Rightarrow> pyfloat \<Rightarrow> string \<Rightarrow> pyfloat \<Rightarrow> int \<Rightarrow> gpu_detail list option \<Rightarrow>
     (string \<times> string) list option \<Rightarrow> string \<Rightarrow> string list" where
  "report_fields system ram_gb device_type vram_gb max_params gpu_details recommended_models
       timestamp =
     [html_template_00,
       snd (performance_tier vram_gb),
       html_template_01,
       snd (performance_tier vram_gb),
       html_template_02,
       snd (performance_tier vram_gb),
       html_template_03,
       snd (snd (backend_info device_type)),
       html_template_04,
       snd (snd (backend_info device_type)),
       html_template_05,
       snd (snd (backend_info device_type)),
       html_template_06,
       snd (snd (backend_info device_type)),
       html_template_07,
       snd (snd (backend_info device_type)),
       html_template_08,
       snd (snd (backend_info device_type)),
       html_template_09,
       snd (snd (backend_info device_type)),
       html_template_10,
       fst (performance_tier vram_gb),
       html_template_11,
       system,
       html_template_12,
       format_float 1 ram_gb,
       html_template_13,
       format_float 1 vram_gb,
       html_template_14,
       str_int max_params,
       html_template_15,
       fst (snd (backend_info device_type)),
       html_template_16,
       fst (backend_info device_type),
       html_template_17,
       gpu_grid (gpu_html_of gpu_details),
       html_template_18,
       models_html_of recommended_models,
       html_template_19,
       cpu_warning device_type,
       html_template_20,
       timestamp,
       html_template_21]"

fun scan :: "'a list \<Rightarrow> 'a list \<Rightarrow> 'a list \<Rightarrow> 'a list option" where
  "scan p r [] = Some r"
| "scan p r (x # xs) =
     (case r of
        [] \<Rightarrow> None
      | y # r' \<Rightarrow>
          (let r1 = (if x = y then r' else if x = hd p then tl p else p)
           in if r1 = [] then None else scan p r1 xs))"

definition clean :: "'a list \<Rightarrow> 'a list \<Rightarrow> bool" where
  "clean p s = (scan p p s = Some p)"

definition gpu_grid_open :: string where
  \<open>gpu_grid_open = ''<div class="gpu-grid">''\<close>

text \<open>matched k t: of the non-empty proper prefixes of p only the one of length k ends t, and p
  does not occur in t\<close>

definition matched :: "'a list \<Rightarrow> nat \<Rightarrow> 'a list \<Rightarrow> bool" where
  "matched p k t \<longleftrightarrow>
     k < length p \<and> \<not> sublist p t \<and>
     (\<forall>j. 0 < j \<and> j < length p \<and> suffix (take j p) t \<longrightarrow> j = k)"

definition warning_box_open :: string where
  \<open>warning_box_open = ''<div class="warning-box">''\<close>

definition no_markup :: "string \<Rightarrow> bool" where
  "no_markup s = (CHR ''<'' \<notin> set s)"

definition plain_models :: "(string \<times> string) list option \<Rightarrow> bool" where
  "plain_models recommended_models =
     (case recommended_models of
        None \<Rightarrow> True
      | Some ms \<Rightarrow> list_all (\<lambda>m. no_markup (fst m) \<and> no_markup (snd m)) ms)"

definition plain_devices :: "gpu_detail list option \<Rightarrow> bool" where
  "plain_devices gpu_details =
     (case gpu_details of None \<Rightarrow> True | Some gs \<Rightarrow> list_all (\<lambda>g. no_markup (gpu_name g)) gs)"

section \<open>Properties of the float model\<close>

lemma rhe_bounds: "\<lfloor>y\<rfloor> \<le> round_half_even y" "round_half_even y \<le> \<lfloor>y\<rfloor> + 1"
  by (simp_all add: round_half_even_def Let_def)

lemma rhe_mono: 
  assumes "y1 \<le> y2" shows "round_half_even y1 \<le> round_half_even y2"
proof (cases "\<lfloor>y1\<rfloor> < \<lfloor>y2\<rfloor>")
  case True
  have "round_half_even y1 \<le> \<lfloor>y1\<rfloor> + 1" by (rule rhe_bounds)
  also have "\<dots> \<le> \<lfloor>y2\<rfloor>" using True by simp
  also have "\<dots> \<le> round_half_even y2" by (rule rhe_bounds)
  finally show ?thesis .
next
  case False
  with assms have eq: "\<lfloor>y1\<rfloor> = \<lfloor>y2\<rfloor>" using floor_mono[of y1 y2] by simp
  show ?thesis using assms unfolding round_half_even_def Let_def eq
    by auto
qed

lemma rhe_of_int: "round_half_even (of_int n) = n"
  by (simp add: round_half_even_def)

lemma rhe_neg: "round_half_even (- y) = - round_half_even y"
proof (cases "y = of_int \<lfloor>y\<rfloor>")
  case True
  then obtain n where "y = of_int n" ..
  then show ?thesis by (simp add: rhe_of_int flip: of_int_minus)
next
  case False
  then have c: "\<lceil>y\<rceil> = \<lfloor>y\<rfloor> + 1" 
    by (simp add: ceiling_altdef)
  have f: "\<lfloor>- y\<rfloor> = - \<lfloor>y\<rfloor> - 1" using c by (simp add: floor_minus)
  show ?thesis unfolding round_half_even_def Let_def f
    by (auto simp: algebra_simps)
qed


lemma ilog2_bounds:
  assumes "x \<noteq> 0"
  shows "2 powi (ilog2 x) \<le> \<bar>x\<bar>" and "\<bar>x\<bar> < 2 powi (ilog2 x + 1)"
proof -
  define a where "a = \<bar>x\<bar>"
  have a: "0 < a" using assms by (simp add: a_def)
  have "2 powi (ilog2 x) \<le> a \<and> a < 2 powi (ilog2 x + 1)"
  proof (cases "1 \<le> a")
    case True
    define n where "n = \<lfloor>a\<rfloor>"
    have n: "0 < n" using True by (simp add: n_def)
    have e: "ilog2 x = bitlen n - 1" using True by (simp add: ilog2_def a_def n_def)
    from bitlen_bounds[OF n] have b1: "2 ^ nat (bitlen n - 1) \<le> n" and b2: "n < 2 ^ nat (bitlen n)" by auto
    have bl: "1 \<le> bitlen n" using n bitlen_eq_zero_iff[of n] bitlen_nonneg[of n] by linarith
    have "(2::rat) powi (bitlen n - 1) = 2 ^ nat (bitlen n - 1)" using bl by (simp add: power_int_def)
    also have "\<dots> = of_int (2 ^ nat (bitlen n - 1))" by simp
    also have "\<dots> \<le> of_int n" using b1 by (simp only: of_int_le_iff)
    also have "\<dots> \<le> a" by (simp add: n_def)
    finally have lo: "2 powi (bitlen n - 1) \<le> a" .
    have "n + 1 \<le> 2 ^ nat (bitlen n)" using b2 by simp
    then have "(of_int (n + 1) :: rat) \<le> of_int (2 ^ nat (bitlen n))" by (simp only: of_int_le_iff)
    moreover have "a < of_int (n + 1)" unfolding n_def by linarith
    ultimately have "a < of_int (2 ^ nat (bitlen n))" by linarith
    also have "\<dots> = 2 powi (bitlen n)" using bl by (simp add: power_int_def)
    finally have hi: "a < 2 powi (bitlen n - 1 + 1)" by simp
    show ?thesis using lo hi e by simp
  next
    case False
    define y where "y = 1 / a"
    have y: "1 < y" using False a by (simp add: y_def)
    define m where "m = \<lceil>y\<rceil> - 1"
    have m: "0 < m" using y by (simp add: m_def)
    have e: "ilog2 x = - bitlen m" using False by (simp add: ilog2_def a_def m_def y_def)
    from bitlen_bounds[OF m] have b1: "2 ^ nat (bitlen m - 1) \<le> m" and b2: "m < 2 ^ nat (bitlen m)" by auto
    have bl: "1 \<le> bitlen m" using m bitlen_eq_zero_iff[of m] bitlen_nonneg[of m] by linarith
    have my: "of_int m < y" "y \<le> of_int m + 1" unfolding m_def by linarith+
    have "m + 1 \<le> 2 ^ nat (bitlen m)" using b2 by simp
    then have "(of_int (m + 1) :: rat) \<le> of_int (2 ^ nat (bitlen m))" by (simp only: of_int_le_iff)
    then have "y \<le> of_int (2 ^ nat (bitlen m))" using my by simp
    also have "\<dots> = 2 powi (bitlen m)" using bl by (simp add: power_int_def)
    finally have yhi: "y \<le> 2 powi (bitlen m)" .
    have "(2::rat) powi (bitlen m - 1) = of_int (2 ^ nat (bitlen m - 1))" using bl by (simp add: power_int_def)
    also have "\<dots> \<le> of_int m" using b1 by (simp only: of_int_le_iff)
    also have "\<dots> < y" by (rule my)
    finally have ylo: "2 powi (bitlen m - 1) < y" .
    have ay: "a = 1 / y" using a by (simp add: y_def)
    have p1: "(0::rat) < 2 powi (bitlen m)" and p2: "(0::rat) < 2 powi (bitlen m - 1)" by simp_all
    have "2 powi (- bitlen m) = 1 / (2::rat) powi (bitlen m)" by (simp add: power_int_minus_divide)
    also have "\<dots> \<le> 1 / y" using yhi y by (simp add: frac_le)
    finally have lo: "2 powi (- bitlen m) \<le> a" using ay by simp
    have "1 / y < 1 / (2::rat) powi (bitlen m - 1)" using ylo p2 by (simp add: frac_less2)
    also have "\<dots> = 2 powi (- (bitlen m - 1))" by (simp only: power_int_minus_divide)
    finally have hi: "a < 2 powi (- bitlen m + 1)" using ay by simp
    show ?thesis using lo hi e by simp
  qed
  then show "2 powi (ilog2 x) \<le> \<bar>x\<bar>" and "\<bar>x\<bar> < 2 powi (ilog2 x + 1)" by (simp_all add: a_def)
qed

lemma powi2_less_imp: "(2::rat) powi a < 2 powi b \<Longrightarrow> a < b"
proof (rule ccontr)
  assume h: "(2::rat) powi a < 2 powi b" and "\<not> a < b"
  then have "b \<le> a" by simp
  then have "(2::rat) powi b \<le> 2 powi a" by (rule power_int_increasing) simp
  with h show False by simp
qed

lemma ilog2_unique:
  assumes "2 powi e \<le> \<bar>x\<bar>" and "\<bar>x\<bar> < 2 powi (e + 1)"
  shows "ilog2 x = e"
proof -
  have p: "(0::rat) < 2 powi e" by simp
  have "0 < \<bar>x\<bar>" using assms(1) p by linarith
  then have x: "x \<noteq> 0" by simp
  from ilog2_bounds[OF x] assms
  have "(2::rat) powi e < 2 powi (ilog2 x + 1)" "(2::rat) powi (ilog2 x) < 2 powi (e + 1)" by linarith+
  then have "e < ilog2 x + 1" "ilog2 x < e + 1"
    by (auto dest: powi2_less_imp)
  then show ?thesis by simp
qed

lemma quantum_pos: "0 < quantum x"
  by (simp add: quantum_def)

lemma quantum_neg: "quantum (- x) = quantum x"
  by (simp add: quantum_def bexp_def ilog2_def)

lemma round_double_neg: "round_double (- x) = - round_double x"
  by (simp add: round_double_def quantum_neg rhe_neg)

lemma round_double_zero: "round_double 0 = 0"
  by (simp add: round_double_def rhe_of_int[of 0, simplified])

lemma bexp_upper: "\<bar>x\<bar> < 2 powi (bexp x + 1)"
proof (cases "x = 0")
  case True then show ?thesis by simp
next
  case False
  have "\<bar>x\<bar> < 2 powi (ilog2 x + 1)" by (rule ilog2_bounds[OF False])
  also have "\<dots> \<le> 2 powi (bexp x + 1)" by (rule power_int_increasing) (simp_all add: bexp_def)
  finally show ?thesis .
qed

lemma quantum_bexp: "quantum x = 2 powi (bexp x - 52)"
  by (simp add: quantum_def)

lemma powi2_split_hi: "(2::rat) powi (E + 1) = 2 ^ 53 * 2 powi (E - 52)"
proof -
  have "E + 1 = 53 + (E - 52)" by simp
  then have "(2::rat) powi (E + 1) = 2 powi (53 + (E - 52))" by (simp only:)
  also have "\<dots> = 2 powi 53 * 2 powi (E - 52)" by (rule power_int_add) simp
  finally show ?thesis by simp
qed

lemma powi2_split_lo: "(2::rat) powi E = 2 ^ 52 * 2 powi (E - 52)"
proof -
  have "E = 52 + (E - 52)" by simp
  then have "(2::rat) powi E = 2 powi (52 + (E - 52))" by (simp only:)
  also have "\<dots> = 2 powi 52 * 2 powi (E - 52)" by (rule power_int_add) simp
  finally show ?thesis by simp
qed

lemma round_double_upper: "round_double x \<le> 2 powi (bexp x + 1)"
proof -
  have q: "0 < quantum x" by (rule quantum_pos)
  have "x \<le> \<bar>x\<bar>" by simp
  also have "\<dots> < 2 powi (bexp x + 1)" by (rule bexp_upper)
  finally have "x < 2 ^ 53 * quantum x" by (simp add: powi2_split_hi quantum_bexp)
  then have "x / quantum x \<le> of_int (2 ^ 53)" using q by (simp add: divide_le_eq)
  then have "round_half_even (x / quantum x) \<le> round_half_even (of_int (2 ^ 53))" by (rule rhe_mono)
  then have "round_half_even (x / quantum x) \<le> 2 ^ 53" by (simp only: rhe_of_int)
  then have "(of_int (round_half_even (x / quantum x)) :: rat) \<le> of_int (2 ^ 53)" by (simp only: of_int_le_iff)
  then have "round_double x \<le> 2 ^ 53 * quantum x" unfolding round_double_def using q by simp
  then show ?thesis by (simp add: powi2_split_hi quantum_bexp)
qed

lemma round_double_lower:
  assumes "2 powi (bexp x) \<le> x"
  shows "2 powi (bexp x) \<le> round_double x"
proof -
  have q: "0 < quantum x" by (rule quantum_pos)
  have "2 ^ 52 * quantum x \<le> x" using assms by (simp add: powi2_split_lo[of "bexp x"] quantum_bexp)
  then have "of_int (2 ^ 52) \<le> x / quantum x" using q by (simp add: le_divide_eq)
  then have "round_half_even (of_int (2 ^ 52)) \<le> round_half_even (x / quantum x)" by (rule rhe_mono)
  then have "2 ^ 52 \<le> round_half_even (x / quantum x)" by (simp only: rhe_of_int)
  then have "(of_int (2 ^ 52) :: rat) \<le> of_int (round_half_even (x / quantum x))" by (simp only: of_int_le_iff)
  then have "2 ^ 52 * quantum x \<le> round_double x" unfolding round_double_def using q by simp
  then show ?thesis by (simp add: powi2_split_lo[of "bexp x"] quantum_bexp)
qed

lemma round_double_nonneg: assumes "0 \<le> x" shows "0 \<le> round_double x"
proof -
  have "0 \<le> x / quantum x" using assms quantum_pos[of x] by simp
  then have "round_half_even 0 \<le> round_half_even (x / quantum x)" by (rule rhe_mono)
  then have "0 \<le> round_half_even (x / quantum x)" using rhe_of_int[of 0] by simp
  then show ?thesis unfolding round_double_def using quantum_pos[of x] by simp
qed

lemma ilog2_mono: assumes "0 < x" "x \<le> y" shows "ilog2 x \<le> ilog2 y"
proof -
  have "2 powi (ilog2 x) \<le> \<bar>x\<bar>" using assms by (intro ilog2_bounds) simp
  also have "\<dots> \<le> \<bar>y\<bar>" using assms by simp
  also have "\<dots> < 2 powi (ilog2 y + 1)" using assms by (intro ilog2_bounds) simp
  finally have "ilog2 x < ilog2 y + 1" by (rule powi2_less_imp)
  then show ?thesis by simp
qed

lemma round_double_nonneg_mono:
  assumes "0 \<le> x" "x \<le> y"
  shows "round_double x \<le> round_double y"
proof (cases "bexp x = bexp y")
  case True
  then have q: "quantum x = quantum y" by (simp add: quantum_def)
  have "x / quantum y \<le> y / quantum y" using assms quantum_pos[of y] by (simp add: divide_right_mono)
  then have "round_half_even (x / quantum y) \<le> round_half_even (y / quantum y)" by (rule rhe_mono)
  then show ?thesis unfolding round_double_def q using quantum_pos[of y] by simp
next
  case False
  show ?thesis
  proof (cases "x = 0")
    case True
    then show ?thesis using round_double_nonneg[of y] assms by (simp add: round_double_zero)
  next
    case x: False
    then have "0 < x" using assms by simp
    then have "ilog2 x \<le> ilog2 y" using assms(2) by (rule ilog2_mono)
    then have lt: "bexp x < bexp y" using False by (auto simp: bexp_def max_def split: if_splits)
    then have ey: "bexp y = ilog2 y" by (auto simp: bexp_def max_def split: if_splits)
    have y: "y \<noteq> 0" "\<bar>y\<bar> = y" using \<open>0 < x\<close> assms by simp_all
    have "2 powi (bexp y) \<le> y" using ilog2_bounds(1)[OF y(1)] y(2) ey by simp
    then have lo: "2 powi (bexp y) \<le> round_double y" by (rule round_double_lower)
    have "round_double x \<le> 2 powi (bexp x + 1)" by (rule round_double_upper)
    also have "\<dots> \<le> 2 powi (bexp y)" using lt by (intro power_int_increasing) simp_all
    finally show ?thesis using lo by simp
  qed
qed

lemma round_double_mono:
  assumes "x \<le> y" shows "round_double x \<le> round_double y"
proof (cases "0 \<le> x")
  case True then show ?thesis using assms by (rule round_double_nonneg_mono)
next
  case x: False
  show ?thesis
  proof (cases "0 \<le> y")
    case True
    have "round_double (- x) \<ge> 0" using x by (intro round_double_nonneg) simp
    then have "round_double x \<le> 0" by (simp add: round_double_neg)
    also have "0 \<le> round_double y" using True by (rule round_double_nonneg)
    finally show ?thesis .
  next
    case False
    then have "round_double (- y) \<le> round_double (- x)" using assms by (intro round_double_nonneg_mono) simp_all
    then show ?thesis by (simp add: round_double_neg)
  qed
qed

lemma round_double_exact_lt:
  assumes m: "\<bar>m\<bar> < 2 ^ 53" and k: "- 1074 \<le> k"
  shows "round_double (of_int m * 2 powi k) = of_int m * 2 powi k"
proof (cases "m = 0")
  case True then show ?thesis by (simp add: round_double_zero)
next
  case False
  define x :: rat where "x = of_int m * 2 powi k"
  have x0: "x \<noteq> 0" using False by (simp add: x_def)
  have ax: "\<bar>x\<bar> = of_int \<bar>m\<bar> * 2 powi k" by (simp add: x_def abs_mult)
  have "(of_int \<bar>m\<bar> :: rat) < of_int (2 ^ 53)" using m by (simp only: of_int_less_iff)
  then have "\<bar>x\<bar> < 2 ^ 53 * 2 powi k" unfolding ax by simp
  also have "\<dots> = 2 powi (53 + k)" by (simp add: power_int_add)
  finally have "\<bar>x\<bar> < 2 powi (53 + k)" .
  with ilog2_bounds(1)[OF x0] have "(2::rat) powi (ilog2 x) < 2 powi (53 + k)" by simp
  then have "ilog2 x < 53 + k" by (rule powi2_less_imp)
  then have d: "0 \<le> k - (bexp x - 52)" using k by (simp add: bexp_def)
  define d where "d = nat (k - (bexp x - 52))"
  define q where "q = quantum x"
  have q: "0 < q" by (simp add: q_def quantum_pos)
  have "k = int d + (bexp x - 52)" using d by (simp add: d_def)
  then have "(2::rat) powi k = 2 powi (int d + (bexp x - 52))" by (simp only:)
  also have "\<dots> = 2 ^ d * q" by (simp add: power_int_add quantum_bexp q_def)
  finally have pk: "(2::rat) powi k = 2 ^ d * q" .
  have xq: "x = of_int (m * 2 ^ d) * q" unfolding x_def pk by simp
  have "x / q = of_int (m * 2 ^ d)" using q unfolding xq by simp
  then have "round_half_even (x / q) = m * 2 ^ d" by (simp only: rhe_of_int)
  then have "round_double x = of_int (m * 2 ^ d) * q" by (simp add: round_double_def q_def)
  then have "round_double x = x" using xq by simp
  then show ?thesis by (simp add: x_def)
qed

lemma round_double_exact:
  assumes m: "\<bar>m\<bar> \<le> 2 ^ 53" and k: "- 1074 \<le> k"
  shows "round_double (of_int m * 2 powi k) = of_int m * 2 powi k"
proof (cases "\<bar>m\<bar> < 2 ^ 53")
  case True then show ?thesis using k by (rule round_double_exact_lt)
next
  case False
  with m have "\<bar>m\<bar> = 2 ^ 53" by simp
  then consider "m = 2 ^ 53" | "m = - (2 ^ 53)" by (auto simp: abs_if split: if_splits)
  then show ?thesis
  proof cases
    case 1
    have "of_int m * (2::rat) powi k = of_int (2 ^ 52) * 2 powi (k + 1)"
      by (simp add: 1 power_int_add)
    moreover have "round_double (of_int (2 ^ 52) * 2 powi (k + 1)) = of_int (2 ^ 52) * 2 powi (k + 1)"
      using k by (intro round_double_exact_lt) simp_all
    ultimately show ?thesis by (simp only:)
  next
    case 2
    have "of_int m * (2::rat) powi k = of_int (- (2 ^ 52)) * 2 powi (k + 1)"
      by (simp add: 2 power_int_add)
    moreover have "round_double (of_int (- (2 ^ 52)) * 2 powi (k + 1)) = of_int (- (2 ^ 52)) * 2 powi (k + 1)"
      using k by (intro round_double_exact_lt) simp_all
    ultimately show ?thesis by (simp only:)
  qed
qed

lemma round_double_form:
  "\<exists>m. \<bar>m\<bar> \<le> 2 ^ 53 \<and> round_double x = of_int m * 2 powi (bexp x - 52)"
proof -
  have up: "round_double x \<le> 2 ^ 53 * quantum x" using round_double_upper[of x]
    by (simp add: powi2_split_hi quantum_bexp)
  have "round_double (- x) \<le> 2 ^ 53 * quantum (- x)" using round_double_upper[of "- x"]
    by (simp add: powi2_split_hi quantum_bexp)
  then have lo: "- (2 ^ 53 * quantum x) \<le> round_double x" by (simp add: round_double_neg quantum_neg)
  define M where "M = round_half_even (x / quantum x)"
  have r: "round_double x = of_int M * quantum x" by (simp add: round_double_def M_def)
  have "of_int M * quantum x \<le> 2 ^ 53 * quantum x" "(- (2 ^ 53)) * quantum x \<le> of_int M * quantum x"
    using up lo unfolding r by simp_all
  then have "of_int M \<le> (2 ^ 53 :: rat)" "- (2 ^ 53 :: rat) \<le> of_int M"
    using quantum_pos[of x] by (auto simp only: mult_le_cancel_right)
  then have "of_int M \<le> (of_int (2 ^ 53) :: rat)" "(of_int (- (2 ^ 53)) :: rat) \<le> of_int M" by simp_all
  then have "M \<le> 2 ^ 53" "- (2 ^ 53) \<le> M" by (simp_all only: of_int_le_iff)
  then have "\<bar>M\<bar> \<le> 2 ^ 53" by simp
  then show ?thesis using r by (auto simp: quantum_bexp)
qed


lemma rhe_unique:
  assumes "\<bar>y - of_int n\<bar> < 1 / 2"
  shows "round_half_even y = n"
proof -
  have "\<lfloor>y\<rfloor> = n \<or> \<lfloor>y\<rfloor> = n - 1"
    using assms by (auto simp: abs_if split: if_splits) linarith+
  then show ?thesis
    using assms unfolding round_half_even_def Let_def
    by (auto simp: abs_if split: if_splits)
qed

lemma round_double_abs_le:
  assumes b: "\<bar>x\<bar> \<le> of_int m * 2 powi k" and m: "\<bar>m\<bar> \<le> 2 ^ 53" and k: "- 1074 \<le> k"
  shows "\<bar>round_double x\<bar> \<le> of_int m * 2 powi k"
proof -
  let ?b = "of_int m * (2::rat) powi k"
  have e: "round_double ?b = ?b" using m k by (rule round_double_exact)
  have "x \<le> ?b" "- ?b \<le> x" using b by (simp_all add: abs_le_iff)
  then have "round_double x \<le> round_double ?b" "round_double (- ?b) \<le> round_double x"
    by (simp_all add: round_double_mono)
  then show ?thesis by (simp add: e round_double_neg abs_le_iff)
qed

lemma to_float_Fin: "\<bar>round_double x\<bar> < 2 ^ 1024 \<Longrightarrow> to_float x = Fin (round_double x)"
  by (simp add: to_float_def Let_def abs_less_iff)

lemma round_double_int:
  assumes "\<bar>n\<bar> \<le> 2 ^ 53"
  shows "round_double (of_int n) = of_int n"
proof -
  have "round_double (of_int n * 2 powi 0) = of_int n * 2 powi 0"
    using assms by (intro round_double_exact) simp_all
  then show ?thesis by simp
qed

lemma to_float_int:
  assumes "\<bar>n\<bar> \<le> 2 ^ 53"
  shows "to_float (of_int n) = Fin (of_int n)"
proof -
  have r: "round_double (of_int n) = of_int n" using assms by (rule round_double_int)
  have "\<bar>of_int n :: rat\<bar> \<le> of_int (2 ^ 53)"
    using assms by (simp only: of_int_le_iff flip: of_int_abs)
  then have "\<bar>of_int n :: rat\<bar> < 2 ^ 1024" by simp
  then show ?thesis using r by (simp add: to_float_Fin)
qed

section \<open>The parameter estimate of \<open>recommend_models\<close>\<close>

lemma fsub_overhead:
  assumes "\<bar>x\<bar> \<le> 2 ^ 1023"
  shows "fsub (Fin x) CONTEXT_OVERHEAD_GB = Fin (round_double (x - 2))"
    and "\<bar>round_double (x - 2)\<bar> \<le> of_int (2 ^ 52 + 1) * 2 powi 971"
proof -
  have "\<bar>x - 2\<bar> \<le> 2 ^ 1023 + 2" using assms by (simp add: abs_le_iff)
  also have "\<dots> \<le> of_int (2 ^ 52 + 1) * 2 powi 971" by simp
  finally show b: "\<bar>round_double (x - 2)\<bar> \<le> of_int (2 ^ 52 + 1) * 2 powi 971"
    by (rule round_double_abs_le) simp_all
  also have "\<dots> < 2 ^ 1024" by simp
  finally show "fsub (Fin x) CONTEXT_OVERHEAD_GB = Fin (round_double (x - 2))"
    by (simp add: fsub_def CONTEXT_OVERHEAD_GB_def to_float_Fin)
qed

lemma truediv_quant:
  assumes "\<bar>a\<bar> \<le> of_int (2 ^ 52 + 1) * 2 powi 971"
  shows "py_truediv (Fin a) QUANT_4BIT_GB_PER_BILLION = Inr (Fin (round_double (a / (3 / 4))))"
proof -
  have "\<bar>a / (3 / 4)\<bar> = \<bar>a\<bar> * (4 / 3)" by (simp add: abs_mult)
  also have "\<dots> \<le> (of_int (2 ^ 52 + 1) * 2 powi 971) * (4 / 3)"
    using assms by (rule mult_right_mono) simp
  also have "\<dots> \<le> of_int 3 * 2 powi 1022" by simp
  finally have "\<bar>round_double (a / (3 / 4))\<bar> \<le> of_int 3 * 2 powi 1022"
    by (rule round_double_abs_le) simp_all
  also have "\<dots> < 2 ^ 1024" by simp
  finally show ?thesis by (simp add: QUANT_4BIT_GB_PER_BILLION_def to_float_Fin)
qed

lemma recommend_models_finite:
  assumes "py_truediv (fsub v CONTEXT_OVERHEAD_GB) QUANT_4BIT_GB_PER_BILLION = Inr (Fin q)"
  shows "\<exists>out. recommend_models v d = Inr ((max 2 \<lfloor>q\<rfloor>, select_models v), out)"
proof -
  have "py_int (if flt (Fin q) (Fin 2) then Fin 2 else Fin q) = Inr (max 2 \<lfloor>q\<rfloor>)"
    by (auto simp: max_def)
  then show ?thesis using assms
    by (simp add: recommend_models_def QUANT_4BIT_GB_PER_BILLION_def Let_def)
qed

lemma recommend_models_bounded:
  assumes "\<bar>x\<bar> \<le> 2 ^ 1023"
  shows "returned_max_params (recommend_models (Fin x) d) =
           Some (max 2 \<lfloor>round_double (round_double (x - 2) / (3 / 4))\<rfloor>)"
proof -
  have "py_truediv (fsub (Fin x) CONTEXT_OVERHEAD_GB) QUANT_4BIT_GB_PER_BILLION =
          Inr (Fin (round_double (round_double (x - 2) / (3 / 4))))"
    using fsub_overhead[OF assms] by (simp add: truediv_quant)
  from recommend_models_finite[OF this, of d] show ?thesis
    by (auto simp: returned_max_params_def)
qed

lemma round_double_64_thirds:
  "21 \<le> round_double (64 / 3)" "round_double (64 / 3) < 22"
proof -
  have "round_double (of_int 21) \<le> round_double (64 / 3)" by (rule round_double_mono) simp
  then show "21 \<le> round_double (64 / 3)" using round_double_int[of 21] by simp
  have "round_double (64 / 3) \<le> round_double (of_int 22 - 1 / 2)" by (rule round_double_mono) simp
  moreover have "round_double (of_int 43 * 2 powi (- 1)) = of_int 43 * 2 powi (- 1)"
    by (rule round_double_exact) simp_all
  ultimately show "round_double (64 / 3) < 22" by simp
qed

lemma returned_18: "returned_max_params (recommend_models (Fin 18) d) = Some 21"
proof -
  have "round_double (18 - 2) = 16" using round_double_int[of 16] by simp
  moreover have "\<lfloor>round_double (64 / 3)\<rfloor> = 21"
    using round_double_64_thirds by (simp add: floor_unique)
  ultimately show ?thesis using recommend_models_bounded[of 18 d] by simp
qed

text \<open>
  \<^bold>\<open>C1\<close> (as amended). For every finite \<open>vram_gb\<close> of magnitude at most \<open>2 ^ 1023\<close>,
  \<open>recommend_models\<close> returns as \<open>max_params\<close> the floor of \<open>(vram_gb - 2.0) / 0.75\<close>, computed
  in double arithmetic, clamped to a minimum of 2; so the result is at least 2, and for
  \<open>vram_gb = 18.0\<close> it is 21.
\<close>

theorem recommend_models_max_params:
  assumes "\<bar>x\<bar> \<le> 2 ^ 1023"
  shows "returned_max_params (recommend_models (Fin x) device_type) =
           Some (max 2 \<lfloor>round_double (round_double (x - 2) / (3 / 4))\<rfloor>)
         \<and> (\<exists>n. returned_max_params (recommend_models (Fin x) device_type) = Some n \<and> 2 \<le> n)
         \<and> returned_max_params (recommend_models (Fin 18) device_type) = Some 21"
proof -
  have a: "returned_max_params (recommend_models (Fin x) device_type) =
             Some (max 2 \<lfloor>round_double (round_double (x - 2) / (3 / 4))\<rfloor>)"
    using assms by (rule recommend_models_bounded)
  have "returned_max_params (recommend_models (Fin 18) device_type) = Some 21"
    by (rule returned_18)
  with a show ?thesis by simp
qed

theorem recommend_models_max_params_witness:
  "\<bar>8 :: rat\<bar> \<le> 2 ^ 1023 \<and> returned_max_params (recommend_models (Fin 8) ''cpu'') = Some 8"
proof -
  have h: "\<bar>8 :: rat\<bar> \<le> 2 ^ 1023" by simp
  have "round_double (8 - 2) = 6" "round_double (6 / (3 / 4)) = 8"
    using round_double_int[of 6] round_double_int[of 8] by simp_all
  then show ?thesis using recommend_models_max_params[OF h, of "''cpu''"] by simp
qed

text \<open>The claim as stated fails: positive infinity is a float \<open>\<ge> 0\<close>, and on it
  \<open>int(max_params)\<close> raises, so nothing is returned.\<close>

theorem recommend_models_infinity_raises:
  "fge PInf (Fin 0) \<and>
   recommend_models PInf ''cuda'' =
     Inl (PyExc OverflowError ''cannot convert float infinity to integer'')"
  by (simp add: fge_def fle_def recommend_models_def fsub_def CONTEXT_OVERHEAD_GB_def
      QUANT_4BIT_GB_PER_BILLION_def finf_def)

section \<open>Tiers\<close>

lemma flt_not_fge: "flt v w \<Longrightarrow> \<not> fge v w"
  by (cases v; cases w) (auto simp: fge_def fle_def)

lemma fge_Fin_trans: "fge v (Fin a) \<Longrightarrow> b \<le> a \<Longrightarrow> fge v (Fin b)"
  by (cases v) (auto simp: fge_def fle_def)

lemma to_float_bracket:
  assumes lo: "of_int m1 * 2 powi k1 \<le> x" and hi: "x \<le> of_int m2 * 2 powi k2"
    and m: "\<bar>m1\<bar> \<le> 2 ^ 53" "\<bar>m2\<bar> \<le> 2 ^ 53" and k: "- 1074 \<le> k1" "- 1074 \<le> k2"
    and r: "- (2 ^ 1024) < of_int m1 * (2::rat) powi k1" "of_int m2 * (2::rat) powi k2 < 2 ^ 1024"
  shows "\<exists>r. to_float x = Fin r \<and> of_int m1 * 2 powi k1 \<le> r \<and> r \<le> of_int m2 * 2 powi k2"
proof -
  have "round_double (of_int m1 * 2 powi k1) \<le> round_double x" using lo by (rule round_double_mono)
  then have a: "of_int m1 * 2 powi k1 \<le> round_double x" using m k by (simp add: round_double_exact)
  have "round_double x \<le> round_double (of_int m2 * 2 powi k2)" using hi by (rule round_double_mono)
  then have b: "round_double x \<le> of_int m2 * 2 powi k2" using m k by (simp add: round_double_exact)
  from a b r have "\<bar>round_double x\<bar> < 2 ^ 1024" by (simp add: abs_less_iff)
  then show ?thesis using a b by (simp add: to_float_Fin)
qed

lemma literal_47_99: "\<exists>r. to_float (4799 / 100) = Fin r \<and> 24 \<le> r \<and> r < 48"
proof -
  have "\<exists>r. to_float (4799 / 100) = Fin r \<and> of_int 24 * 2 powi 0 \<le> r \<and> r \<le> of_int 6143 * 2 powi (- 7)"
    by (rule to_float_bracket) simp_all
  then show ?thesis by auto
qed

lemma literal_7_99: "\<exists>r. to_float (799 / 100) = Fin r \<and> r < 8"
proof -
  have "\<exists>r. to_float (799 / 100) = Fin r \<and> of_int 0 * 2 powi 0 \<le> r \<and> r \<le> of_int 1023 * 2 powi (- 7)"
    by (rule to_float_bracket) simp_all
  then show ?thesis by auto
qed

lemma performance_tier_cases:
  "fge v (Fin 48) \<Longrightarrow> performance_tier v = (''Enterprise'', ''#9333EA'')"
  "fge v (Fin 24) \<Longrightarrow> flt v (Fin 48) \<Longrightarrow> performance_tier v = (''Professional'', ''#3B82F6'')"
  "fge v (Fin 16) \<Longrightarrow> flt v (Fin 24) \<Longrightarrow> performance_tier v = (''Advanced'', ''#10B981'')"
  "fge v (Fin 8) \<Longrightarrow> flt v (Fin 16) \<Longrightarrow> performance_tier v = (''Standard'', ''#F59E0B'')"
  "flt v (Fin 8) \<Longrightarrow> performance_tier v = (''Entry'', ''#EF4444'')"
  by (cases v; auto simp: performance_tier_def fge_def fle_def)+

lemma select_models_cases:
  "fge v (Fin 48) \<Longrightarrow> select_models v = enterprise_models"
  "fge v (Fin 24) \<Longrightarrow> flt v (Fin 48) \<Longrightarrow> select_models v = professional_models"
  "fge v (Fin 16) \<Longrightarrow> flt v (Fin 24) \<Longrightarrow> select_models v = advanced_models"
  "fge v (Fin 8) \<Longrightarrow> flt v (Fin 16) \<Longrightarrow> select_models v = standard_models"
  "flt v (Fin 8) \<Longrightarrow> select_models v = entry_models"
  by (cases v; auto simp: select_models_def fge_def fle_def VRAM_TIER_ENTERPRISE_def
      VRAM_TIER_PROFESSIONAL_def VRAM_TIER_ADVANCED_def VRAM_TIER_STANDARD_def)+

text \<open>
  \<^bold>\<open>C2\<close>. The tiers are the right-open intervals cut at 48, 24, 16 and 8: a value \<open>\<ge> 48\<close> is
  Enterprise, one in \<open>[24, 48)\<close> Professional, one in \<open>[16, 24)\<close> Advanced, one in \<open>[8, 16)\<close>
  Standard and one \<open>< 8\<close> Entry, both for the badge of the report and for the model list of
  \<open>recommend_models\<close>; 48.0 is Enterprise, 47.99 and 24.0 are Professional, 8.0 is Standard and
  7.99 is Entry (\<open>to_float\<close> of a decimal is the double the literal denotes).
\<close>

theorem tier_boundaries:
  "(fge v (Fin 48) \<longrightarrow>
      fst (performance_tier v) = ''Enterprise'' \<and> select_models v = enterprise_models)
   \<and> (fge v (Fin 24) \<and> flt v (Fin 48) \<longrightarrow>
      fst (performance_tier v) = ''Professional'' \<and> select_models v = professional_models)
   \<and> (fge v (Fin 16) \<and> flt v (Fin 24) \<longrightarrow>
      fst (performance_tier v) = ''Advanced'' \<and> select_models v = advanced_models)
   \<and> (fge v (Fin 8) \<and> flt v (Fin 16) \<longrightarrow>
      fst (performance_tier v) = ''Standard'' \<and> select_models v = standard_models)
   \<and> (flt v (Fin 8) \<longrightarrow>
      fst (performance_tier v) = ''Entry'' \<and> select_models v = entry_models)
   \<and> fst (performance_tier (Fin 48)) = ''Enterprise''
   \<and> fst (performance_tier (to_float (4799 / 100))) = ''Professional''
   \<and> fst (performance_tier (Fin 24)) = ''Professional''
   \<and> fst (performance_tier (Fin 8)) = ''Standard''
   \<and> fst (performance_tier (to_float (799 / 100))) = ''Entry''"
proof -
  obtain r where r: "to_float (4799 / 100) = Fin r" "24 \<le> r" "r < 48"
    using literal_47_99 by blast
  obtain r' where r': "to_float (799 / 100) = Fin r'" "r' < 8"
    using literal_7_99 by blast
  have "fst (performance_tier (to_float (4799 / 100))) = ''Professional''"
    using r by (simp add: performance_tier_def fge_def fle_def)
  moreover have "fst (performance_tier (to_float (799 / 100))) = ''Entry''"
    using r' by (simp add: performance_tier_def fge_def fle_def)
  moreover have "fst (performance_tier (Fin 48)) = ''Enterprise''"
    "fst (performance_tier (Fin 24)) = ''Professional''"
    "fst (performance_tier (Fin 8)) = ''Standard''"
    by (simp_all add: performance_tier_def fge_def fle_def)
  ultimately show ?thesis
    by (simp add: performance_tier_cases select_models_cases)
qed

theorem tier_boundaries_witness:
  "fge (Fin 50) (Fin 48) \<and> fst (performance_tier (Fin 50)) = ''Enterprise''
   \<and> fge (Fin 30) (Fin 24) \<and> flt (Fin 30) (Fin 48) \<and> fst (performance_tier (Fin 30)) = ''Professional''
   \<and> fge (Fin 20) (Fin 16) \<and> flt (Fin 20) (Fin 24) \<and> fst (performance_tier (Fin 20)) = ''Advanced''
   \<and> fge (Fin 10) (Fin 8) \<and> flt (Fin 10) (Fin 16) \<and> fst (performance_tier (Fin 10)) = ''Standard''
   \<and> flt (Fin 5) (Fin 8) \<and> fst (performance_tier (Fin 5)) = ''Entry''"
proof -
  have h: "fge (Fin 50) (Fin 48)" "fge (Fin 30) (Fin 24)" "flt (Fin 30) (Fin 48)"
    "fge (Fin 20) (Fin 16)" "flt (Fin 20) (Fin 24)" "fge (Fin 10) (Fin 8)" "flt (Fin 10) (Fin 16)"
    "flt (Fin 5) (Fin 8)"
    by (simp_all add: fge_def fle_def)
  show ?thesis
    using h tier_boundaries[of "Fin 50"] tier_boundaries[of "Fin 30"] tier_boundaries[of "Fin 20"]
      tier_boundaries[of "Fin 10"] tier_boundaries[of "Fin 5"]
    by simp
qed

lemma model_lists_distinct:
  "distinct [enterprise_models, professional_models, advanced_models, standard_models, entry_models]"
  by (simp add: enterprise_models_def professional_models_def advanced_models_def
      standard_models_def entry_models_def)

lemma tier_and_models:
  "(fst (performance_tier v) = ''Enterprise'' \<and> select_models v = enterprise_models)
   \<or> (fst (performance_tier v) = ''Professional'' \<and> select_models v = professional_models)
   \<or> (fst (performance_tier v) = ''Advanced'' \<and> select_models v = advanced_models)
   \<or> (fst (performance_tier v) = ''Standard'' \<and> select_models v = standard_models)
   \<or> (fst (performance_tier v) = ''Entry'' \<and> select_models v = entry_models)"
  by (simp add: performance_tier_def select_models_def VRAM_TIER_ENTERPRISE_def
      VRAM_TIER_PROFESSIONAL_def VRAM_TIER_ADVANCED_def VRAM_TIER_STANDARD_def)

lemma tier_models_simps:
  "tier_models ''Enterprise'' = enterprise_models"
  "tier_models ''Professional'' = professional_models"
  "tier_models ''Advanced'' = advanced_models"
  "tier_models ''Standard'' = standard_models"
  "tier_models ''Entry'' = entry_models"
  by (simp_all add: tier_models_def)

lemma model_lists_neq:
  "enterprise_models \<noteq> professional_models" "enterprise_models \<noteq> advanced_models"
  "enterprise_models \<noteq> standard_models" "enterprise_models \<noteq> entry_models"
  "professional_models \<noteq> advanced_models" "professional_models \<noteq> standard_models"
  "professional_models \<noteq> entry_models" "advanced_models \<noteq> standard_models"
  "advanced_models \<noteq> entry_models" "standard_models \<noteq> entry_models"
  using model_lists_distinct by simp_all

text \<open>
  \<^bold>\<open>C10\<close>. The badge of the report and the model list of \<open>recommend_models\<close> put every value in
  the same bracket: the list selected is the list of the tier displayed, and two values get
  the same badge exactly when they get the same list.
\<close>

theorem tier_badge_agrees_with_models:
  "select_models v = tier_models (fst (performance_tier v))
   \<and> (fst (performance_tier v) = fst (performance_tier w) \<longleftrightarrow> select_models v = select_models w)"
proof
  show "select_models v = tier_models (fst (performance_tier v))"
    using tier_and_models[of v] by (elim disjE conjE) (simp_all only: tier_models_simps)
  show "fst (performance_tier v) = fst (performance_tier w) \<longleftrightarrow> select_models v = select_models w"
    using tier_and_models[of v] tier_and_models[of w]
    by (elim disjE conjE; simp add: model_lists_neq model_lists_neq[symmetric])
qed

section \<open>Monotonicity of the parameter estimate\<close>

lemma py_int_clamped: "py_int (if flt (Fin q) (Fin 2) then Fin 2 else Fin q) = Inr (max 2 \<lfloor>q\<rfloor>)"
  by (auto simp: max_def)

lemma returned_Fin: "returned_max_params (recommend_models (Fin x) d) = estimate x"
  by (simp add: recommend_models_def returned_max_params_def estimate_def fsub_def
      CONTEXT_OVERHEAD_GB_def QUANT_4BIT_GB_PER_BILLION_def to_float_def Let_def finf_def
      py_int_clamped max_def)

lemma returned_special:
  "returned_max_params (recommend_models NInf d) = Some 2"
  "returned_max_params (recommend_models PInf d) = None"
  "returned_max_params (recommend_models NaN d) = None"
  by (simp_all add: recommend_models_def returned_max_params_def fsub_def
      CONTEXT_OVERHEAD_GB_def QUANT_4BIT_GB_PER_BILLION_def Let_def finf_def)

lemma estimate_ge2: "estimate x = Some n \<Longrightarrow> 2 \<le> n"
  by (auto simp: estimate_def Let_def split: if_splits)

lemma estimate_mono:
  assumes "x \<le> y" "estimate y = Some n"
  shows "\<exists>m. estimate x = Some m \<and> m \<le> n"
proof -
  define a where "a = round_double (x - 2)"
  define b where "b = round_double (y - 2)"
  define p where "p = round_double (a / (3 / 4))"
  define q where "q = round_double (b / (3 / 4))"
  have ab: "a \<le> b" unfolding a_def b_def using assms(1) by (intro round_double_mono) simp
  then have pq: "p \<le> q" unfolding p_def q_def by (intro round_double_mono) simp
  have fl: "\<lfloor>p\<rfloor> \<le> \<lfloor>q\<rfloor>" using pq by (rule floor_mono)
  have n2: "2 \<le> n" using assms(2) by (rule estimate_ge2)
  show ?thesis
    using assms(2) ab pq fl n2
    unfolding estimate_def Let_def a_def[symmetric] b_def[symmetric] p_def[symmetric] q_def[symmetric]
    by (auto split: if_splits)
qed

text \<open>
  \<^bold>\<open>C7\<close>. \<open>max_params\<close> is monotonically non-decreasing in \<open>vram_gb\<close>: for \<open>v1 \<le> v2\<close>, whenever
  \<open>recommend_models\<close> returns on \<open>v2\<close> it returns on \<open>v1\<close> too, and with a value that is not
  larger.
\<close>

theorem max_params_monotone:
  assumes "fle v1 v2"
    and "returned_max_params (recommend_models v2 d2) = Some n2"
  shows "\<exists>n1. returned_max_params (recommend_models v1 d1) = Some n1 \<and> n1 \<le> n2"
proof (cases v2)
  case (Fin y)
  show ?thesis
  proof (cases v1)
    case (Fin x)
    then show ?thesis using assms \<open>v2 = Fin y\<close> estimate_mono[of x y n2]
      by (auto simp: returned_Fin fle_def)
  next
    case NInf
    then show ?thesis using assms \<open>v2 = Fin y\<close> estimate_ge2[of y n2]
      by (simp add: returned_Fin returned_special)
  qed (use assms \<open>v2 = Fin y\<close> in \<open>simp_all add: fle_def\<close>)
next
  case NInf
  then show ?thesis using assms by (cases v1) (simp_all add: fle_def returned_special)
qed (use assms in \<open>simp_all add: returned_special\<close>)


theorem max_params_monotone_witness:
  "fle (Fin 8) (Fin 18) \<and> returned_max_params (recommend_models (Fin 18) ''cuda'') = Some 21
   \<and> (\<exists>n1. returned_max_params (recommend_models (Fin 8) ''cpu'') = Some n1 \<and> n1 \<le> 21)"
proof -
  have h1: "fle (Fin 8) (Fin 18)" by (simp add: fle_def)
  have h2: "returned_max_params (recommend_models (Fin 18) ''cuda'') = Some 21" by (rule returned_18)
  show ?thesis using h1 h2 max_params_monotone[OF h1 h2, of "''cpu''"] by simp
qed

section \<open>Every call executed, on a console that takes every line\<close>

text \<open>When no \<^verbatim>\<open>print\<close> raises, the functions with every call executed do what
  \<open>get_hardware_capacity\<close> and \<open>recommend_models\<close> do.\<close>

lemma py_prints_append:
  "py_prints rt out (as @ bs) =
     (case py_prints rt out as of Inl e \<Rightarrow> Inl e | Inr out' \<Rightarrow> py_prints rt out' bs)"
  by (induction as arbitrary: out) (simp_all split: sum.splits)

lemma py_print_accepted:
  "print_error rt (length out) s = None \<Longrightarrow> py_print rt out s = Inr (out @ [s])"
  by (simp add: py_print_def)


lemma run_cuda_device_loop_accepted:
  assumes "\<And>k s. print_error rt k s = None"
  shows "run_cuda_device_loop rt h is s = cuda_device_loop h is s"
  by (induction "is" arbitrary: s) (simp_all add: py_print_def assms split: sum.splits)

lemma run_cuda_try_accepted:
  assumes "\<And>k s. print_error rt k s = None"
  shows "run_cuda_try rt h s = cuda_try h s"
  by (simp add: run_cuda_try_def cuda_try_def py_print_def assms run_cuda_device_loop_accepted
      Let_def split: sum.splits)

lemma run_check_nvidia_gpu_accepted:
  assumes "\<And>k s. print_error rt k s = None"
  shows "run_check_nvidia_gpu rt h s = Inr (check_nvidia_gpu h s)"
  by (simp add: run_check_nvidia_gpu_def check_nvidia_gpu_def py_print_def assms
      run_cuda_try_accepted split: prod.splits option.splits)

lemma run_mps_try_accepted:
  assumes "\<And>k s. print_error rt k s = None"
  shows "run_mps_try rt h ram_gb s = mps_try h ram_gb s"
  by (simp add: run_mps_try_def mps_try_def py_print_def assms Let_def split: sum.splits)

lemma run_check_apple_silicon_accepted:
  assumes "\<And>k s. print_error rt k s = None"
  shows "run_check_apple_silicon rt h ram_gb s = Inr (check_apple_silicon h ram_gb s)"
  by (simp add: run_check_apple_silicon_def check_apple_silicon_def py_print_def assms
      run_mps_try_accepted split: prod.splits option.splits)

lemma run_fallback_to_cpu_accepted:
  assumes "\<And>k s. print_error rt k s = None"
  shows "run_fallback_to_cpu rt ram_gb s = Inr (fallback_to_cpu ram_gb s)"
  by (simp add: run_fallback_to_cpu_def fallback_to_cpu_def py_print_def assms Let_def)

lemma run_get_hardware_capacity_accepted:
  assumes "platform_system_error rt = None" "virtual_memory_error rt = None"
    and "\<And>k s. print_error rt k s = None"
  shows "run_get_hardware_capacity rt h = get_hardware_capacity h"
  by (simp add: run_get_hardware_capacity_def get_hardware_capacity_def assms(1,2)
      py_print_def assms(3) run_check_nvidia_gpu_accepted[OF assms(3)]
      run_check_apple_silicon_accepted[OF assms(3)] run_fallback_to_cpu_accepted[OF assms(3)]
      Let_def split: sum.splits)

lemma run_recommend_models_cases:
  "(\<forall>res lines. recommend_models vram_gb device_type = Inr (res, lines) \<longrightarrow>
      run_recommend_models rt out vram_gb device_type =
        (case py_prints rt out lines of Inl e \<Rightarrow> Inl e | Inr out' \<Rightarrow> Inr (res, out')))
   \<and> (\<forall>e. recommend_models vram_gb device_type = Inl e \<longrightarrow>
          (\<exists>e'. run_recommend_models rt out vram_gb device_type = Inl e'))"
proof -
  define d where "d = (if flt (Fin 0) QUANT_4BIT_GB_PER_BILLION
            then py_truediv (fsub vram_gb CONTEXT_OVERHEAD_GB) QUANT_4BIT_GB_PER_BILLION
            else Inr (Fin 0))"
  define tl_lines where "tl_lines = (\<lambda>n::int.
       [''* Theoretical Max Parameter Count: ~'' @ str_int n @ ''B'',
        ''\<newline>Recommended Models (4-bit Quantization):''] @
       map (\<lambda>(model_name, description). ''- '' @ model_name @ '': '' @ description)
         (select_models vram_gb) @
       (if device_type = ''cpu''
        then [''\<newline>'' @ [CHR 0xE2, CHR 0x9A, CHR 0xA0, CHR 0xEF, CHR 0xB8, CHR 0x8F] @
                ''  Note: CPU inference will be significantly slower than GPU/MPS.'',
              ''   Consider using GGUF format models with llama.cpp for better CPU performance.'']
        else []))"
  define mp where "mp = (\<lambda>raw_params. if flt raw_params (Fin 2) then Fin 2 else raw_params)"
  define hd_lines where "hd_lines =
       [''\<newline>### Feasible Local Deployment (4-bit Quantization) ###'',
        ''* Effective VRAM Cap: '' @ format_float 2 vram_gb @ '' GB'']"
  have ideal: "recommend_models vram_gb device_type =
      (case d of Inl e \<Rightarrow> Inl e
       | Inr raw_params \<Rightarrow>
           (case py_int (mp raw_params) of
              Inl e \<Rightarrow> Inl e
            | Inr n \<Rightarrow> Inr ((n, select_models vram_gb), hd_lines @ tl_lines n)))"
    unfolding recommend_models_def d_def tl_lines_def hd_lines_def mp_def Let_def
    by (simp split: sum.splits)
  have run: "run_recommend_models rt out vram_gb device_type =
      (case d of Inl e \<Rightarrow> Inl e
       | Inr raw_params \<Rightarrow>
           (case py_prints rt out hd_lines of
              Inl e \<Rightarrow> Inl e
            | Inr out1 \<Rightarrow>
                (case py_int (mp raw_params) of
                   Inl e \<Rightarrow> Inl e
                 | Inr n \<Rightarrow>
                     (case py_prints rt out1 (tl_lines n) of
                        Inl e \<Rightarrow> Inl e
                      | Inr out2 \<Rightarrow> Inr ((n, select_models vram_gb), out2)))))"
    unfolding run_recommend_models_def d_def tl_lines_def hd_lines_def mp_def Let_def
    by (rule refl)
  have a: "run_recommend_models rt out vram_gb device_type =
        (case py_prints rt out lines of Inl e \<Rightarrow> Inl e | Inr out' \<Rightarrow> Inr (res, out'))"
    if "recommend_models vram_gb device_type = Inr (res, lines)" for res lines
  proof -
    from that obtain raw n where d: "d = Inr raw"
      and n: "py_int (mp raw) = Inr n"
      and r: "res = (n, select_models vram_gb)" "lines = hd_lines @ tl_lines n"
      unfolding ideal by (auto split: sum.splits)
    show ?thesis
      unfolding run d r by (simp add: n py_prints_append split: sum.splits)
  qed
  have b: "\<exists>e'. run_recommend_models rt out vram_gb device_type = Inl e'"
    if "recommend_models vram_gb device_type = Inl e" for e
  proof -
    from that have "d = Inl e \<or> (\<exists>raw. d = Inr raw \<and> py_int (mp raw) = Inl e)"
      unfolding ideal by (auto split: sum.splits)
    then show ?thesis unfolding run by (auto split: sum.splits)
  qed
  show ?thesis using a b by blast
qed

lemma run_recommend_models_prints:
  assumes "recommend_models vram_gb device_type = Inr (res, lines)"
  shows "run_recommend_models rt out vram_gb device_type =
           (case py_prints rt out lines of Inl e \<Rightarrow> Inl e | Inr out' \<Rightarrow> Inr (res, out'))"
  using run_recommend_models_cases[of vram_gb device_type rt out] assms by blast

lemma run_recommend_models_raises:
  assumes "recommend_models vram_gb device_type = Inl e"
  shows "\<exists>e'. run_recommend_models rt out vram_gb device_type = Inl e'"
  using run_recommend_models_cases[of vram_gb device_type rt out] assms by blast

lemma recommend_models_cpu_note:
  assumes "recommend_models vram_gb ''cpu'' = Inr (res, lines)"
  shows "''\<newline>'' @ [CHR 0xE2, CHR 0x9A, CHR 0xA0, CHR 0xEF, CHR 0xB8, CHR 0x8F] @
         ''  Note: CPU inference will be significantly slower than GPU/MPS.'' \<in> set lines"
proof -
  define d where "d = (if flt (Fin 0) QUANT_4BIT_GB_PER_BILLION
            then py_truediv (fsub vram_gb CONTEXT_OVERHEAD_GB) QUANT_4BIT_GB_PER_BILLION
            else Inr (Fin 0))"
  define mp where "mp = (\<lambda>raw_params. if flt raw_params (Fin 2) then Fin 2 else raw_params)"
  have "recommend_models vram_gb ''cpu'' =
      (case d of Inl e \<Rightarrow> Inl e
       | Inr raw_params \<Rightarrow>
           (case py_int (mp raw_params) of
              Inl e \<Rightarrow> Inl e
            | Inr n \<Rightarrow> Inr ((n, select_models vram_gb),
                [''\<newline>### Feasible Local Deployment (4-bit Quantization) ###'',
                 ''* Effective VRAM Cap: '' @ format_float 2 vram_gb @ '' GB'',
                 ''* Theoretical Max Parameter Count: ~'' @ str_int n @ ''B'',
                 ''\<newline>Recommended Models (4-bit Quantization):''] @
                map (\<lambda>(model_name, description). ''- '' @ model_name @ '': '' @ description)
                  (select_models vram_gb) @
                [''\<newline>'' @ [CHR 0xE2, CHR 0x9A, CHR 0xA0, CHR 0xEF, CHR 0xB8, CHR 0x8F] @
                   ''  Note: CPU inference will be significantly slower than GPU/MPS.'',
                 ''   Consider using GGUF format models with llama.cpp for better CPU performance.''])))"
    unfolding recommend_models_def d_def mp_def Let_def by (simp split: sum.splits)
  with assms obtain n where "lines =
                [''\<newline>### Feasible Local Deployment (4-bit Quantization) ###'',
                 ''* Effective VRAM Cap: '' @ format_float 2 vram_gb @ '' GB'',
                 ''* Theoretical Max Parameter Count: ~'' @ str_int n @ ''B'',
                 ''\<newline>Recommended Models (4-bit Quantization):''] @
                map (\<lambda>(model_name, description). ''- '' @ model_name @ '': '' @ description)
                  (select_models vram_gb) @
                [''\<newline>'' @ [CHR 0xE2, CHR 0x9A, CHR 0xA0, CHR 0xEF, CHR 0xB8, CHR 0x8F] @
                   ''  Note: CPU inference will be significantly slower than GPU/MPS.'',
                 ''   Consider using GGUF format models with llama.cpp for better CPU performance.'']"
    by (auto split: sum.splits)
  then show ?thesis by simp
qed


section \<open>The hardware probe\<close>

lemma round_double_eval:
  assumes "2 powi e \<le> \<bar>x\<bar>" "\<bar>x\<bar> < 2 powi (e + 1)" "- 1022 \<le> e"
    and "\<bar>x / 2 powi (e - 52) - of_int n\<bar> < 1 / 2"
  shows "round_double x = of_int n * 2 powi (e - 52)"
proof -
  have "ilog2 x = e" using assms(1,2) by (rule ilog2_unique)
  then have "quantum x = 2 powi (e - 52)" using assms(3) by (simp add: quantum_def bexp_def)
  then show ?thesis using rhe_unique[OF assms(4)] by (simp add: round_double_def)
qed

lemma uint64_bounds: "0 \<le> uint (b :: 64 word)" "uint b < 2 ^ 64"
  using uint_bounded[of b] by simp_all

lemma gigabytes_range: "0 \<le> gigabytes b" "gigabytes b \<le> 2 ^ 34"
proof -
  let ?x = "of_int (uint b) / (1024 ^ 3 :: rat)"
  have "(of_int (uint b) :: rat) < of_int (2 ^ 64)" using uint64_bounds(2)[of b] by (simp only: of_int_less_iff)
  then have hi: "?x \<le> 2 ^ 34" by simp
  have "(0::rat) \<le> of_int (uint b)" using uint64_bounds(1)[of b] by (simp only: of_int_0_le_iff)
  then have lo: "0 \<le> ?x" by (intro divide_nonneg_nonneg) simp_all
  show "0 \<le> gigabytes b" unfolding gigabytes_def using lo by (rule round_double_nonneg)
  have "\<bar>?x\<bar> \<le> of_int (2 ^ 34) * 2 powi 0" using lo hi by simp
  then have "\<bar>round_double ?x\<bar> \<le> of_int (2 ^ 34) * 2 powi 0" by (rule round_double_abs_le) simp_all
  then show "gigabytes b \<le> 2 ^ 34" by (simp add: gigabytes_def)
qed

lemma int_truediv_bytes: "int_truediv (uint b) (1024 ^ 3) = Inr (Fin (gigabytes b))"
proof -
  have "\<bar>gigabytes b\<bar> < 2 ^ 1024" using gigabytes_range[of b] by simp
  then have "to_float (of_int (uint b) / 1024 ^ 3) = Fin (gigabytes b)"
    unfolding gigabytes_def by (rule to_float_Fin)
  then show ?thesis by (simp add: int_truediv_def)
qed

lemma int_truediv_bytes' [simp]: "int_truediv (uint b) 1073741824 = Inr (Fin (gigabytes b))"
  using int_truediv_bytes[of b] by simp

lemma gigabytes_pos:
  assumes "b \<noteq> 0" shows "2 powi (- 30) \<le> gigabytes b"
proof -
  have "uint b \<noteq> 0" using assms by (simp add: uint_0_iff)
  then have "1 \<le> uint b" using uint64_bounds(1)[of b] by linarith
  then have "(of_int 1 :: rat) \<le> of_int (uint b)" by (simp only: of_int_le_iff)
  then have "of_int 1 * 2 powi (- 30) \<le> of_int (uint b) / (1024 ^ 3 :: rat)" by simp
  then have "round_double (of_int 1 * 2 powi (- 30)) \<le> gigabytes b"
    unfolding gigabytes_def by (rule round_double_mono)
  moreover have "round_double (of_int 1 * 2 powi (- 30)) = of_int 1 * 2 powi (- 30)"
    by (rule round_double_exact) simp_all
  ultimately show ?thesis by simp
qed

lemma gigabytes_zero: "gigabytes 0 = 0"
  by (simp add: gigabytes_def round_double_zero)

lemma round_double_big: "round_double (2 ^ 100 + 2 ^ 34) = 2 ^ 100"
proof -
  have "round_double (2 ^ 100 + 2 ^ 34) = of_int (2 ^ 52) * 2 powi (100 - 52)"
    by (rule round_double_eval) simp_all
  then show ?thesis by simp
qed

lemma fadd_small:
  assumes "0 \<le> a" "a \<le> 2 ^ 100" "0 \<le> g" "g \<le> 2 ^ 34"
  shows "fadd (Fin a) (Fin g) = Fin (round_double (a + g))"
    and "0 \<le> round_double (a + g)" and "round_double (a + g) \<le> 2 ^ 100"
proof -
  show lo: "0 \<le> round_double (a + g)" using assms by (intro round_double_nonneg) simp
  have "round_double (a + g) \<le> round_double (2 ^ 100 + 2 ^ 34)"
    using assms by (intro round_double_mono) simp
  also have "\<dots> = 2 ^ 100" by (rule round_double_big)
  finally show hi: "round_double (a + g) \<le> 2 ^ 100" .
  have "\<bar>round_double (a + g)\<bar> < 2 ^ 1024" using lo hi by simp
  then show "fadd (Fin a) (Fin g) = Fin (round_double (a + g))" by (simp add: to_float_Fin)
qed

lemma get_hardware_capacity_steps:
  "get_hardware_capacity h =
     (let s3 = finish_audit h (Fin (gigabytes (virtual_memory_total h)))
                 (check_nvidia_gpu h (audit_start h))
      in Inr (capacity_of h s3, st_console s3))"
  by (simp add: get_hardware_capacity_def int_truediv_bytes audit_start_def finish_audit_def
      capacity_of_def Let_def)

lemma fmul_ratio:
  assumes "0 \<le> r" "r \<le> 2 ^ 34" "0 \<le> c" "c \<le> 1"
  shows "fmul (Fin r) (Fin c) = Fin (round_double (r * c))"
    and "0 \<le> round_double (r * c)" and "round_double (r * c) \<le> 2 ^ 34"
proof -
  have rc: "0 \<le> r * c" "r * c \<le> 2 ^ 34"
    using assms mult_mono[of r "2 ^ 34" c 1] by simp_all
  show lo: "0 \<le> round_double (r * c)" using rc(1) by (rule round_double_nonneg)
  have "\<bar>r * c\<bar> \<le> of_int (2 ^ 34) * 2 powi 0" using rc by simp
  then have "\<bar>round_double (r * c)\<bar> \<le> of_int (2 ^ 34) * 2 powi 0"
    by (rule round_double_abs_le) simp_all
  then show hi: "round_double (r * c) \<le> 2 ^ 34" by simp
  have "\<bar>round_double (r * c)\<bar> < 2 ^ 1024" using lo hi by simp
  then show "fmul (Fin r) (Fin c) = Fin (round_double (r * c))" by (simp add: to_float_Fin)
qed

lemma small_nonneg_Fin [simp]: "small_nonneg (Fin a) \<longleftrightarrow> 0 \<le> a \<and> a \<le> 2 ^ 100"
  by (simp add: small_nonneg_def)










lemma ilog2_ge_m30:
  assumes "2 powi (- 30) \<le> x" shows "- 30 \<le> ilog2 x"
proof -
  have "ilog2 (2 powi (- 30)) \<le> ilog2 x" using assms by (intro ilog2_mono) simp_all
  moreover have "ilog2 (2 powi (- 30)) = - 30" by (rule ilog2_unique) simp_all
  ultimately show ?thesis by simp
qed

lemma half_gigabytes: "round_double (gigabytes b * (1 / 2)) = gigabytes b / 2"
proof (cases "b = 0")
  case True
  then show ?thesis by (simp add: gigabytes_zero round_double_zero)
next
  case False
  define x :: rat where "x = of_int (uint b) / 1024 ^ 3"
  have "uint b \<noteq> 0" using False by (simp add: uint_0_iff)
  then have "1 \<le> uint b" using uint64_bounds(1)[of b] by linarith
  then have "(of_int 1 :: rat) \<le> of_int (uint b)" by (simp only: of_int_le_iff)
  then have "2 powi (- 30) \<le> x" by (simp add: x_def)
  then have "- 30 \<le> ilog2 x" by (rule ilog2_ge_m30)
  then have e: "- 30 \<le> bexp x" by (simp add: bexp_def)
  obtain m where m: "\<bar>m\<bar> \<le> 2 ^ 53" "round_double x = of_int m * 2 powi (bexp x - 52)"
    using round_double_form[of x] by blast
  have "bexp x - 52 = (bexp x - 53) + 1" by simp
  then have "(2::rat) powi (bexp x - 52) = 2 powi ((bexp x - 53) + 1)" by (simp only:)
  also have "\<dots> = 2 powi (bexp x - 53) * 2" by (rule power_int_add_1) simp
  finally have "round_double x * (1 / 2) = of_int m * 2 powi (bexp x - 53)" by (simp add: m(2))
  moreover have "round_double (of_int m * 2 powi (bexp x - 53)) = of_int m * 2 powi (bexp x - 53)"
    using m(1) e by (intro round_double_exact) simp_all
  ultimately have "round_double (round_double x * (1 / 2)) = round_double x * (1 / 2)" by simp
  then show ?thesis by (simp add: gigabytes_def x_def)
qed

lemma fmul_cpu_ratio:
  "fmul (Fin (gigabytes b)) CPU_USABLE_MEMORY_RATIO = Fin (gigabytes b / 2)"
  using fmul_ratio(1)[OF gigabytes_range, of "1 / 2" b] half_gigabytes[of b]
  by (simp add: CPU_USABLE_MEMORY_RATIO_def)

lemma finish_audit_nonzero:
  "\<not> feq (st_vram_gb s) (Fin 0) \<Longrightarrow> finish_audit h ram_gb s = s"
  by (simp add: finish_audit_def)

text \<open>What steps 2 and 3 leave when step 1 has counted no memory.\<close>

lemma finish_audit_zero:
  assumes "st_vram_gb s = Fin 0"
  shows "st_vram_gb (finish_audit h ram_gb s) =
           (if mps_is_available h = Inr True \<and> \<not> feq (fmul ram_gb MPS_USABLE_MEMORY_RATIO) (Fin 0)
            then fmul ram_gb MPS_USABLE_MEMORY_RATIO else fmul ram_gb CPU_USABLE_MEMORY_RATIO)"
    and "st_device_type (finish_audit h ram_gb s) =
           (if mps_is_available h = Inr True \<and> \<not> feq (fmul ram_gb MPS_USABLE_MEMORY_RATIO) (Fin 0)
            then ''mps'' else ''cpu'')"
    and "st_gpu_details (finish_audit h ram_gb s) = st_gpu_details s"
    and "set (st_console s) \<subseteq> set (st_console (finish_audit h ram_gb s))"
    and "\<And>e. mps_is_available h = Inl e \<Longrightarrow> mps_except e \<in> set (st_console (finish_audit h ram_gb s))"
  using assms
  by (auto simp: finish_audit_def check_apple_silicon_def mps_try_def fallback_to_cpu_def Let_def
      split: sum.splits)

lemma cuda_device_loop_all:
  assumes "\<forall>i\<in>set is. cuda_get_device_properties h i = Inr (props i)"
  shows "cuda_device_loop h is s =
           (None,
            s\<lparr>st_console := st_console s @
                 map (\<lambda>i. ''  - GPU '' @ str_nat i @ '': '' @ props_name (props i) @ '' | '' @
                          format_float 2 (Fin (gigabytes (props_total_memory (props i)))) @
                          '' GB VRAM'') is,
               st_gpu_details := st_gpu_details s @
                 map (\<lambda>i. \<lparr>gpu_name = props_name (props i),
                            gpu_vram = Fin (gigabytes (props_total_memory (props i)))\<rparr>) is,
               st_vram_gb := foldl fadd (st_vram_gb s)
                 (map (\<lambda>i. Fin (gigabytes (props_total_memory (props i)))) is)\<rparr>)"
  using assms
proof (induction "is" arbitrary: s)
  case Nil
  then show ?case by simp
next
  case (Cons i rest)
  then show ?case by simp
qed

lemma foldl_fadd_small:
  assumes "0 \<le> a" "a \<le> 2 ^ 100"
  shows "\<exists>c. foldl fadd (Fin a) (map (\<lambda>i. Fin (gigabytes (tm i))) is) = Fin c \<and> 0 \<le> c \<and> c \<le> 2 ^ 100
             \<and> (2 powi (- 30) \<le> a \<or> (\<exists>i\<in>set is. tm i \<noteq> 0) \<longrightarrow> 2 powi (- 30) \<le> c)"
  using assms
proof (induction "is" arbitrary: a)
  case Nil
  then show ?case by simp
next
  case (Cons i rest)
  let ?g = "gigabytes (tm i)"
  let ?a' = "round_double (a + ?g)"
  have f: "fadd (Fin a) (Fin ?g) = Fin ?a'" and lo: "0 \<le> ?a'" and hi: "?a' \<le> 2 ^ 100"
    using fadd_small[OF Cons.prems gigabytes_range] by simp_all
  have pos: "2 powi (- 30) \<le> ?a'" if "2 powi (- 30) \<le> a \<or> tm i \<noteq> 0"
  proof -
    have "2 powi (- 30) \<le> a + ?g"
      using that gigabytes_pos[of "tm i"] gigabytes_range(1)[of "tm i"] Cons.prems(1) by auto
    then have "round_double (of_int 1 * 2 powi (- 30)) \<le> ?a'" by (intro round_double_mono) simp
    moreover have "round_double (of_int 1 * 2 powi (- 30)) = of_int 1 * 2 powi (- 30)"
      by (rule round_double_exact) simp_all
    ultimately show ?thesis by simp
  qed
  from Cons.IH[OF lo hi] obtain c where c:
    "foldl fadd (Fin ?a') (map (\<lambda>i. Fin (gigabytes (tm i))) rest) = Fin c" "0 \<le> c" "c \<le> 2 ^ 100"
    "2 powi (- 30) \<le> ?a' \<or> (\<exists>i\<in>set rest. tm i \<noteq> 0) \<longrightarrow> 2 powi (- 30) \<le> c"
    by blast
  show ?case using c pos f by auto
qed

lemma probe_steps:
  "probe_capacity h =
     Some (capacity_of h (finish_audit h (Fin (gigabytes (virtual_memory_total h)))
                            (check_nvidia_gpu h (audit_start h))))"
  "probe_console h =
     st_console (finish_audit h (Fin (gigabytes (virtual_memory_total h)))
                   (check_nvidia_gpu h (audit_start h)))"
  by (simp_all add: probe_capacity_def probe_console_def get_hardware_capacity_steps Let_def)

lemma get_hardware_capacity_probe:
  "get_hardware_capacity h = Inr (the (probe_capacity h), probe_console h)"
  by (simp add: probe_steps get_hardware_capacity_steps Let_def)

lemma check_nvidia_gpu_absent:
  assumes "cuda_is_available h \<noteq> Inr True"
  shows "st_vram_gb (check_nvidia_gpu h s) = st_vram_gb s"
    and "st_gpu_details (check_nvidia_gpu h s) = st_gpu_details s"
    and "\<And>e. cuda_is_available h = Inl e \<Longrightarrow> cuda_except e \<in> set (st_console (check_nvidia_gpu h s))"
  using assms
  by (auto simp: check_nvidia_gpu_def cuda_try_def split: sum.splits)

lemma gigabytes_16: "gigabytes 17179869184 = 16"
  using round_double_int[of 16] by (simp add: gigabytes_def)

lemma gigabytes_8: "gigabytes 8589934592 = 8"
  using round_double_int[of 8] by (simp add: gigabytes_def)

lemma cpu_fallback_general:
  assumes "cuda_is_available h \<noteq> Inr True" "mps_is_available h \<noteq> Inr True"
  shows "probe_capacity h =
           Some (Fin (gigabytes (virtual_memory_total h) / 2), ''cpu'',
                 Fin (gigabytes (virtual_memory_total h)), platform_system h, [])"
proof -
  let ?s1 = "check_nvidia_gpu h (audit_start h)"
  have z: "st_vram_gb ?s1 = Fin 0" and d: "st_gpu_details ?s1 = []"
    using check_nvidia_gpu_absent(1,2)[OF assms(1), of "audit_start h"]
    by (simp_all add: audit_start_def)
  show ?thesis
    using finish_audit_zero(1,2,3)[OF z, of h "Fin (gigabytes (virtual_memory_total h))"] assms(2) d
    by (simp add: probe_steps capacity_of_def fmul_cpu_ratio)
qed

lemma returned_8: "returned_max_params (recommend_models (Fin 8) d) = Some 8"
proof -
  have "round_double (8 - 2) = 6" "round_double (6 / (3 / 4)) = 8"
    using round_double_int[of 6] round_double_int[of 8] by simp_all
  then show ?thesis using recommend_models_bounded[of 8 d] by simp
qed

text \<open>
  \<^bold>\<open>C3\<close>. When neither the CUDA query nor the MPS query answers that an accelerator is
  available, the probe returns the device type \<open>cpu\<close> and as usable memory exactly half of the
  RAM figure (halving a double of this size loses nothing), with no device listed. With
  16 GiB of RAM the RAM figure is 16.0, the usable memory 8.0, \<open>max_params\<close> 8 and the tier
  Standard.
\<close>

theorem cpu_fallback:
  assumes "cuda_is_available h \<noteq> Inr True" "mps_is_available h \<noteq> Inr True"
  shows "\<exists>r out.
           int_truediv (uint (virtual_memory_total h)) (1024 ^ 3) = Inr (Fin r)
           \<and> get_hardware_capacity h = Inr ((Fin (r / 2), ''cpu'', Fin r, platform_system h, []), out)
           \<and> fmul (Fin r) CPU_USABLE_MEMORY_RATIO = Fin (r / 2)
           \<and> (virtual_memory_total h = 16 * 1024 ^ 3 \<longrightarrow>
                r = 16 \<and> r / 2 = 8
                \<and> returned_max_params (recommend_models (Fin (r / 2)) ''cpu'') = Some 8
                \<and> fst (performance_tier (Fin (r / 2))) = ''Standard'')"
proof -
  let ?r = "gigabytes (virtual_memory_total h)"
  have "int_truediv (uint (virtual_memory_total h)) (1024 ^ 3) = Inr (Fin ?r)"
    by (rule int_truediv_bytes)
  moreover have "get_hardware_capacity h =
      Inr ((Fin (?r / 2), ''cpu'', Fin ?r, platform_system h, []), probe_console h)"
    using cpu_fallback_general[OF assms] by (simp add: get_hardware_capacity_probe)
  moreover have "fmul (Fin ?r) CPU_USABLE_MEMORY_RATIO = Fin (?r / 2)" by (rule fmul_cpu_ratio)
  moreover have "virtual_memory_total h = 16 * 1024 ^ 3 \<longrightarrow>
      ?r = 16 \<and> ?r / 2 = 8 \<and> returned_max_params (recommend_models (Fin (?r / 2)) ''cpu'') = Some 8
      \<and> fst (performance_tier (Fin (?r / 2))) = ''Standard''"
    by (simp add: gigabytes_16 returned_8 performance_tier_def fge_def fle_def)
  ultimately show ?thesis by blast
qed

theorem cpu_fallback_witness:
  "cuda_is_available example_host \<noteq> Inr True \<and> mps_is_available example_host \<noteq> Inr True
   \<and> virtual_memory_total example_host = 16 * 1024 ^ 3
   \<and> (\<exists>out. get_hardware_capacity example_host = Inr ((Fin 8, ''cpu'', Fin 16, ''Linux'', []), out))"
proof -
  have h: "cuda_is_available example_host \<noteq> Inr True" "mps_is_available example_host \<noteq> Inr True"
    and m: "virtual_memory_total example_host = 16 * 1024 ^ 3"
    by (simp_all add: example_host_def)
  from cpu_fallback[OF h] m obtain r out where
    "get_hardware_capacity example_host =
       Inr ((Fin (r / 2), ''cpu'', Fin r, platform_system example_host, []), out)"
    "r = 16" "r / 2 = 8"
    by blast
  then show ?thesis using h m by (auto simp: example_host_def)
qed

lemma check_nvidia_gpu_all:
  assumes "cuda_is_available h = Inr True" "cuda_device_count h = Inr n"
    and "\<forall>i<n. cuda_get_device_properties h i = Inr (props i)"
  shows "check_nvidia_gpu h s =
           s\<lparr>st_device_type := ''cuda'',
             st_console := st_console s @
               [''* Backend: NVIDIA CUDA ('' @ str_nat n @ '' devices)''] @
               map (\<lambda>i. ''  - GPU '' @ str_nat i @ '': '' @ props_name (props i) @ '' | '' @
                        format_float 2 (Fin (gigabytes (props_total_memory (props i)))) @
                        '' GB VRAM'') [0..<n],
             st_gpu_details := st_gpu_details s @
               map (\<lambda>i. \<lparr>gpu_name = props_name (props i),
                          gpu_vram = Fin (gigabytes (props_total_memory (props i)))\<rparr>) [0..<n],
             st_vram_gb := foldl fadd (st_vram_gb s)
               (map (\<lambda>i. Fin (gigabytes (props_total_memory (props i)))) [0..<n])\<rparr>"
proof -
  have "\<forall>i\<in>set [0..<n]. cuda_get_device_properties h i = Inr (props i)" using assms(3) by simp
  from cuda_device_loop_all[OF this] show ?thesis
    using assms(1,2) by (simp add: check_nvidia_gpu_def cuda_try_def)
qed

lemma gpu_sum_nonzero:
  assumes "\<exists>i<n. tm i \<noteq> 0"
  shows "\<not> feq (foldl fadd (Fin 0) (map (\<lambda>i. Fin (gigabytes (tm i))) [0..<n])) (Fin 0)"
proof -
  obtain c where c: "foldl fadd (Fin 0) (map (\<lambda>i. Fin (gigabytes (tm i))) [0..<n]) = Fin c"
    "2 powi (- 30) \<le> (0::rat) \<or> (\<exists>i\<in>set [0..<n]. tm i \<noteq> 0) \<longrightarrow> 2 powi (- 30) \<le> c"
    using foldl_fadd_small[of 0 tm "[0..<n]"] by auto
  have "\<exists>i\<in>set [0..<n]. tm i \<noteq> 0" using assms by auto
  then have "2 powi (- 30) \<le> c" using c(2) by blast
  moreover have "(0::rat) < 2 powi (- 30)" by simp
  ultimately have "c \<noteq> 0" by linarith
  then show ?thesis using c(1) by simp
qed

text \<open>
  Step 1 where it does what it is meant to do. When CUDA is available, every device query
  answers and at least one device reports a non-zero memory size, the probe returns the
  device type \<open>cuda\<close>, as usable memory the sum (in double arithmetic, in device order) of
  the devices' memory in GiB, and one entry with name and memory per device; the console
  holds the audit header, the backend line and one line per device, and nothing of steps
  2 and 3.
\<close>

theorem gpu_detection:
  assumes "cuda_is_available h = Inr True" "cuda_device_count h = Inr n"
    and "\<forall>i<n. cuda_get_device_properties h i = Inr (props i)"
    and "\<exists>i<n. props_total_memory (props i) \<noteq> 0"
  shows "\<exists>v_mem ram_gb.
           (\<forall>i<n. int_truediv (uint (props_total_memory (props i))) (1024 ^ 3) = Inr (v_mem i))
           \<and> get_hardware_capacity h =
               Inr ((foldl fadd (Fin 0) (map v_mem [0..<n]), ''cuda'', ram_gb, platform_system h,
                     map (\<lambda>i. \<lparr>gpu_name = props_name (props i), gpu_vram = v_mem i\<rparr>) [0..<n]),
                    [''### Hardware Audit: '' @ platform_system h @ '' ###'',
                     ''* System RAM: '' @ format_float 2 ram_gb @ '' GB'',
                     ''* Backend: NVIDIA CUDA ('' @ str_nat n @ '' devices)''] @
                    map (\<lambda>i. ''  - GPU '' @ str_nat i @ '': '' @ props_name (props i) @ '' | '' @
                             format_float 2 (v_mem i) @ '' GB VRAM'') [0..<n])"
proof -
  let ?v = "\<lambda>i. Fin (gigabytes (props_total_memory (props i)))"
  let ?s1 = "check_nvidia_gpu h (audit_start h)"
  have s1: "?s1 = (audit_start h)
      \<lparr>st_device_type := ''cuda'',
       st_console := st_console (audit_start h) @
         [''* Backend: NVIDIA CUDA ('' @ str_nat n @ '' devices)''] @
         map (\<lambda>i. ''  - GPU '' @ str_nat i @ '': '' @ props_name (props i) @ '' | '' @
                  format_float 2 (?v i) @ '' GB VRAM'') [0..<n],
       st_gpu_details := st_gpu_details (audit_start h) @
         map (\<lambda>i. \<lparr>gpu_name = props_name (props i), gpu_vram = ?v i\<rparr>) [0..<n],
       st_vram_gb := foldl fadd (st_vram_gb (audit_start h)) (map ?v [0..<n])\<rparr>"
    using assms(1,2,3) by (rule check_nvidia_gpu_all)
  have "st_vram_gb ?s1 = foldl fadd (Fin 0) (map ?v [0..<n])"
    unfolding s1 by (simp add: audit_start_def)
  then have nz: "\<not> feq (st_vram_gb ?s1) (Fin 0)"
    using gpu_sum_nonzero[OF assms(4)] by simp
  have "finish_audit h (Fin (gigabytes (virtual_memory_total h))) ?s1 = ?s1"
    using nz by (rule finish_audit_nonzero)
  then have "get_hardware_capacity h = Inr (capacity_of h ?s1, st_console ?s1)"
    by (simp add: get_hardware_capacity_steps Let_def)
  then have a: "get_hardware_capacity h =
      Inr ((foldl fadd (Fin 0) (map ?v [0..<n]), ''cuda'', Fin (gigabytes (virtual_memory_total h)),
            platform_system h,
            map (\<lambda>i. \<lparr>gpu_name = props_name (props i), gpu_vram = ?v i\<rparr>) [0..<n]),
           [''### Hardware Audit: '' @ platform_system h @ '' ###'',
            ''* System RAM: '' @ format_float 2 (Fin (gigabytes (virtual_memory_total h))) @ '' GB'',
            ''* Backend: NVIDIA CUDA ('' @ str_nat n @ '' devices)''] @
           map (\<lambda>i. ''  - GPU '' @ str_nat i @ '': '' @ props_name (props i) @ '' | '' @
                    format_float 2 (?v i) @ '' GB VRAM'') [0..<n])"
    unfolding s1 by (simp add: capacity_of_def audit_start_def)
  have b: "\<forall>i<n. int_truediv (uint (props_total_memory (props i))) (1024 ^ 3) = Inr (?v i)"
    by (simp add: int_truediv_bytes)
  show ?thesis
    by (rule exI[of _ ?v], rule exI[of _ "Fin (gigabytes (virtual_memory_total h))"])
      (intro conjI a b)
qed

lemma to_float_8: "to_float 8 = Fin 8" using to_float_int[of 8] by simp

lemma to_float_12: "to_float 12 = Fin 12" using to_float_int[of 12] by simp

lemma to_float_0: "to_float 0 = Fin 0" using to_float_int[of 0] by simp

lemma fmul_16_half: "fmul (Fin 16) CPU_USABLE_MEMORY_RATIO = Fin 8"
  using fmul_cpu_ratio[of 17179869184] by (simp add: gigabytes_16)

theorem gpu_detection_witness:
  "cuda_is_available one_gpu_host = Inr True \<and> cuda_device_count one_gpu_host = Inr 1
   \<and> cuda_get_device_properties one_gpu_host 0 =
       Inr \<lparr>props_name = ''Test GPU'', props_total_memory = 8589934592\<rparr>
   \<and> probe_capacity one_gpu_host =
       Some (Fin 8, ''cuda'', Fin 16, ''Linux'', [\<lparr>gpu_name = ''Test GPU'', gpu_vram = Fin 8\<rparr>])"
proof -
  let ?p = "\<lambda>i::nat. \<lparr>props_name = ''Test GPU'', props_total_memory = 8589934592 :: 64 word\<rparr>"
  have h: "cuda_is_available one_gpu_host = Inr True" "cuda_device_count one_gpu_host = Inr 1"
    "\<forall>i<1. cuda_get_device_properties one_gpu_host i = Inr (?p i)"
    "\<exists>i<1. props_total_memory (?p i) \<noteq> 0"
    by (simp_all add: one_gpu_host_def example_host_def)
  from gpu_detection[OF h] obtain v_mem ram_gb out where
    v: "\<forall>i<1. int_truediv (uint (props_total_memory (?p i))) (1024 ^ 3) = Inr (v_mem i)"
    and g: "get_hardware_capacity one_gpu_host =
       Inr ((foldl fadd (Fin 0) (map v_mem [0..<1]), ''cuda'', ram_gb, platform_system one_gpu_host,
             map (\<lambda>i. \<lparr>gpu_name = props_name (?p i), gpu_vram = v_mem i\<rparr>) [0..<1]), out)"
    by blast
  have "v_mem 0 = Fin 8"
    using v int_truediv_bytes[of "8589934592 :: 64 word"] by (simp add: gigabytes_8)
  moreover have "ram_gb = Fin 16"
    using g by (simp add: get_hardware_capacity_steps capacity_of_def Let_def one_gpu_host_def
        example_host_def gigabytes_16)
  ultimately have "probe_capacity one_gpu_host =
      Some (Fin 8, ''cuda'', Fin 16, ''Linux'', [\<lparr>gpu_name = ''Test GPU'', gpu_vram = Fin 8\<rparr>])"
    using g by (simp add: probe_capacity_def to_float_8 one_gpu_host_def example_host_def)
  then show ?thesis using h by simp
qed

text \<open>Some lines of the console, evaluated.\<close>

lemma char_of_digits:
  "char_of (48::nat) = CHR ''0''" "char_of (49::nat) = CHR ''1''" "char_of (50::nat) = CHR ''2''"
  "char_of (54::nat) = CHR ''6''" "char_of (56::nat) = CHR ''8''"
  by code_simp+

lemma str_nat_digit: "n < 10 \<Longrightarrow> str_nat n = [digit_char n]"
  by (simp add: str_nat.simps)

lemma format_float_16: "format_float 2 (Fin 16) = ''16.00''"
  by (simp add: format_float.simps round_half_even_def str_nat.simps[of 1600] str_nat.simps[of 16]
      str_nat_digit digit_char_def Let_def char_of_digits)

lemma format_float_8: "format_float 2 (Fin 8) = ''8.00''"
  by (simp add: format_float.simps round_half_even_def str_nat.simps[of 800]
      str_nat_digit digit_char_def Let_def char_of_digits)

lemma format_float_0: "format_float 2 (Fin 0) = ''0.00''"
  by (simp add: format_float.simps round_half_even_def
      str_nat_digit digit_char_def Let_def char_of_digits)

lemma format_float_12: "format_float 2 (Fin 12) = ''12.00''"
  by (simp add: format_float.simps round_half_even_def str_nat.simps[of 1200] str_nat.simps[of 12]
      str_nat_digit digit_char_def Let_def char_of_digits)

lemma fmul_16_three_quarters: "fmul (Fin 16) MPS_USABLE_MEMORY_RATIO = Fin 12"
proof -
  have "fmul (Fin 16) (Fin (3 / 4)) = Fin (round_double (16 * (3 / 4)))"
    by (rule fmul_ratio(1)) simp_all
  then show ?thesis using round_double_int[of 12] by (simp add: MPS_USABLE_MEMORY_RATIO_def)
qed

lemma zero_memory_gpu_step1:
  assumes "cuda_is_available h = Inr True" "cuda_device_count h = Inr 1"
    and "cuda_get_device_properties h 0 = Inr \<lparr>props_name = ''Test GPU'', props_total_memory = 0\<rparr>"
    and "virtual_memory_total h = 17179869184" "platform_system h = ''Linux''"
  shows "check_nvidia_gpu h (audit_start h) =
           \<lparr>st_device_type = ''cuda'', st_vram_gb = Fin 0,
            st_gpu_details = [\<lparr>gpu_name = ''Test GPU'', gpu_vram = Fin 0\<rparr>],
            st_console = [''### Hardware Audit: Linux ###'', ''* System RAM: 16.00 GB'',
                          ''* Backend: NVIDIA CUDA (1 devices)'',
                          ''  - GPU 0: Test GPU | 0.00 GB VRAM'']\<rparr>"
proof -
  let ?p = "\<lambda>i::nat. \<lparr>props_name = ''Test GPU'', props_total_memory = 0 :: 64 word\<rparr>"
  have "\<forall>i<1. cuda_get_device_properties h i = Inr (?p i)" using assms(3) by simp
  from check_nvidia_gpu_all[OF assms(1,2) this, of "audit_start h"] show ?thesis
    by (simp add: audit_start_def assms(4,5) gigabytes_zero gigabytes_16 to_float_0
        format_float_16 format_float_0 str_nat_digit digit_char_def char_of_digits)
qed

text \<open>
  \<^bold>\<open>C4\<close>. The code at a host with CUDA available whose one device reports a memory size of
  0: the CUDA backend line and the device line are printed and the device is listed, yet
  \<^verbatim>\<open>vram_gb == 0\<close> lets steps 2 and 3 run, and the probe returns the device type \<open>cpu\<close> with
  half of the RAM, or \<open>mps\<close> with three quarters of it when MPS is available. The comment
  on the guard reads "Only check if CUDA wasn't found".
\<close>

theorem zero_memory_gpu_falls_back:
  "cuda_is_available zero_memory_gpu_host = Inr True
   \<and> cuda_device_count zero_memory_gpu_host = Inr 1
   \<and> cuda_get_device_properties zero_memory_gpu_host 0 =
       Inr \<lparr>props_name = ''Test GPU'', props_total_memory = 0\<rparr>
   \<and> get_hardware_capacity zero_memory_gpu_host =
       Inr ((Fin 8, ''cpu'', Fin 16, ''Linux'', [\<lparr>gpu_name = ''Test GPU'', gpu_vram = Fin 0\<rparr>]),
            [''### Hardware Audit: Linux ###'',
             ''* System RAM: 16.00 GB'',
             ''* Backend: NVIDIA CUDA (1 devices)'',
             ''  - GPU 0: Test GPU | 0.00 GB VRAM'',
             ''* Backend: CPU Only (Not recommended for large models)'',
             ''* Estimated Usable Memory: 8.00 GB''])
   \<and> run_get_hardware_capacity utf8_terminal zero_memory_gpu_host =
       get_hardware_capacity zero_memory_gpu_host
   \<and> get_hardware_capacity zero_memory_gpu_mps_host =
       Inr ((Fin 12, ''mps'', Fin 16, ''Linux'', [\<lparr>gpu_name = ''Test GPU'', gpu_vram = Fin 0\<rparr>]),
            [''### Hardware Audit: Linux ###'',
             ''* System RAM: 16.00 GB'',
             ''* Backend: NVIDIA CUDA (1 devices)'',
             ''  - GPU 0: Test GPU | 0.00 GB VRAM'',
             ''* Backend: Apple Metal Performance Shaders (MPS)'',
             ''* Unified Memory: 16.00 GB (Est. Usable for AI: 12.00 GB)''])"
proof -
  let ?h = zero_memory_gpu_host
  let ?m = zero_memory_gpu_mps_host
  have h: "cuda_is_available ?h = Inr True" "cuda_device_count ?h = Inr 1"
    "cuda_get_device_properties ?h 0 = Inr \<lparr>props_name = ''Test GPU'', props_total_memory = 0\<rparr>"
    "virtual_memory_total ?h = 17179869184" "platform_system ?h = ''Linux''"
    by (simp_all add: zero_memory_gpu_host_def example_host_def)
  have m: "cuda_is_available ?m = Inr True" "cuda_device_count ?m = Inr 1"
    "cuda_get_device_properties ?m 0 = Inr \<lparr>props_name = ''Test GPU'', props_total_memory = 0\<rparr>"
    "virtual_memory_total ?m = 17179869184" "platform_system ?m = ''Linux''"
    by (simp_all add: zero_memory_gpu_mps_host_def zero_memory_gpu_host_def example_host_def)
  have a: "mps_is_available ?h = Inr False" "mps_is_available ?m = Inr True"
    by (simp_all add: zero_memory_gpu_mps_host_def zero_memory_gpu_host_def example_host_def)
  have c: "get_hardware_capacity ?h =
       Inr ((Fin 8, ''cpu'', Fin 16, ''Linux'', [\<lparr>gpu_name = ''Test GPU'', gpu_vram = Fin 0\<rparr>]),
            [''### Hardware Audit: Linux ###'',
             ''* System RAM: 16.00 GB'',
             ''* Backend: NVIDIA CUDA (1 devices)'',
             ''  - GPU 0: Test GPU | 0.00 GB VRAM'',
             ''* Backend: CPU Only (Not recommended for large models)'',
             ''* Estimated Usable Memory: 8.00 GB''])"
    unfolding get_hardware_capacity_steps zero_memory_gpu_step1[OF h]
    by (simp add: finish_audit_def check_apple_silicon_def mps_try_def fallback_to_cpu_def
        capacity_of_def a h(4,5) gigabytes_16 fmul_16_half format_float_8 Let_def)
  have d: "get_hardware_capacity ?m =
       Inr ((Fin 12, ''mps'', Fin 16, ''Linux'', [\<lparr>gpu_name = ''Test GPU'', gpu_vram = Fin 0\<rparr>]),
            [''### Hardware Audit: Linux ###'',
             ''* System RAM: 16.00 GB'',
             ''* Backend: NVIDIA CUDA (1 devices)'',
             ''  - GPU 0: Test GPU | 0.00 GB VRAM'',
             ''* Backend: Apple Metal Performance Shaders (MPS)'',
             ''* Unified Memory: 16.00 GB (Est. Usable for AI: 12.00 GB)''])"
    unfolding get_hardware_capacity_steps zero_memory_gpu_step1[OF m]
    by (simp add: finish_audit_def check_apple_silicon_def mps_try_def fallback_to_cpu_def
        capacity_of_def a m(4,5) gigabytes_16 fmul_16_three_quarters format_float_12
        format_float_16 Let_def)
  have r: "run_get_hardware_capacity utf8_terminal ?h = get_hardware_capacity ?h"
    by (rule run_get_hardware_capacity_accepted) (simp_all add: utf8_terminal_def)
  show ?thesis using h(1,2,3) c d r by simp
qed

section \<open>Exceptions in the probe, and the whole run\<close>






lemma mps_failure_logged:
  assumes "cuda_is_available h \<noteq> Inr True" "mps_is_available h = Inl e"
  shows "mps_except e \<in> set (probe_console h)"
proof -
  have z: "st_vram_gb (check_nvidia_gpu h (audit_start h)) = Fin 0"
    using check_nvidia_gpu_absent(1)[OF assms(1), of "audit_start h"] by (simp add: audit_start_def)
  show ?thesis
    using finish_audit_zero(5)[OF z assms(2), of "Fin (gigabytes (virtual_memory_total h))"]
    by (simp add: probe_steps)
qed





lemma py_prints_rejected:
  assumes "\<And>k. print_error rt k b \<noteq> None" "b \<in> set ss"
  shows "\<exists>e. py_prints rt out ss = Inl e"
  using assms(2)
proof (induction ss arbitrary: out)
  case Nil
  then show ?case by simp
next
  case (Cons s ss)
  show ?case
  proof (cases "py_print rt out s")
    case (Inl e)
    then show ?thesis by simp
  next
    case (Inr out')
    then have "s \<noteq> b" using assms(1)[of "length out"] by (auto simp: py_print_def)
    then have "b \<in> set ss" using Cons.prems by simp
    from Cons.IH[OF this, of out'] show ?thesis using Inr by simp
  qed
qed

lemma run_recommend_models_cpu_rejected:
  assumes "\<And>k. print_error rt k cpu_note \<noteq> None"
  shows "\<exists>e. run_recommend_models rt out vram_gb ''cpu'' = Inl e"
proof (cases "recommend_models vram_gb ''cpu''")
  case (Inl e)
  then show ?thesis by (rule run_recommend_models_raises)
next
  case (Inr a)
  obtain res lines where a: "a = (res, lines)" by (cases a)
  have "cpu_note \<in> set lines"
    using recommend_models_cpu_note[of vram_gb res lines] Inr a by (simp add: cpu_note_def)
  from py_prints_rejected[OF assms this] obtain e where "py_prints rt out lines = Inl e" by blast
  then show ?thesis using run_recommend_models_prints[of vram_gb "''cpu''" res lines rt out] Inr a
    by simp
qed












section \<open>The exit status\<close>

lemma run_cuda_try_absent:
  assumes "cuda_is_available h \<noteq> Inr True"
  shows "snd (run_cuda_try rt h s) = s"
  using assms by (auto simp: run_cuda_try_def split: sum.splits)

lemma run_check_nvidia_gpu_absent:
  assumes "cuda_is_available h \<noteq> Inr True" "run_check_nvidia_gpu rt h s = Inr s'"
  shows "st_vram_gb s' = st_vram_gb s" "st_device_type s' = st_device_type s"
    "st_gpu_details s' = st_gpu_details s"
  using assms run_cuda_try_absent[OF assms(1), of rt s]
  by (auto simp: run_check_nvidia_gpu_def split: prod.splits option.splits sum.splits)

lemma run_mps_try_absent:
  assumes "mps_is_available h \<noteq> Inr True"
  shows "snd (run_mps_try rt h ram_gb s) = s"
  using assms by (auto simp: run_mps_try_def split: sum.splits)

lemma run_check_apple_silicon_absent:
  assumes "mps_is_available h \<noteq> Inr True" "run_check_apple_silicon rt h ram_gb s = Inr s'"
  shows "st_vram_gb s' = st_vram_gb s" "st_device_type s' = st_device_type s"
    "st_gpu_details s' = st_gpu_details s"
  using assms run_mps_try_absent[OF assms(1), of rt ram_gb s]
  by (auto simp: run_check_apple_silicon_def split: prod.splits option.splits sum.splits)

lemma run_fallback_to_cpu_type:
  assumes "run_fallback_to_cpu rt ram_gb s = Inr s'"
  shows "st_device_type s' = ''cpu''"
  using assms by (auto simp: run_fallback_to_cpu_def Let_def split: sum.splits)

lemma run_get_hardware_capacity_cpu:
  assumes "cuda_is_available h \<noteq> Inr True" "mps_is_available h \<noteq> Inr True"
    and "run_get_hardware_capacity rt h = Inr ((vram_gb, device_type, rest), out)"
  shows "device_type = ''cpu''"
proof -
  from assms(3) obtain ram_gb out0 s1 s2 s3 where
    s1: "run_check_nvidia_gpu rt h
           \<lparr>st_device_type = ''cpu'', st_vram_gb = Fin 0, st_gpu_details = [], st_console = out0\<rparr>
         = Inr s1"
    and s2: "(if feq (st_vram_gb s1) (Fin 0) then run_check_apple_silicon rt h ram_gb s1
              else Inr s1) = Inr s2"
    and s3: "(if feq (st_vram_gb s2) (Fin 0) then run_fallback_to_cpu rt ram_gb s2
              else Inr s2) = Inr s3"
    and d: "device_type = st_device_type s3"
    unfolding run_get_hardware_capacity_def Let_def
    by (auto split: option.splits sum.splits)
  have v1: "st_vram_gb s1 = Fin 0"
    using run_check_nvidia_gpu_absent(1)[OF assms(1) s1] by simp
  then have a: "run_check_apple_silicon rt h ram_gb s1 = Inr s2" using s2 by simp
  have v2: "st_vram_gb s2 = Fin 0"
    using run_check_apple_silicon_absent(1)[OF assms(2) a] v1 by simp
  then have "run_fallback_to_cpu rt ram_gb s2 = Inr s3" using s3 by simp
  then show ?thesis using d run_fallback_to_cpu_type by simp
qed

lemma main_raises_at_cpu_note:
  assumes "\<And>k. print_error rt k cpu_note \<noteq> None"
    and "cuda_is_available h \<noteq> Inr True" "mps_is_available h \<noteq> Inr True"
  shows "\<exists>e. main rt h output_path = Inl e"
proof (cases "run_get_hardware_capacity rt h")
  case (Inl e)
  then show ?thesis by (simp add: main_def)
next
  case (Inr a)
  obtain vram_gb device_type ram_gb system gpu_details out1 where
    a: "a = ((vram_gb, device_type, ram_gb, system, gpu_details), out1)"
    by (cases a) auto
  have "device_type = ''cpu''"
    using run_get_hardware_capacity_cpu[OF assms(2,3)] Inr a by blast
  moreover obtain e where "run_recommend_models rt out1 vram_gb ''cpu'' = Inl e"
    using run_recommend_models_cpu_rejected[OF assms(1)] by blast
  ultimately show ?thesis using Inr a by (simp add: main_def)
qed

lemma main_raises_in_handler:
  assumes "\<And>k. print_error rt k (main_except e) \<noteq> None"
    and "\<And>c. write_text h output_path c = Some e"
  shows "\<exists>e'. main rt h output_path = Inl e'"
proof -
  have "\<exists>e'. main_handlers rt e out html_content saved = Inl e'" for out html_content saved
    using assms(1)[of "length out"]
    by (auto simp: main_handlers_def py_print_def split: option.splits)
  then show ?thesis
    unfolding main_def Let_def
    by (auto simp: assms(2) split: sum.splits prod.splits)
qed

lemma ascii_rejects_cpu_note: "print_error ascii_terminal k cpu_note \<noteq> None"
  by (simp add: ascii_terminal_def ascii_text_def cpu_note_def)

lemma ascii_rejects_main_except: "print_error ascii_terminal k (main_except e) \<noteq> None"
  by (simp add: ascii_terminal_def ascii_text_def main_except_def)













section \<open>The report\<close>

lemma generate_html_report_fields:
  "generate_html_report system ram_gb device_type vram_gb max_params gpu_details
     recommended_models timestamp =
   concat (report_fields system ram_gb device_type vram_gb max_params gpu_details
     recommended_models timestamp)"
  by (simp add: generate_html_report_def report_fields_def gpu_html_of_def models_html_of_def
      Let_def split: prod.splits)

lemma sublist_concat_member: "x \<in> set xs \<Longrightarrow> sublist x (concat xs)"
proof -
  assume "x \<in> set xs"
  then obtain as bs where "xs = as @ x # bs" by (auto simp: in_set_conv_decomp)
  then have "concat xs = concat as @ x @ concat bs" by simp
  then show ?thesis by (simp only: sublist_appendI)
qed

lemma sublist_concat_adjacent:
  assumes "xs = as @ a # [] # b # bs"
  shows "sublist (a @ b) (concat xs)"
proof -
  have "concat xs = concat as @ (a @ b) @ concat bs" using assms by simp
  then show ?thesis by (simp only: sublist_appendI)
qed

lemma report_contains_system:
  "sublist system (generate_html_report system ram_gb device_type vram_gb max_params gpu_details
     recommended_models timestamp)"
  unfolding generate_html_report_fields
  by (rule sublist_concat_member) (simp add: report_fields_def)

lemma report_contains_ram:
  "sublist (format_float 1 ram_gb) (generate_html_report system ram_gb device_type vram_gb
     max_params gpu_details recommended_models timestamp)"
  unfolding generate_html_report_fields
  by (rule sublist_concat_member) (simp add: report_fields_def)

lemma report_contains_warning:
  "sublist warning_box (generate_html_report system ram_gb ''cpu'' vram_gb
     max_params gpu_details recommended_models timestamp)"
  unfolding generate_html_report_fields
  by (rule sublist_concat_member) (simp add: report_fields_def cpu_warning_def)

lemma report_without_devices:
  assumes "gpu_details = None \<or> gpu_details = Some []"
  shows "sublist (html_template_17 @ html_template_18)
           (generate_html_report system ram_gb device_type vram_gb max_params gpu_details
              recommended_models timestamp)"
proof -
  have g: "gpu_grid (gpu_html_of gpu_details) = []"
    using assms by (auto simp: gpu_grid_def gpu_html_of_def)
  show ?thesis
    unfolding generate_html_report_fields
    by (rule sublist_concat_adjacent[where as = "[html_template_00,
         snd (performance_tier vram_gb),
         html_template_01,
         snd (performance_tier vram_gb),
         html_template_02,
         snd (performance_tier vram_gb),
         html_template_03,
         snd (snd (backend_info device_type)),
         html_template_04,
         snd (snd (backend_info device_type)),
         html_template_05,
         snd (snd (backend_info device_type)),
         html_template_06,
         snd (snd (backend_info device_type)),
         html_template_07,
         snd (snd (backend_info device_type)),
         html_template_08,
         snd (snd (backend_info device_type)),
         html_template_09,
         snd (snd (backend_info device_type)),
         html_template_10,
         fst (performance_tier vram_gb),
         html_template_11,
         system,
         html_template_12,
         format_float 1 ram_gb,
         html_template_13,
         format_float 1 vram_gb,
         html_template_14,
         str_int max_params,
         html_template_15,
         fst (snd (backend_info device_type)),
         html_template_16,
         fst (backend_info device_type)]"])
      (simp add: report_fields_def g)
qed

lemma report_without_warning:
  assumes "device_type \<noteq> ''cpu''"
  shows "sublist (html_template_19 @ html_template_20)
           (generate_html_report system ram_gb device_type vram_gb max_params gpu_details
              recommended_models timestamp)"
proof -
  have g: "cpu_warning device_type = []"
    using assms by (simp add: cpu_warning_def)
  show ?thesis
    unfolding generate_html_report_fields
    by (rule sublist_concat_adjacent[where as = "[html_template_00,
         snd (performance_tier vram_gb),
         html_template_01,
         snd (performance_tier vram_gb),
         html_template_02,
         snd (performance_tier vram_gb),
         html_template_03,
         snd (snd (backend_info device_type)),
         html_template_04,
         snd (snd (backend_info device_type)),
         html_template_05,
         snd (snd (backend_info device_type)),
         html_template_06,
         snd (snd (backend_info device_type)),
         html_template_07,
         snd (snd (backend_info device_type)),
         html_template_08,
         snd (snd (backend_info device_type)),
         html_template_09,
         snd (snd (backend_info device_type)),
         html_template_10,
         fst (performance_tier vram_gb),
         html_template_11,
         system,
         html_template_12,
         format_float 1 ram_gb,
         html_template_13,
         format_float 1 vram_gb,
         html_template_14,
         str_int max_params,
         html_template_15,
         fst (snd (backend_info device_type)),
         html_template_16,
         fst (backend_info device_type),
         html_template_17,
         gpu_grid (gpu_html_of gpu_details),
         html_template_18,
         models_html_of recommended_models]"])
      (simp add: report_fields_def g)
qed

section \<open>Scanning the report for a marker\<close>

lemma scan_append:
  "scan p r (a @ b) = (case scan p r a of None \<Rightarrow> None | Some r' \<Rightarrow> scan p r' b)"
  by (induction a arbitrary: r) (auto simp: Let_def split: list.splits)

lemma clean_append: "clean p a \<Longrightarrow> clean p b \<Longrightarrow> clean p (a @ b)"
  by (simp add: clean_def scan_append)

lemma matched_step:
  assumes p: "p = c # q" "c \<notin> set q"
    and m: "matched p k t"
    and r1: "r1 = (if x = p ! k then drop (Suc k) p else if x = c then q else p)" "r1 \<noteq> []"
  shows "\<exists>k'. r1 = drop k' p \<and> matched p k' (t @ [x])"
proof -
  have k: "k < length p" and ns: "\<not> sublist p t"
    and uniq: "\<And>j. 0 < j \<Longrightarrow> j < length p \<Longrightarrow> suffix (take j p) t \<Longrightarrow> j = k"
    using m by (auto simp: matched_def)
  define k' where "k' = (if x = p ! k then Suc k else if x = c then 1 else 0)"
  have r1': "r1 = drop k' p" using r1(1) p(1) by (simp add: k'_def)
  have k'lt: "k' < length p" using r1(2) r1' by (cases "k' < length p") simp_all
  have nth0: "p ! 0 = c" using p(1) by simp
  have later: "p ! i \<noteq> c" if i0: "0 < i" and il: "i < length p" for i
  proof -
    obtain i' where "i = Suc i'" using i0 by (cases i) auto
    then have "p ! i = q ! i'" "i' < length q" using il p(1) by simp_all
    then have "p ! i \<in> set q" by simp
    then show ?thesis using p(2) by auto
  qed
  have step: "j = k'" if j: "0 < j" "j \<le> length p" and s: "suffix (take j p) (t @ [x])" for j
  proof -
    obtain i where i: "j = Suc i" using j(1) by (cases j) auto
    then have il: "i < length p" using j(2) by simp
    have "take j p = take i p @ [p ! i]" using i il by (simp add: take_Suc_conv_app_nth)
    then have x: "x = p ! i" and si: "suffix (take i p) t" using s by simp_all
    show ?thesis
    proof (cases "i = 0")
      case False
      then have "i = k" using uniq[of i] il si by simp
      then show ?thesis using x i by (simp add: k'_def)
    next
      case True
      then have xc: "x = c" using x nth0 by simp
      show ?thesis
      proof (cases "k = 0")
        case True
        then show ?thesis using xc nth0 i \<open>i = 0\<close> by (simp add: k'_def)
      next
        case False
        then have "p ! k \<noteq> c" using later[of k] k by simp
        then show ?thesis using xc i \<open>i = 0\<close> by (simp add: k'_def)
      qed
    qed
  qed
  have "\<not> sublist p (t @ [x])"
  proof
    assume "sublist p (t @ [x])"
    then have "suffix p (t @ [x])" using ns by (simp add: sublist_snoc)
    then have "suffix (take (length p) p) (t @ [x])" by simp
    then have "length p = k'" using step[of "length p"] p(1) by simp
    then show False using k'lt by simp
  qed
  moreover have "\<forall>j. 0 < j \<and> j < length p \<and> suffix (take j p) (t @ [x]) \<longrightarrow> j = k'"
    using step less_imp_le by blast
  ultimately have "matched p k' (t @ [x])" using k'lt by (simp add: matched_def)
  then show ?thesis using r1' by blast
qed

lemma scan_matched:
  assumes p: "p = c # q" "c \<notin> set q"
    and "matched p k t" "scan p (drop k p) u = Some r"
  shows "\<exists>k'. r = drop k' p \<and> matched p k' (t @ u)"
  using assms(3,4)
proof (induction u arbitrary: k t)
  case Nil
  then show ?case by auto
next
  case (Cons x xs)
  have k: "k < length p" using Cons.prems(1) by (simp add: matched_def)
  then have d: "drop k p = p ! k # drop (Suc k) p" by (simp add: Cons_nth_drop_Suc)
  define r1 where "r1 = (if x = p ! k then drop (Suc k) p else if x = c then q else p)"
  have sc: "r1 \<noteq> []" "scan p r1 xs = Some r"
    using Cons.prems(2) p(1) unfolding d r1_def
    by (auto simp: Let_def split: if_splits)
  from matched_step[OF p Cons.prems(1) r1_def sc(1)]
  obtain k1 where k1: "r1 = drop k1 p" "matched p k1 (t @ [x])" by blast
  from Cons.IH[OF k1(2)] sc(2) k1(1) show ?case by simp
qed

lemma clean_no_sublist:
  assumes "p = c # q" "c \<notin> set q" "clean p s"
  shows "\<not> sublist p s"
proof -
  have "matched p 0 []" using assms(1) by (simp add: matched_def)
  moreover have "scan p (drop 0 p) s = Some p" using assms(3) by (simp add: clean_def)
  ultimately obtain k' where "matched p k' ([] @ s)"
    using scan_matched[OF assms(1,2)] by blast
  then show ?thesis by (simp add: matched_def)
qed

lemma clean_Nil: "clean p []"
  by (simp add: clean_def)

lemma clean_concat: "(\<And>s. s \<in> set ss \<Longrightarrow> clean p s) \<Longrightarrow> clean p (concat ss)"
  by (induction ss) (simp_all add: clean_Nil clean_append)

lemma clean_without_head:
  assumes "p = c # q" "q \<noteq> []" "c \<notin> set s"
  shows "clean p s"
  using assms(3) unfolding clean_def
  by (induction s) (auto simp: assms(1,2) Let_def)

lemma digit_char_no_markup: "d < 10 \<Longrightarrow> digit_char d \<noteq> CHR ''<''"
proof
  assume d: "d < 10" and "digit_char d = CHR ''<''"
  then have "of_char (char_of (48 + d) :: char) = (of_char CHR ''<'' :: nat)"
    by (simp add: digit_char_def)
  then show False using d by simp
qed

lemma str_nat_no_markup: "no_markup (str_nat n)"
proof (induction n rule: str_nat.induct)
  case (1 n)
  show ?case
  proof (cases "n < 10")
    case True
    then show ?thesis
      using digit_char_no_markup[of n] by (subst str_nat.simps) (auto simp: no_markup_def)
  next
    case False
    have "n mod 10 < 10" by simp
    then have "digit_char (n mod 10) \<noteq> CHR ''<''" by (rule digit_char_no_markup)
    then show ?thesis
      using False 1 by (subst str_nat.simps) (auto simp: no_markup_def)
  qed
qed

lemma str_int_no_markup: "no_markup (str_int i)"
  using str_nat_no_markup by (simp add: str_int_def no_markup_def)

lemma format_float_no_markup: "no_markup (format_float p x)"
  using str_nat_no_markup
  by (cases x) (auto simp: format_float.simps no_markup_def Let_def)

lemma performance_tier_no_markup:
  "no_markup (fst (performance_tier v))" "no_markup (snd (performance_tier v))"
  by (simp_all add: performance_tier_def no_markup_def)

lemma backend_info_no_markup:
  "no_markup (fst (backend_info d))" "no_markup (fst (snd (backend_info d)))"
  "no_markup (snd (snd (backend_info d)))"
  by (simp_all add: backend_info_def no_markup_def)

lemma gpu_grid_open_shape:
  "\<exists>q. gpu_grid_open = CHR ''<'' # q \<and> CHR ''<'' \<notin> set q \<and> q \<noteq> []"
  by (simp add: gpu_grid_open_def)

lemma warning_box_open_shape:
  "\<exists>q. warning_box_open = CHR ''<'' # q \<and> CHR ''<'' \<notin> set q \<and> q \<noteq> []"
  by (simp add: warning_box_open_def)

lemma gg_plain: "no_markup s \<Longrightarrow> clean gpu_grid_open s"
  using gpu_grid_open_shape clean_without_head[of gpu_grid_open "CHR ''<''" _ s]
  by (auto simp: no_markup_def)

lemma wb_plain: "no_markup s \<Longrightarrow> clean warning_box_open s"
  using warning_box_open_shape clean_without_head[of warning_box_open "CHR ''<''" _ s]
  by (auto simp: no_markup_def)

lemma gg_html_template_00: "clean gpu_grid_open html_template_00"
  unfolding html_template_00_def
  by (intro clean_append)? (simp_all add: clean_def gpu_grid_open_def)

lemma gg_html_template_01: "clean gpu_grid_open html_template_01"
  unfolding html_template_01_def
  by (intro clean_append)? (simp_all add: clean_def gpu_grid_open_def)

lemma gg_html_template_02: "clean gpu_grid_open html_template_02"
  unfolding html_template_02_def
  by (intro clean_append)? (simp_all add: clean_def gpu_grid_open_def)

lemma gg_html_template_03: "clean gpu_grid_open html_template_03"
  unfolding html_template_03_def
  by (intro clean_append)? (simp_all add: clean_def gpu_grid_open_def)

lemma gg_html_template_04: "clean gpu_grid_open html_template_04"
  unfolding html_template_04_def
  by (intro clean_append)? (simp_all add: clean_def gpu_grid_open_def)

lemma gg_html_template_05: "clean gpu_grid_open html_template_05"
  unfolding html_template_05_def
  by (intro clean_append)? (simp_all add: clean_def gpu_grid_open_def)

lemma gg_html_template_06: "clean gpu_grid_open html_template_06"
  unfolding html_template_06_def
  by (intro clean_append)? (simp_all add: clean_def gpu_grid_open_def)

lemma gg_html_template_07: "clean gpu_grid_open html_template_07"
  unfolding html_template_07_def
  by (intro clean_append)? (simp_all add: clean_def gpu_grid_open_def)

lemma gg_html_template_08: "clean gpu_grid_open html_template_08"
  unfolding html_template_08_def
  by (intro clean_append)? (simp_all add: clean_def gpu_grid_open_def)

lemma gg_html_template_09: "clean gpu_grid_open html_template_09"
  unfolding html_template_09_def
  by (intro clean_append)? (simp_all add: clean_def gpu_grid_open_def)

lemma gg_html_template_10: "clean gpu_grid_open html_template_10"
  unfolding html_template_10_def
  by (intro clean_append)? (simp_all add: clean_def gpu_grid_open_def)

lemma gg_html_template_11: "clean gpu_grid_open html_template_11"
  unfolding html_template_11_def
  by (intro clean_append)? (simp_all add: clean_def gpu_grid_open_def)

lemma gg_html_template_12: "clean gpu_grid_open html_template_12"
  unfolding html_template_12_def
  by (intro clean_append)? (simp_all add: clean_def gpu_grid_open_def)

lemma gg_html_template_13: "clean gpu_grid_open html_template_13"
  unfolding html_template_13_def
  by (intro clean_append)? (simp_all add: clean_def gpu_grid_open_def)

lemma gg_html_template_14: "clean gpu_grid_open html_template_14"
  unfolding html_template_14_def
  by (intro clean_append)? (simp_all add: clean_def gpu_grid_open_def)

lemma gg_html_template_15: "clean gpu_grid_open html_template_15"
  unfolding html_template_15_def
  by (intro clean_append)? (simp_all add: clean_def gpu_grid_open_def)

lemma gg_html_template_16: "clean gpu_grid_open html_template_16"
  unfolding html_template_16_def
  by (intro clean_append)? (simp_all add: clean_def gpu_grid_open_def)

lemma gg_html_template_17: "clean gpu_grid_open html_template_17"
  unfolding html_template_17_def
  by (intro clean_append)? (simp_all add: clean_def gpu_grid_open_def)

lemma gg_html_template_18: "clean gpu_grid_open html_template_18"
  unfolding html_template_18_def
  by (intro clean_append)? (simp_all add: clean_def gpu_grid_open_def)

lemma gg_html_template_19: "clean gpu_grid_open html_template_19"
  unfolding html_template_19_def
  by (intro clean_append)? (simp_all add: clean_def gpu_grid_open_def)

lemma gg_html_template_20: "clean gpu_grid_open html_template_20"
  unfolding html_template_20_def
  by (intro clean_append)? (simp_all add: clean_def gpu_grid_open_def)

lemma gg_html_template_21: "clean gpu_grid_open html_template_21"
  unfolding html_template_21_def
  by (intro clean_append)? (simp_all add: clean_def gpu_grid_open_def)

lemma gg_warning_box: "clean gpu_grid_open warning_box"
  unfolding warning_box_def
  by (intro clean_append)? (simp_all add: clean_def gpu_grid_open_def)

lemmas gg_literals = gg_html_template_00 gg_html_template_01 gg_html_template_02 gg_html_template_03 gg_html_template_04 gg_html_template_05 gg_html_template_06 gg_html_template_07 gg_html_template_08 gg_html_template_09 gg_html_template_10 gg_html_template_11 gg_html_template_12 gg_html_template_13 gg_html_template_14 gg_html_template_15 gg_html_template_16 gg_html_template_17 gg_html_template_18 gg_html_template_19 gg_html_template_20 gg_html_template_21 gg_warning_box

lemma wb_html_template_00: "clean warning_box_open html_template_00"
  unfolding html_template_00_def
  by (intro clean_append)? (simp_all add: clean_def warning_box_open_def)

lemma wb_html_template_01: "clean warning_box_open html_template_01"
  unfolding html_template_01_def
  by (intro clean_append)? (simp_all add: clean_def warning_box_open_def)

lemma wb_html_template_02: "clean warning_box_open html_template_02"
  unfolding html_template_02_def
  by (intro clean_append)? (simp_all add: clean_def warning_box_open_def)

lemma wb_html_template_03: "clean warning_box_open html_template_03"
  unfolding html_template_03_def
  by (intro clean_append)? (simp_all add: clean_def warning_box_open_def)

lemma wb_html_template_04: "clean warning_box_open html_template_04"
  unfolding html_template_04_def
  by (intro clean_append)? (simp_all add: clean_def warning_box_open_def)

lemma wb_html_template_05: "clean warning_box_open html_template_05"
  unfolding html_template_05_def
  by (intro clean_append)? (simp_all add: clean_def warning_box_open_def)

lemma wb_html_template_06: "clean warning_box_open html_template_06"
  unfolding html_template_06_def
  by (intro clean_append)? (simp_all add: clean_def warning_box_open_def)

lemma wb_html_template_07: "clean warning_box_open html_template_07"
  unfolding html_template_07_def
  by (intro clean_append)? (simp_all add: clean_def warning_box_open_def)

lemma wb_html_template_08: "clean warning_box_open html_template_08"
  unfolding html_template_08_def
  by (intro clean_append)? (simp_all add: clean_def warning_box_open_def)

lemma wb_html_template_09: "clean warning_box_open html_template_09"
  unfolding html_template_09_def
  by (intro clean_append)? (simp_all add: clean_def warning_box_open_def)

lemma wb_html_template_10: "clean warning_box_open html_template_10"
  unfolding html_template_10_def
  by (intro clean_append)? (simp_all add: clean_def warning_box_open_def)

lemma wb_html_template_11: "clean warning_box_open html_template_11"
  unfolding html_template_11_def
  by (intro clean_append)? (simp_all add: clean_def warning_box_open_def)

lemma wb_html_template_12: "clean warning_box_open html_template_12"
  unfolding html_template_12_def
  by (intro clean_append)? (simp_all add: clean_def warning_box_open_def)

lemma wb_html_template_13: "clean warning_box_open html_template_13"
  unfolding html_template_13_def
  by (intro clean_append)? (simp_all add: clean_def warning_box_open_def)

lemma wb_html_template_14: "clean warning_box_open html_template_14"
  unfolding html_template_14_def
  by (intro clean_append)? (simp_all add: clean_def warning_box_open_def)

lemma wb_html_template_15: "clean warning_box_open html_template_15"
  unfolding html_template_15_def
  by (intro clean_append)? (simp_all add: clean_def warning_box_open_def)

lemma wb_html_template_16: "clean warning_box_open html_template_16"
  unfolding html_template_16_def
  by (intro clean_append)? (simp_all add: clean_def warning_box_open_def)

lemma wb_html_template_17: "clean warning_box_open html_template_17"
  unfolding html_template_17_def
  by (intro clean_append)? (simp_all add: clean_def warning_box_open_def)

lemma wb_html_template_18: "clean warning_box_open html_template_18"
  unfolding html_template_18_def
  by (intro clean_append)? (simp_all add: clean_def warning_box_open_def)

lemma wb_html_template_19: "clean warning_box_open html_template_19"
  unfolding html_template_19_def
  by (intro clean_append)? (simp_all add: clean_def warning_box_open_def)

lemma wb_html_template_20: "clean warning_box_open html_template_20"
  unfolding html_template_20_def
  by (intro clean_append)? (simp_all add: clean_def warning_box_open_def)

lemma wb_html_template_21: "clean warning_box_open html_template_21"
  unfolding html_template_21_def
  by (intro clean_append)? (simp_all add: clean_def warning_box_open_def)

lemmas wb_literals = wb_html_template_00 wb_html_template_01 wb_html_template_02 wb_html_template_03 wb_html_template_04 wb_html_template_05 wb_html_template_06 wb_html_template_07 wb_html_template_08 wb_html_template_09 wb_html_template_10 wb_html_template_11 wb_html_template_12 wb_html_template_13 wb_html_template_14 wb_html_template_15 wb_html_template_16 wb_html_template_17 wb_html_template_18 wb_html_template_19 wb_html_template_20 wb_html_template_21

lemma gg_model_card:
  assumes "no_markup n" "no_markup d"
  shows "clean gpu_grid_open (model_card (n, d))"
proof -
  have dyn: "clean gpu_grid_open n" "clean gpu_grid_open d"
    using assms by (simp_all add: gg_plain)
  show ?thesis
    unfolding model_card_def prod.case
    by (intro clean_append dyn) (simp_all add: clean_def gpu_grid_open_def)
qed

lemma wb_model_card:
  assumes "no_markup n" "no_markup d"
  shows "clean warning_box_open (model_card (n, d))"
proof -
  have dyn: "clean warning_box_open n" "clean warning_box_open d"
    using assms by (simp_all add: wb_plain)
  show ?thesis
    unfolding model_card_def prod.case
    by (intro clean_append dyn) (simp_all add: clean_def warning_box_open_def)
qed

lemma wb_gpu_card:
  assumes "no_markup (gpu_name g)"
  shows "clean warning_box_open (gpu_card g)"
proof -
  have dyn: "clean warning_box_open (gpu_name g)"
    "clean warning_box_open (format_float 2 (gpu_vram g))"
    using assms by (simp_all add: wb_plain format_float_no_markup)
  show ?thesis
    unfolding gpu_card_def
    by (intro clean_append dyn) (simp_all add: clean_def warning_box_open_def)
qed

lemma gg_models_html:
  assumes "plain_models recommended_models"
  shows "clean gpu_grid_open (models_html_of recommended_models)"
proof (cases recommended_models)
  case None
  then show ?thesis by (simp add: models_html_of_def clean_Nil)
next
  case (Some ms)
  have "clean gpu_grid_open s" if s: "s \<in> set (map model_card ms)" for s
  proof -
    obtain n d where "(n, d) \<in> set ms" "s = model_card (n, d)" using s by auto
    then show ?thesis
      using assms Some gg_model_card[of n d] by (auto simp: plain_models_def list_all_iff)
  qed
  then have "clean gpu_grid_open (concat (map model_card ms))" by (rule clean_concat)
  then show ?thesis using Some by (simp add: models_html_of_def)
qed

lemma wb_models_html:
  assumes "plain_models recommended_models"
  shows "clean warning_box_open (models_html_of recommended_models)"
proof (cases recommended_models)
  case None
  then show ?thesis by (simp add: models_html_of_def clean_Nil)
next
  case (Some ms)
  have "clean warning_box_open s" if s: "s \<in> set (map model_card ms)" for s
  proof -
    obtain n d where "(n, d) \<in> set ms" "s = model_card (n, d)" using s by auto
    then show ?thesis
      using assms Some wb_model_card[of n d] by (auto simp: plain_models_def list_all_iff)
  qed
  then have "clean warning_box_open (concat (map model_card ms))" by (rule clean_concat)
  then show ?thesis using Some by (simp add: models_html_of_def)
qed

lemma wb_gpu_grid:
  assumes "plain_devices gpu_details"
  shows "clean warning_box_open (gpu_grid (gpu_html_of gpu_details))"
proof -
  have g: "clean warning_box_open (gpu_html_of gpu_details)"
  proof (cases gpu_details)
    case None
    then show ?thesis by (simp add: gpu_html_of_def clean_Nil)
  next
    case (Some gs)
    have "clean warning_box_open s" if "s \<in> set (map gpu_card gs)" for s
      using that assms Some wb_gpu_card by (auto simp: plain_devices_def list_all_iff)
    then have "clean warning_box_open (concat (map gpu_card gs))" by (rule clean_concat)
    then show ?thesis using Some by (simp add: gpu_html_of_def)
  qed
  have l1: \<open>clean warning_box_open ''<div class="gpu-grid">''\<close>
    and l2: "clean warning_box_open ''</div>''"
    by (simp_all add: clean_def warning_box_open_def)
  show ?thesis
  proof (cases "gpu_html_of gpu_details = []")
    case True
    then show ?thesis by (simp add: gpu_grid_def clean_Nil)
  next
    case False
    then have \<open>gpu_grid (gpu_html_of gpu_details) =
        ''<div class="gpu-grid">'' @ gpu_html_of gpu_details @ ''</div>''\<close>
      by (simp add: gpu_grid_def)
    then show ?thesis by (simp only: clean_append l1 l2 g)
  qed
qed

lemma gg_cpu_warning: "clean gpu_grid_open (cpu_warning device_type)"
  by (simp add: cpu_warning_def clean_Nil gg_warning_box)

lemma report_no_gpu_grid:
  assumes "gpu_details = None \<or> gpu_details = Some []"
    and "no_markup system" "no_markup timestamp" "plain_models recommended_models"
  shows "\<not> sublist gpu_grid_open
           (generate_html_report system ram_gb device_type vram_gb max_params gpu_details
              recommended_models timestamp)"
proof -
  have g: "gpu_grid (gpu_html_of gpu_details) = []"
    using assms(1) by (auto simp: gpu_grid_def gpu_html_of_def)
  have "list_all (clean gpu_grid_open)
          (report_fields system ram_gb device_type vram_gb max_params gpu_details
             recommended_models timestamp)"
    unfolding report_fields_def
    using assms(2-4)
    by (simp add: g clean_Nil gg_literals gg_plain gg_models_html gg_cpu_warning
        performance_tier_no_markup backend_info_no_markup format_float_no_markup
        str_int_no_markup)
  then have "clean gpu_grid_open
          (concat (report_fields system ram_gb device_type vram_gb max_params gpu_details
             recommended_models timestamp))"
    by (intro clean_concat) (simp add: list_all_iff)
  moreover obtain q where "gpu_grid_open = CHR ''<'' # q" "CHR ''<'' \<notin> set q"
    using gpu_grid_open_shape by blast
  ultimately show ?thesis
    unfolding generate_html_report_fields by (intro clean_no_sublist)
qed

lemma report_no_warning_box:
  assumes "device_type \<noteq> ''cpu''"
    and "no_markup system" "no_markup timestamp" "plain_models recommended_models"
    and "plain_devices gpu_details"
  shows "\<not> sublist warning_box_open
           (generate_html_report system ram_gb device_type vram_gb max_params gpu_details
              recommended_models timestamp)"
proof -
  have g: "cpu_warning device_type = []"
    using assms(1) by (simp add: cpu_warning_def)
  have "list_all (clean warning_box_open)
          (report_fields system ram_gb device_type vram_gb max_params gpu_details
             recommended_models timestamp)"
    unfolding report_fields_def
    using assms(2-5)
    by (simp add: g clean_Nil wb_literals wb_plain wb_models_html wb_gpu_grid
        performance_tier_no_markup backend_info_no_markup format_float_no_markup
        str_int_no_markup)
  then have "clean warning_box_open
          (concat (report_fields system ram_gb device_type vram_gb max_params gpu_details
             recommended_models timestamp))"
    by (intro clean_concat) (simp add: list_all_iff)
  moreover obtain q where "warning_box_open = CHR ''<'' # q" "CHR ''<'' \<notin> set q"
    using warning_box_open_shape by blast
  ultimately show ?thesis
    unfolding generate_html_report_fields by (intro clean_no_sublist)
qed

lemma warning_box_has_marker: "sublist warning_box_open warning_box"
proof -
  have "\<exists>pre post. warning_box = pre @ warning_box_open @ post"
    unfolding warning_box_def warning_box_open_def
    by (rule exI[of _ "''\<newline>            ''"]) simp
  then show ?thesis by (auto simp: sublist_def)
qed

section \<open>What the report shows\<close>

text \<open>
  \<^bold>\<open>C8\<close>. The rendered document contains the operating-system name and the RAM value
  formatted with one decimal. When \<^verbatim>\<open>gpu_details\<close> is \<^verbatim>\<open>None\<close> or empty, no device section is
  emitted: the text before the device field is followed at once by the text after it, and
  (the interpolated strings are not escaped, so for a system name, time stamp and model
  texts without \<open><\<close>) the opening tag of the device grid occurs nowhere in the document.
\<close>

theorem report_contents:
  "let html = generate_html_report system ram_gb device_type vram_gb max_params gpu_details
                recommended_models timestamp
   in sublist system html \<and> sublist (format_float 1 ram_gb) html
      \<and> (gpu_details = None \<or> gpu_details = Some [] \<longrightarrow>
           sublist (html_template_17 @ html_template_18) html
           \<and> (no_markup system \<and> no_markup timestamp \<and> plain_models recommended_models \<longrightarrow>
                \<not> sublist gpu_grid_open html))"
proof -
  define html where "html = generate_html_report system ram_gb device_type vram_gb max_params
    gpu_details recommended_models timestamp"
  have a: "sublist system html" "sublist (format_float 1 ram_gb) html"
    unfolding html_def by (rule report_contains_system, rule report_contains_ram)
  have b: "sublist (html_template_17 @ html_template_18) html"
    if "gpu_details = None \<or> gpu_details = Some []"
    unfolding html_def using that by (rule report_without_devices)
  have c: "\<not> sublist gpu_grid_open html"
    if "gpu_details = None \<or> gpu_details = Some []" "no_markup system" "no_markup timestamp"
      "plain_models recommended_models"
    unfolding html_def using that by (rule report_no_gpu_grid)
  show ?thesis unfolding Let_def html_def[symmetric] using a b c by blast
qed

theorem report_contents_witness:
  "no_markup ''Linux'' \<and> no_markup ''January 21, 2026 at 09:00 AM''
   \<and> plain_models (Some standard_models)
   \<and> sublist ''Linux''
         (generate_html_report ''Linux'' (Fin 16) ''cpu'' (Fin 8) 8 None (Some standard_models)
            ''January 21, 2026 at 09:00 AM'')
   \<and> \<not> sublist gpu_grid_open
         (generate_html_report ''Linux'' (Fin 16) ''cpu'' (Fin 8) 8 None (Some standard_models)
            ''January 21, 2026 at 09:00 AM'')
   \<and> \<not> sublist gpu_grid_open
         (generate_html_report ''Linux'' (Fin 16) ''cpu'' (Fin 8) 8 (Some []) (Some standard_models)
            ''January 21, 2026 at 09:00 AM'')"
proof -
  have h: "no_markup ''Linux''" "no_markup ''January 21, 2026 at 09:00 AM''"
    "plain_models (Some standard_models)"
    by (simp_all add: no_markup_def plain_models_def standard_models_def)
  show ?thesis
    using h
      report_contents[of "''Linux''" "Fin 16" "''cpu''" "Fin 8" 8 None "Some standard_models"
        "''January 21, 2026 at 09:00 AM''"]
      report_contents[of "''Linux''" "Fin 16" "''cpu''" "Fin 8" 8 "Some []" "Some standard_models"
        "''January 21, 2026 at 09:00 AM''"]
    by (simp add: Let_def)
qed

text \<open>
  \<^bold>\<open>C9\<close>. The warning panel is part of the document when \<open>device_type\<close> is \<open>cpu\<close>, and for
  every other device type nothing is emitted in its place; for interpolated strings
  without \<open><\<close> the opening tag of the panel occurs in the document if and only if
  \<open>device_type\<close> is \<open>cpu\<close>.
\<close>

theorem cpu_warning_panel:
  "let html = generate_html_report system ram_gb device_type vram_gb max_params gpu_details
                recommended_models timestamp
   in (device_type = ''cpu'' \<longrightarrow> sublist warning_box html)
      \<and> (device_type \<noteq> ''cpu'' \<longrightarrow> sublist (html_template_19 @ html_template_20) html)
      \<and> (no_markup system \<and> no_markup timestamp \<and> plain_models recommended_models
           \<and> plain_devices gpu_details \<longrightarrow>
           (sublist warning_box_open html \<longleftrightarrow> device_type = ''cpu''))"
proof -
  define html where "html = generate_html_report system ram_gb device_type vram_gb max_params
    gpu_details recommended_models timestamp"
  have a: "sublist warning_box html" if "device_type = ''cpu''"
    unfolding html_def that by (rule report_contains_warning)
  then have b: "sublist warning_box_open html" if "device_type = ''cpu''"
    using that warning_box_has_marker by (auto simp: sublist_def) (metis append.assoc)
  have c: "sublist (html_template_19 @ html_template_20) html" if "device_type \<noteq> ''cpu''"
    unfolding html_def using that by (rule report_without_warning)
  have d: "\<not> sublist warning_box_open html"
    if "device_type \<noteq> ''cpu''" "no_markup system" "no_markup timestamp"
      "plain_models recommended_models" "plain_devices gpu_details"
    unfolding html_def using that by (rule report_no_warning_box)
  show ?thesis unfolding Let_def html_def[symmetric] using a b c d by blast
qed

theorem cpu_warning_panel_witness:
  "no_markup ''Linux'' \<and> no_markup ''January 21, 2026 at 09:00 AM''
   \<and> plain_models (Some standard_models)
   \<and> plain_devices (Some [\<lparr>gpu_name = ''Test GPU'', gpu_vram = Fin 8\<rparr>])
   \<and> sublist warning_box
         (generate_html_report ''Linux'' (Fin 16) ''cpu'' (Fin 8) 8 None (Some standard_models)
            ''January 21, 2026 at 09:00 AM'')
   \<and> \<not> sublist warning_box_open
         (generate_html_report ''Linux'' (Fin 16) ''cuda'' (Fin 8) 8
            (Some [\<lparr>gpu_name = ''Test GPU'', gpu_vram = Fin 8\<rparr>]) (Some standard_models)
            ''January 21, 2026 at 09:00 AM'')
   \<and> \<not> sublist warning_box_open
         (generate_html_report ''Darwin'' (Fin 16) ''mps'' (Fin 12) 13 None (Some standard_models)
            ''January 21, 2026 at 09:00 AM'')"
proof -
  have h: "no_markup ''Linux''" "no_markup ''Darwin''" "no_markup ''January 21, 2026 at 09:00 AM''"
    "plain_models (Some standard_models)" "plain_devices None"
    "plain_devices (Some [\<lparr>gpu_name = ''Test GPU'', gpu_vram = Fin 8\<rparr>])"
    by (simp_all add: no_markup_def plain_models_def plain_devices_def standard_models_def)
  show ?thesis
    using h
      cpu_warning_panel[of "''Linux''" "Fin 16" "''cpu''" "Fin 8" 8 None "Some standard_models"
        "''January 21, 2026 at 09:00 AM''"]
      cpu_warning_panel[of "''Linux''" "Fin 16" "''cuda''" "Fin 8" 8
        "Some [\<lparr>gpu_name = ''Test GPU'', gpu_vram = Fin 8\<rparr>]" "Some standard_models"
        "''January 21, 2026 at 09:00 AM''"]
      cpu_warning_panel[of "''Darwin''" "Fin 16" "''mps''" "Fin 12" 13 None "Some standard_models"
        "''January 21, 2026 at 09:00 AM''"]
    by (simp add: Let_def)
qed

end
